theory Spec2Isabelle
  imports Complex_Main "HOL-Library.Sublist" "HOL-Library.Log_Nat"
begin

section \<open>Python values, exceptions and strings\<close>

text \<open>
  The repository holds two variants of one Telegram bot: the richer one
  (\<^verbatim>\<open>src/code/render_start.py\<close>: AI conversation, stock quotes) and the simpler one
  (\<^verbatim>\<open>src/render_start.py\<close>: static replies and an echo). Both are embedded here. Definitions
  of the richer variant keep the names of the source; those of the simpler variant carry the
  suffix \<open>_simple\<close>.

  A Python \<^verbatim>\<open>str\<close> is represented by its UTF-8 encoding, a \<^typ>\<open>string\<close>: concatenation and
  equality, the only operations the bot applies to text besides \<^verbatim>\<open>upper()\<close>, agree with
  those of the encoded text. Characters outside printable ASCII are written as bytes.
\<close>

datatype exn =
    AttributeError
  | IndexError
  | KeyError
  | TypeError
  | ValueError
  | ZeroDivisionError
  | OverflowError
  | LibraryError string

text \<open>
  A Python \<^verbatim>\<open>float\<close> is an IEEE-754 double: a finite value, held as the rational it
  denotes (\<open>Num 0\<close> is \<^verbatim>\<open>0.0\<close>), the negative zero, the two infinities, or NaN. The
  decoder of \<^verbatim>\<open>response.json()\<close> produces all of them.
\<close>

datatype fl = Num rat | NegZero | PosInf | NegInf | NaN

text \<open>
  The values \<^verbatim>\<open>response.json()\<close> can return, and the defaults the code passes to
  \<^verbatim>\<open>dict.get\<close>. A \<^verbatim>\<open>dict\<close> is an association list read with \<^const>\<open>map_of\<close>.
\<close>

datatype pyval =
    PNone
  | PBool bool
  | PInt int
  | PFloat fl
  | PStr string
  | PList "pyval list"
  | PDict "(string \<times> pyval) list"

definition bind_exn :: "exn + 'a \<Rightarrow> ('a \<Rightarrow> exn + 'b) \<Rightarrow> exn + 'b" where
  "bind_exn m f = (case m of Inl e \<Rightarrow> Inl e | Inr x \<Rightarrow> f x)"

text \<open>\<^verbatim>\<open>try: m  except Exception as e: h(e)\<close>\<close>

definition try_except :: "exn + 'a \<Rightarrow> (exn \<Rightarrow> exn + 'a) \<Rightarrow> exn + 'a" where
  "try_except m h = (case m of Inl e \<Rightarrow> h e | Inr x \<Rightarrow> Inr x)"

text \<open>\<^verbatim>\<open>str(n)\<close> for an \<^verbatim>\<open>int\<close>: decimal digits, with a leading minus sign.\<close>

fun str_nat :: "nat \<Rightarrow> string" where
  "str_nat n =
     (if n < 10 then [''0123456789'' ! n]
      else str_nat (n div 10) @ [''0123456789'' ! (n mod 10)])"

declare str_nat.simps [simp del]

definition str_int :: "int \<Rightarrow> string" where
  "str_int i = (if i < 0 then CHR ''-'' # str_nat (nat (- i)) else str_nat (nat i))"

text \<open>Truthiness of the result of \<^verbatim>\<open>os.getenv(name)\<close>: \<^verbatim>\<open>None\<close> and \<^verbatim>\<open>""\<close> are falsy.\<close>

fun truthy :: "string option \<Rightarrow> bool" where
  "truthy None = False"
| "truthy (Some s) = (s \<noteq> [])"

text \<open>\<^verbatim>\<open>d.get(key, default)\<close>; only a \<^verbatim>\<open>dict\<close> has the method.\<close>

fun py_get :: "pyval \<Rightarrow> string \<Rightarrow> pyval \<Rightarrow> exn + pyval" where
  "py_get (PDict kvs) k d = Inr (case map_of kvs k of Some v \<Rightarrow> v | None \<Rightarrow> d)"
| "py_get v k d = Inl AttributeError"

text \<open>
  \<^verbatim>\<open>v[0]\<close>. The keys of a decoded JSON object are strings, so the key \<^verbatim>\<open>0\<close> is never
  found in a \<^verbatim>\<open>dict\<close>. The first element of a \<^verbatim>\<open>str\<close> is its first code point: a leading
  byte with the continuation bytes that follow it.
\<close>

definition is_continuation :: "char \<Rightarrow> bool" where
  "is_continuation c = (128 \<le> (of_char c :: nat) \<and> (of_char c :: nat) < 192)"

fun py_index0 :: "pyval \<Rightarrow> exn + pyval" where
  "py_index0 (PList []) = Inl IndexError"
| "py_index0 (PList (x # xs)) = Inr x"
| "py_index0 (PStr []) = Inl IndexError"
| "py_index0 (PStr (c # cs)) = Inr (PStr (c # takeWhile is_continuation cs))"
| "py_index0 (PDict kvs) = Inl KeyError"
| "py_index0 v = Inl TypeError"

subsection \<open>Rounding to a double\<close>

text \<open>
  Round to nearest, ties to even, with 53 bits of precision, the least exponent \<open>-1074\<close> of
  the subnormal numbers, and overflow from the midpoint between the largest double and
  \<open>2 ^ 1024\<close> on.
\<close>

definition overflow_threshold :: rat where
  "overflow_threshold = 2 ^ 1024 - 2 ^ 970"

text \<open>The exponent \<open>e\<close> with \<open>2 ^ e \<le> x < 2 ^ (e + 1)\<close>, for a positive \<open>x\<close>.\<close>

definition floor_log2 :: "rat \<Rightarrow> int" where
  "floor_log2 x = (if 1 \<le> x then bitlen \<lfloor>x\<rfloor> - 1 else - bitlen (\<lceil>1 / x\<rceil> - 1))"

definition round_half_even :: "rat \<Rightarrow> int" where
  "round_half_even y =
     (let f = \<lfloor>y\<rfloor>; d = y - of_int f
      in if d < 1 / 2 then f else if 1 / 2 < d then f + 1 else if even f then f else f + 1)"

text \<open>The nearest multiple of the unit in the last place of a positive \<open>x\<close>.\<close>

definition round_pos :: "rat \<Rightarrow> rat" where
  "round_pos x =
     (let q = max (floor_log2 x - 52) (- 1074)
      in of_int (round_half_even (x / 2 powi q)) * 2 powi q)"

text \<open>A value that rounds to zero keeps its sign.\<close>

definition fl_round :: "rat \<Rightarrow> fl" where
  "fl_round x =
     (if overflow_threshold \<le> \<bar>x\<bar> then (if 0 < x then PosInf else NegInf)
      else (let r = round_pos \<bar>x\<bar>
            in if r = 0 then (if x < 0 then NegZero else Num 0)
               else Num (if x < 0 then - r else r)))"

subsection \<open>Arithmetic of doubles\<close>

fun fl_is_zero :: "fl \<Rightarrow> bool" where
  "fl_is_zero (Num r) = (r = 0)"
| "fl_is_zero NegZero = True"
| "fl_is_zero x = False"

fun fl_is_inf :: "fl \<Rightarrow> bool" where
  "fl_is_inf PosInf = True"
| "fl_is_inf NegInf = True"
| "fl_is_inf x = False"

text \<open>The sign bit; that of NaN plays no role.\<close>

fun fl_sign :: "fl \<Rightarrow> bool" where
  "fl_sign (Num r) = (r < 0)"
| "fl_sign NegZero = True"
| "fl_sign NegInf = True"
| "fl_sign x = False"

fun fl_val :: "fl \<Rightarrow> rat" where
  "fl_val (Num r) = r"
| "fl_val x = 0"

definition fl_zero :: "bool \<Rightarrow> fl" where
  "fl_zero negative = (if negative then NegZero else Num 0)"

definition fl_inf :: "bool \<Rightarrow> fl" where
  "fl_inf negative = (if negative then NegInf else PosInf)"

fun fl_neg :: "fl \<Rightarrow> fl" where
  "fl_neg (Num r) = (if r = 0 then NegZero else Num (- r))"
| "fl_neg NegZero = Num 0"
| "fl_neg PosInf = NegInf"
| "fl_neg NegInf = PosInf"
| "fl_neg NaN = NaN"

text \<open>
  The sum: an exact zero sum is \<^verbatim>\<open>0.0\<close>, except that of two negative zeros. The sum of two
  doubles never rounds to zero, and it overflows to an infinity.
\<close>

fun fl_add :: "fl \<Rightarrow> fl \<Rightarrow> fl" where
  "fl_add NaN y = NaN"
| "fl_add x NaN = NaN"
| "fl_add PosInf NegInf = NaN"
| "fl_add NegInf PosInf = NaN"
| "fl_add PosInf y = PosInf"
| "fl_add NegInf y = NegInf"
| "fl_add x PosInf = PosInf"
| "fl_add x NegInf = NegInf"
| "fl_add NegZero NegZero = NegZero"
| "fl_add NegZero (Num y) = Num y"
| "fl_add (Num x) NegZero = Num x"
| "fl_add (Num x) (Num y) = (if x + y = 0 then Num 0 else fl_round (x + y))"

definition fl_sub :: "fl \<Rightarrow> fl \<Rightarrow> fl" where
  "fl_sub x y = fl_add x (fl_neg y)"

text \<open>The product: the sign is the exclusive or of the signs; zero times infinity is NaN.\<close>

definition fl_mul :: "fl \<Rightarrow> fl \<Rightarrow> fl" where
  "fl_mul x y =
     (let negative = (fl_sign x \<noteq> fl_sign y)
      in if x = NaN \<or> y = NaN then NaN
         else if fl_is_inf x \<or> fl_is_inf y
         then (if fl_is_zero x \<or> fl_is_zero y then NaN else fl_inf negative)
         else if fl_is_zero x \<or> fl_is_zero y then fl_zero negative
         else fl_round (fl_val x * fl_val y))"

text \<open>
  The quotient by a divisor that is not a zero (Python raises before it divides by a zero):
  infinity by infinity is NaN, a finite value by infinity is a zero.
\<close>

definition fl_div :: "fl \<Rightarrow> fl \<Rightarrow> fl" where
  "fl_div x y =
     (let negative = (fl_sign x \<noteq> fl_sign y)
      in if x = NaN \<or> y = NaN then NaN
         else if fl_is_inf x then (if fl_is_inf y then NaN else fl_inf negative)
         else if fl_is_inf y then fl_zero negative
         else if fl_is_zero x then fl_zero negative
         else fl_round (fl_val x / fl_val y))"

text \<open>\<^verbatim>\<open>x < 0\<close> and \<^verbatim>\<open>x > 0\<close> on a double: false for both zeros and for NaN.\<close>

fun fl_lt_zero :: "fl \<Rightarrow> bool" where
  "fl_lt_zero (Num r) = (r < 0)"
| "fl_lt_zero NegInf = True"
| "fl_lt_zero x = False"

fun fl_gt_zero :: "fl \<Rightarrow> bool" where
  "fl_gt_zero (Num r) = (0 < r)"
| "fl_gt_zero PosInf = True"
| "fl_gt_zero x = False"

subsection \<open>Numbers\<close>

text \<open>
  The conversion of an \<^verbatim>\<open>int\<close> to a \<^verbatim>\<open>float\<close>: an \<^verbatim>\<open>int\<close> that would round to
  \<open>2 ^ 1024\<close> raises \<^verbatim>\<open>OverflowError\<close>.
\<close>

definition to_float :: "int \<Rightarrow> exn + fl" where
  "to_float i =
     (if overflow_threshold \<le> \<bar>of_int i\<bar> then Inl OverflowError
      else Inr (fl_round (of_int i)))"

text \<open>
  \<^verbatim>\<open>a / b\<close> on two \<^verbatim>\<open>int\<close>s: the quotient is rounded once; a zero dividend gives a zero
  with the sign of the divisor; a quotient too large for a double raises.
\<close>

definition int_true_div :: "int \<Rightarrow> int \<Rightarrow> exn + fl" where
  "int_true_div a b =
     (if b = 0 then Inl ZeroDivisionError
      else if a = 0 then Inr (fl_zero (b < 0))
      else if overflow_threshold \<le> \<bar>of_int a / of_int b\<bar> then Inl OverflowError
      else Inr (fl_round (of_int a / of_int b)))"

text \<open>The numbers among the values: \<^verbatim>\<open>bool\<close> is a subclass of \<^verbatim>\<open>int\<close>.\<close>

datatype number = NInt int | NFloat fl

fun number_of :: "pyval \<Rightarrow> number option" where
  "number_of (PInt i) = Some (NInt i)"
| "number_of (PBool b) = Some (NInt (if b then 1 else 0))"
| "number_of (PFloat x) = Some (NFloat x)"
| "number_of v = None"

text \<open>An operand of a \<^verbatim>\<open>float\<close> operation: an \<^verbatim>\<open>int\<close> is converted.\<close>

fun num_float :: "number \<Rightarrow> exn + fl" where
  "num_float (NInt i) = to_float i"
| "num_float (NFloat x) = Inr x"

text \<open>
  \<^verbatim>\<open>a - b\<close>: exact on two \<^verbatim>\<open>int\<close>s; otherwise both operands become doubles, the left
  one first. Values that are not numbers raise \<^verbatim>\<open>TypeError\<close>.
\<close>

fun num_sub :: "number \<Rightarrow> number \<Rightarrow> exn + pyval" where
  "num_sub (NInt i) (NInt j) = Inr (PInt (i - j))"
| "num_sub a b =
     bind_exn (num_float a) (\<lambda>x. bind_exn (num_float b) (\<lambda>y. Inr (PFloat (fl_sub x y))))"

definition py_sub :: "pyval \<Rightarrow> pyval \<Rightarrow> exn + pyval" where
  "py_sub a b =
     (case (number_of a, number_of b) of
        (Some x, Some y) \<Rightarrow> num_sub x y
      | _ \<Rightarrow> Inl TypeError)"

text \<open>
  \<^verbatim>\<open>a / b\<close>: true division, always a \<^verbatim>\<open>float\<close>. With a \<^verbatim>\<open>float\<close> operand both become
  doubles, and then a divisor that is a zero raises \<^verbatim>\<open>ZeroDivisionError\<close>.
\<close>

fun num_truediv :: "number \<Rightarrow> number \<Rightarrow> exn + pyval" where
  "num_truediv (NInt i) (NInt j) = bind_exn (int_true_div i j) (\<lambda>q. Inr (PFloat q))"
| "num_truediv a b =
     bind_exn (num_float a) (\<lambda>x. bind_exn (num_float b) (\<lambda>y.
       if fl_is_zero y then Inl ZeroDivisionError else Inr (PFloat (fl_div x y))))"

definition py_truediv :: "pyval \<Rightarrow> pyval \<Rightarrow> exn + pyval" where
  "py_truediv a b =
     (case (number_of a, number_of b) of
        (Some x, Some y) \<Rightarrow> num_truediv x y
      | _ \<Rightarrow> Inl TypeError)"

text \<open>
  \<^verbatim>\<open>a * b\<close> on numbers. The code multiplies only the result of a true division, a
  \<^verbatim>\<open>float\<close>, so the repetition of sequences is left out.
\<close>

fun num_mul :: "number \<Rightarrow> number \<Rightarrow> exn + pyval" where
  "num_mul (NInt i) (NInt j) = Inr (PInt (i * j))"
| "num_mul a b =
     bind_exn (num_float a) (\<lambda>x. bind_exn (num_float b) (\<lambda>y. Inr (PFloat (fl_mul x y))))"

definition py_mul :: "pyval \<Rightarrow> pyval \<Rightarrow> exn + pyval" where
  "py_mul a b =
     (case (number_of a, number_of b) of
        (Some x, Some y) \<Rightarrow> num_mul x y
      | _ \<Rightarrow> Inl TypeError)"

text \<open>\<^verbatim>\<open>v != "..."\<close> against a \<^verbatim>\<open>str\<close> literal: only an equal \<^verbatim>\<open>str\<close> is equal to it.\<close>

fun py_ne_str :: "pyval \<Rightarrow> string \<Rightarrow> bool" where
  "py_ne_str (PStr s) t = (s \<noteq> t)"
| "py_ne_str v t = True"

text \<open>\<^verbatim>\<open>v != 0\<close>: only a number of value zero is equal to \<^verbatim>\<open>0\<close>; NaN is not.\<close>

definition py_ne_zero :: "pyval \<Rightarrow> bool" where
  "py_ne_zero v =
     (case number_of v of
        Some (NInt i) \<Rightarrow> i \<noteq> 0
      | Some (NFloat x) \<Rightarrow> \<not> fl_is_zero x
      | None \<Rightarrow> True)"

text \<open>
  \<^verbatim>\<open>v < 0\<close> and \<^verbatim>\<open>v > 0\<close> against the \<^verbatim>\<open>int\<close> literal: defined on numbers, without a
  conversion.
\<close>

definition py_lt_zero :: "pyval \<Rightarrow> exn + bool" where
  "py_lt_zero v =
     (case number_of v of
        Some (NInt i) \<Rightarrow> Inr (i < 0)
      | Some (NFloat x) \<Rightarrow> Inr (fl_lt_zero x)
      | None \<Rightarrow> Inl TypeError)"

definition py_gt_zero :: "pyval \<Rightarrow> exn + bool" where
  "py_gt_zero v =
     (case number_of v of
        Some (NInt i) \<Rightarrow> Inr (0 < i)
      | Some (NFloat x) \<Rightarrow> Inr (fl_gt_zero x)
      | None \<Rightarrow> Inl TypeError)"

section \<open>The world outside the program\<close>

text \<open>
  What the HTTP client returns: the awaited call raises, or gives a response with a status
  code whose \<^verbatim>\<open>json()\<close> raises or decodes to a value.
\<close>

record response =
  status_code :: int
  json :: "exn + pyval"

text \<open>
  Everything the handlers take from outside: the answers of the two endpoints, the wall clock
  already formatted by \<^verbatim>\<open>strftime('%Y-%m-%d %H:%M:%S')\<close>, and the functions of the Python
  library whose tables are not part of the repository (\<^verbatim>\<open>str.upper\<close>, \<^verbatim>\<open>str\<close> of an
  exception, \<^verbatim>\<open>str\<close> of a value that is not a \<^verbatim>\<open>str\<close>, and the format \<^verbatim>\<open>+.2f\<close> of a double).
\<close>

record world =
  http_get :: "string \<Rightarrow> exn + response"
  http_post :: "string \<Rightarrow> (string \<times> string) list \<Rightarrow> pyval \<Rightarrow> exn + response"
  now :: string
  upper :: "string \<Rightarrow> string"
  exn_str :: "exn \<Rightarrow> string"
  value_str :: "pyval \<Rightarrow> string"
  signed_2f :: "fl \<Rightarrow> string"

text \<open>\<^verbatim>\<open>f"{v}"\<close>: a \<^verbatim>\<open>str\<close> is inserted as it is.\<close>

fun py_str :: "world \<Rightarrow> pyval \<Rightarrow> string" where
  "py_str w (PStr s) = s"
| "py_str w v = value_str w v"

text \<open>
  \<^verbatim>\<open>f"{v:+.2f}"\<close>: defined on numbers, an \<^verbatim>\<open>int\<close> being converted to a \<^verbatim>\<open>float\<close>
  first; a \<^verbatim>\<open>str\<close> raises \<^verbatim>\<open>ValueError\<close>, any other value \<^verbatim>\<open>TypeError\<close>.
\<close>

definition py_format_2f :: "world \<Rightarrow> pyval \<Rightarrow> exn + string" where
  "py_format_2f w v =
     (case number_of v of
        Some n \<Rightarrow> bind_exn (num_float n) (\<lambda>x. Inr (signed_2f w x))
      | None \<Rightarrow> (case v of PStr s \<Rightarrow> Inl ValueError | _ \<Rightarrow> Inl TypeError))"

text \<open>
  What a handler does, in order: messages sent to the chat and requests sent to the two
  endpoints. Logging is left out; it has no influence on the replies.
\<close>

datatype event =
    ReplyText string "string option"
  | EditText pyval
  | HttpGet string
  | HttpPost string "(string \<times> string) list" pyval

fun is_call :: "event \<Rightarrow> bool" where
  "is_call (HttpGet url) = True"
| "is_call (HttpPost url headers body) = True"
| "is_call e = False"

text \<open>
  An update that carries a new message, as the handlers read it: the sender's numeric id
  (\<^verbatim>\<open>update.effective_user.id\<close>, \<^verbatim>\<open>update.message.from_user.id\<close>), the text of the message and
  the arguments of a command (\<^verbatim>\<open>context.args\<close>). Which handler receives an update is decided
  by the transport library from the handlers registered in \<^verbatim>\<open>main\<close>; sending and editing
  a message are taken to succeed.
\<close>

record update =
  user_id :: int
  message_text :: string
  args :: "string list"

datatype command = Start | Help | Ping | Stock | Portfolio | Report | FreeText

text \<open>\<^verbatim>\<open>os.getenv(name, default)\<close> on the process environment.\<close>

definition getenv_default :: "(string \<rightharpoonup> string) \<Rightarrow> string \<Rightarrow> string \<Rightarrow> string" where
  "getenv_default environ name d = (case environ name of Some v \<Rightarrow> v | None \<Rightarrow> d)"

section \<open>The richer variant: \<^verbatim>\<open>src/code/render_start.py\<close>\<close>

subsection \<open>Configuration and start-up\<close>

record config =
  BOT_TOKEN :: string
  CHAT_ID :: string
  NEBULA_API_KEY :: string
  NEBULA_API_URL :: string

text \<open>
  The module-level code: the four variables are read, and the process exits with status 1
  when the token or the authorized identity is missing or empty. Past the two checks both
  are set, so \<^const>\<open>the\<close> reads a value that is there.
\<close>

definition startup :: "(string \<rightharpoonup> string) \<Rightarrow> int + config" where
  "startup environ =
     (let bot_token = environ ''TELEGRAM_BOT_TOKEN'';
          chat_id = environ ''TELEGRAM_CHAT_ID'';
          nebula_api_key = getenv_default environ ''NEBULA_API_KEY'' [];
          nebula_api_url = getenv_default environ ''NEBULA_API_URL'' ''https://api.nebula.gg''
      in if \<not> truthy bot_token then Inl 1
         else if \<not> truthy chat_id then Inl 1
         else Inr \<lparr>BOT_TOKEN = the bot_token, CHAT_ID = the chat_id,
                   NEBULA_API_KEY = nebula_api_key, NEBULA_API_URL = nebula_api_url\<rparr>)"

subsection \<open>Texts of the replies\<close>

text \<open>Lines 149, 186, 236, 260, 292, 312 and 333: the denial (a cross mark, then "sorry, you have no permission to use this Bot")\<close>

definition denial_text :: string where
  "denial_text =
     [CHR 0xE2, CHR 0x9D, CHR 0x8C] @ '' '' @ [CHR 0xE6, CHR 0x8A, CHR 0xB1, CHR 0xE6,
     CHR 0xAD, CHR 0x89, CHR 0xEF, CHR 0xBC, CHR 0x8C, CHR 0xE4, CHR 0xBD, CHR 0xA0,
     CHR 0xE6, CHR 0xB2, CHR 0x92, CHR 0xE6, CHR 0x9C, CHR 0x89, CHR 0xE4, CHR 0xBD,
     CHR 0xBF, CHR 0xE7, CHR 0x94, CHR 0xA8, CHR 0xE6, CHR 0xAD, CHR 0xA4] @ '' Bot '' @
     [CHR 0xE7, CHR 0x9A, CHR 0x84, CHR 0xE6, CHR 0xAC, CHR 0x8A, CHR 0xE9, CHR 0x99,
     CHR 0x90, CHR 0xE3, CHR 0x80, CHR 0x82]"

text \<open>Line 60: the advisory (a warning sign, then "the Nebula API Key is not set, the AI conversation cannot be used; please set NEBULA_API_KEY in the environment variables of Render")\<close>

definition advisory_text :: string where
  "advisory_text =
     [CHR 0xE2, CHR 0x9A, CHR 0xA0, CHR 0xEF, CHR 0xB8, CHR 0x8F] @ '' '' @ [CHR 0xE5,
     CHR 0xB0, CHR 0x9A, CHR 0xE6, CHR 0x9C, CHR 0xAA, CHR 0xE8, CHR 0xA8, CHR 0xAD,
     CHR 0xE5, CHR 0xAE, CHR 0x9A] @ '' Nebula API Key'' @ [CHR 0xEF, CHR 0xBC,
     CHR 0x8C, CHR 0xE7, CHR 0x84, CHR 0xA1, CHR 0xE6, CHR 0xB3, CHR 0x95, CHR 0xE4,
     CHR 0xBD, CHR 0xBF, CHR 0xE7, CHR 0x94, CHR 0xA8] @ '' AI '' @ [CHR 0xE5, CHR 0xB0,
     CHR 0x8D, CHR 0xE8, CHR 0xA9, CHR 0xB1, CHR 0xE5, CHR 0x8A, CHR 0x9F, CHR 0xE8,
     CHR 0x83, CHR 0xBD, CHR 0xE3, CHR 0x80, CHR 0x82, CHR 0x0A, CHR 0x0A, CHR 0xE8,
     CHR 0xAB, CHR 0x8B, CHR 0xE5, CHR 0x9C, CHR 0xA8] @ '' Render '' @ [CHR 0xE7,
     CHR 0x92, CHR 0xB0, CHR 0xE5, CHR 0xA2, CHR 0x83, CHR 0xE8, CHR 0xAE, CHR 0x8A,
     CHR 0xE6, CHR 0x95, CHR 0xB8, CHR 0xE4, CHR 0xB8, CHR 0xAD, CHR 0xE8, CHR 0xA8,
     CHR 0xAD, CHR 0xE5, CHR 0xAE, CHR 0x9A] @ '' NEBULA_API_KEY'' @ [CHR 0xE3,
     CHR 0x80, CHR 0x82]"

text \<open>Line 82: the default content ("unable to get a response")\<close>

definition no_content_text :: string where
  "no_content_text =
     [CHR 0xE7, CHR 0x84, CHR 0xA1, CHR 0xE6, CHR 0xB3, CHR 0x95, CHR 0xE5, CHR 0x8F,
     CHR 0x96, CHR 0xE5, CHR 0xBE, CHR 0x97, CHR 0xE5, CHR 0x9B, CHR 0x9E, CHR 0xE6,
     CHR 0x87, CHR 0x89]"

text \<open>Line 85: the failure text up to the status code (a cross mark, then "API call failed (HTTP "); a closing parenthesis follows the code\<close>

definition api_failed_prefix :: string where
  "api_failed_prefix =
     [CHR 0xE2, CHR 0x9D, CHR 0x8C] @ '' API '' @ [CHR 0xE5, CHR 0x91, CHR 0xBC,
     CHR 0xE5, CHR 0x8F, CHR 0xAB, CHR 0xE5, CHR 0xA4, CHR 0xB1, CHR 0xE6, CHR 0x95,
     CHR 0x97] @ '' (HTTP ''"

text \<open>Line 89: the error text up to the exception (a cross mark, then "an error occurred: ")\<close>

definition api_error_prefix :: string where
  "api_error_prefix =
     [CHR 0xE2, CHR 0x9D, CHR 0x8C] @ '' '' @ [CHR 0xE7, CHR 0x99, CHR 0xBC, CHR 0xE7,
     CHR 0x94, CHR 0x9F, CHR 0xE9, CHR 0x8C, CHR 0xAF, CHR 0xE8, CHR 0xAA, CHR 0xA4] @
     '': ''"

text \<open>Line 106: the address of the quote endpoint, up to the symbol\<close>

definition quote_url_prefix :: string where
  "quote_url_prefix =
     ''https://query1.finance.yahoo.com/v8/finance/chart/''"

text \<open>Line 134, constant part 1: a cross mark, then "unable to get "\<close>

definition quote_failed_part1 :: string where
  "quote_failed_part1 =
     [CHR 0xE2, CHR 0x9D, CHR 0x8C] @ '' '' @ [CHR 0xE7, CHR 0x84, CHR 0xA1, CHR 0xE6,
     CHR 0xB3, CHR 0x95, CHR 0xE5, CHR 0x8F, CHR 0x96, CHR 0xE5, CHR 0xBE, CHR 0x97] @
     '' ''"

text \<open>Line 134, constant part 2: " stock price information (HTTP ", with a full-width parenthesis\<close>

definition quote_failed_part2 :: string where
  "quote_failed_part2 =
     '' '' @ [CHR 0xE7, CHR 0x9A, CHR 0x84, CHR 0xE8, CHR 0x82, CHR 0xA1, CHR 0xE5,
     CHR 0x83, CHR 0xB9, CHR 0xE8, CHR 0xB3, CHR 0x87, CHR 0xE8, CHR 0xA8, CHR 0x8A,
     CHR 0xEF, CHR 0xBC, CHR 0x88] @ ''HTTP ''"

text \<open>Line 134, constant part 3: the closing full-width parenthesis\<close>

definition quote_failed_part3 :: string where
  "quote_failed_part3 =
     [CHR 0xEF, CHR 0xBC, CHR 0x89]"

text \<open>Line 138: a cross mark, then "query failed: "\<close>

definition quote_error_prefix :: string where
  "quote_error_prefix =
     [CHR 0xE2, CHR 0x9D, CHR 0x8C] @ '' '' @ [CHR 0xE6, CHR 0x9F, CHR 0xA5, CHR 0xE8,
     CHR 0xA9, CHR 0xA2, CHR 0xE5, CHR 0xA4, CHR 0xB1, CHR 0xE6, CHR 0x95, CHR 0x97] @
     '': ''"

text \<open>Line 123: the red circle\<close>

definition emoji_down :: string where
  "emoji_down =
     [CHR 0xF0, CHR 0x9F, CHR 0x94, CHR 0xB4]"

text \<open>Line 123: the green circle\<close>

definition emoji_up :: string where
  "emoji_up =
     [CHR 0xF0, CHR 0x9F, CHR 0x9F, CHR 0xA2]"

text \<open>Line 123: the white circle\<close>

definition emoji_flat :: string where
  "emoji_flat =
     [CHR 0xE2, CHR 0x9A, CHR 0xAA]"

text \<open>Lines 125 to 132, constant part 1: before the symbol\<close>

definition quote_block_part1 :: string where
  "quote_block_part1 =
     [CHR 0x0A, CHR 0xF0, CHR 0x9F, CHR 0x93, CHR 0x8A] @ '' **''"

text \<open>Lines 125 to 132, constant part 2: between the symbol and the price ("current price: ")\<close>

definition quote_block_part2 :: string where
  "quote_block_part2 =
     ''** '' @ [CHR 0xE5, CHR 0x8D, CHR 0xB3, CHR 0xE6, CHR 0x99, CHR 0x82, CHR 0xE8,
     CHR 0xB3, CHR 0x87, CHR 0xE8, CHR 0xA8, CHR 0x8A, CHR 0x0A, CHR 0x0A, CHR 0xF0,
     CHR 0x9F, CHR 0x92, CHR 0xB0] @ '' '' @ [CHR 0xE7, CHR 0x9B, CHR 0xAE, CHR 0xE5,
     CHR 0x89, CHR 0x8D, CHR 0xE5, CHR 0x83, CHR 0xB9, CHR 0xE6, CHR 0xA0, CHR 0xBC] @
     '': ''"

text \<open>Lines 125 to 132, constant part 3: between the price and the currency\<close>

definition quote_block_part3 :: string where
  "quote_block_part3 =
     '' ''"

text \<open>Lines 125 to 132, constant part 4: between the currency and the previous close ("previous close: ")\<close>

definition quote_block_part4 :: string where
  "quote_block_part4 =
     [CHR 0x0A, CHR 0xF0, CHR 0x9F, CHR 0x93, CHR 0x89] @ '' '' @ [CHR 0xE6, CHR 0x98,
     CHR 0xA8, CHR 0xE6, CHR 0x97, CHR 0xA5, CHR 0xE6, CHR 0x94, CHR 0xB6, CHR 0xE7,
     CHR 0x9B, CHR 0xA4] @ '': ''"

text \<open>Lines 125 to 132, constant part 5: between the previous close and the currency\<close>

definition quote_block_part5 :: string where
  "quote_block_part5 =
     '' ''"

text \<open>Lines 125 to 132, constant part 6: between the currency and the marker\<close>

definition quote_block_part6 :: string where
  "quote_block_part6 =
     [CHR 0x0A]"

text \<open>Lines 125 to 132, constant part 7: between the marker and the change ("change: ")\<close>

definition quote_block_part7 :: string where
  "quote_block_part7 =
     '' '' @ [CHR 0xE6, CHR 0xBC, CHR 0xB2, CHR 0xE8, CHR 0xB7, CHR 0x8C] @ '': ''"

text \<open>Lines 125 to 132, constant part 8: between the change and the percentage\<close>

definition quote_block_part8 :: string where
  "quote_block_part8 =
     '' (''"

text \<open>Lines 125 to 132, constant part 9: between the percentage and the time ("updated at: ")\<close>

definition quote_block_part9 :: string where
  "quote_block_part9 =
     ''%)'' @ [CHR 0x0A, CHR 0xF0, CHR 0x9F, CHR 0x95, CHR 0x90] @ '' '' @ [CHR 0xE6,
     CHR 0x9B, CHR 0xB4, CHR 0xE6, CHR 0x96, CHR 0xB0, CHR 0xE6, CHR 0x99, CHR 0x82,
     CHR 0xE9, CHR 0x96, CHR 0x93] @ '': ''"

text \<open>Lines 125 to 132, constant part 10: after the time\<close>

definition quote_block_part10 :: string where
  "quote_block_part10 =
     [CHR 0x0A]"

text \<open>Lines 152 to 176: the welcome text of the start command\<close>

definition welcome_message :: string where
  "welcome_message =
     [CHR 0x0A, CHR 0xF0, CHR 0x9F, CHR 0x91, CHR 0x8B] @ '' '' @ [CHR 0xE6, CHR 0xAD,
     CHR 0xA1, CHR 0xE8, CHR 0xBF, CHR 0x8E, CHR 0xE4, CHR 0xBD, CHR 0xBF, CHR 0xE7,
     CHR 0x94, CHR 0xA8] @ '' Alice AI '' @ [CHR 0xE5, CHR 0x8A, CHR 0xA9, CHR 0xE7,
     CHR 0x90, CHR 0x86, CHR 0xEF, CHR 0xBC, CHR 0x81, CHR 0x0A, CHR 0x0A, CHR 0xF0,
     CHR 0x9F, CHR 0xA4, CHR 0x96] @ '' **'' @ [CHR 0xE6, CHR 0x88, CHR 0x91, CHR 0xE8,
     CHR 0x83, CHR 0xBD, CHR 0xE5, CHR 0x81, CHR 0x9A, CHR 0xE4, CHR 0xBB, CHR 0x80,
     CHR 0xE9, CHR 0xBA, CHR 0xBC, CHR 0xEF, CHR 0xBC, CHR 0x9F] @ ''**'' @ [CHR 0x0A,
     CHR 0x0A, CHR 0xF0, CHR 0x9F, CHR 0x93, CHR 0x8A] @ '' **'' @ [CHR 0xE8, CHR 0x82,
     CHR 0xA1, CHR 0xE5, CHR 0x83, CHR 0xB9, CHR 0xE6, CHR 0x9F, CHR 0xA5, CHR 0xE8,
     CHR 0xA9, CHR 0xA2] @ ''**'' @ [CHR 0x0A, CHR 0xE2, CHR 0x80, CHR 0xA2] @
     '' /stock 2330.TW - '' @ [CHR 0xE6, CHR 0x9F, CHR 0xA5, CHR 0xE8, CHR 0xA9,
     CHR 0xA2, CHR 0xE5, CHR 0x8F, CHR 0xB0, CHR 0xE7, CHR 0xA9, CHR 0x8D, CHR 0xE9,
     CHR 0x9B, CHR 0xBB, CHR 0xE8, CHR 0x82, CHR 0xA1, CHR 0xE5, CHR 0x83, CHR 0xB9,
     CHR 0x0A, CHR 0xE2, CHR 0x80, CHR 0xA2] @ '' /stock AAPL - '' @ [CHR 0xE6,
     CHR 0x9F, CHR 0xA5, CHR 0xE8, CHR 0xA9, CHR 0xA2, CHR 0xE8, CHR 0x98, CHR 0x8B,
     CHR 0xE6, CHR 0x9E, CHR 0x9C, CHR 0xE8, CHR 0x82, CHR 0xA1, CHR 0xE5, CHR 0x83,
     CHR 0xB9, CHR 0x0A, CHR 0xE2, CHR 0x80, CHR 0xA2] @ '' /stock ^TWII - '' @
     [CHR 0xE6, CHR 0x9F, CHR 0xA5, CHR 0xE8, CHR 0xA9, CHR 0xA2, CHR 0xE5, CHR 0x8F,
     CHR 0xB0, CHR 0xE7, CHR 0x81, CHR 0xA3, CHR 0xE5, CHR 0x8A, CHR 0xA0, CHR 0xE6,
     CHR 0xAC, CHR 0x8A, CHR 0xE6, CHR 0x8C, CHR 0x87, CHR 0xE6, CHR 0x95, CHR 0xB8,
     CHR 0x0A, CHR 0x0A, CHR 0xF0, CHR 0x9F, CHR 0x92, CHR 0xAC] @ '' **AI '' @
     [CHR 0xE5, CHR 0xB0, CHR 0x8D, CHR 0xE8, CHR 0xA9, CHR 0xB1] @ ''**'' @ [CHR 0x0A,
     CHR 0xE2, CHR 0x80, CHR 0xA2] @ '' '' @ [CHR 0xE7, CHR 0x9B, CHR 0xB4, CHR 0xE6,
     CHR 0x8E, CHR 0xA5, CHR 0xE8, CHR 0xBC, CHR 0xB8, CHR 0xE5, CHR 0x85, CHR 0xA5,
     CHR 0xE4, CHR 0xBB, CHR 0xBB, CHR 0xE4, CHR 0xBD, CHR 0x95, CHR 0xE5, CHR 0x95,
     CHR 0x8F, CHR 0xE9, CHR 0xA1, CHR 0x8C, CHR 0xEF, CHR 0xBC, CHR 0x8C, CHR 0xE6,
     CHR 0x88, CHR 0x91, CHR 0xE6, CHR 0x9C, CHR 0x83, CHR 0xE7, CHR 0x94, CHR 0xA8] @
     '' AI '' @ [CHR 0xE5, CHR 0x9B, CHR 0x9E, CHR 0xE7, CHR 0xAD, CHR 0x94, CHR 0x0A,
     CHR 0xE2, CHR 0x80, CHR 0xA2] @ '' '' @ [CHR 0xE4, CHR 0xBE, CHR 0x8B, CHR 0xE5,
     CHR 0xA6, CHR 0x82] @ '': '' @ [CHR 0x22, CHR 0xE5, CHR 0x8F, CHR 0xB0, CHR 0xE7,
     CHR 0xA9, CHR 0x8D, CHR 0xE9, CHR 0x9B, CHR 0xBB, CHR 0xE4, CHR 0xBB, CHR 0x8A,
     CHR 0xE5, CHR 0xA4, CHR 0xA9, CHR 0xE8, CHR 0xA1, CHR 0xA8, CHR 0xE7, CHR 0x8F,
     CHR 0xBE, CHR 0xE5, CHR 0xA6, CHR 0x82, CHR 0xE4, CHR 0xBD, CHR 0x95, CHR 0xEF,
     CHR 0xBC, CHR 0x9F, CHR 0x22, CHR 0x0A, CHR 0xE2, CHR 0x80, CHR 0xA2] @ '' '' @
     [CHR 0xE4, CHR 0xBE, CHR 0x8B, CHR 0xE5, CHR 0xA6, CHR 0x82] @ '': '' @ [CHR 0x22,
     CHR 0xE5, CHR 0xB9, CHR 0xAB, CHR 0xE6, CHR 0x88, CHR 0x91, CHR 0xE5, CHR 0x88,
     CHR 0x86, CHR 0xE6, CHR 0x9E, CHR 0x90, CHR 0xE7, CHR 0xBE, CHR 0x8E, CHR 0xE8,
     CHR 0x82, CHR 0xA1, CHR 0xE8, CHR 0xB6, CHR 0xA8, CHR 0xE5, CHR 0x8B, CHR 0xA2,
     CHR 0x22, CHR 0x0A, CHR 0x0A, CHR 0xF0, CHR 0x9F, CHR 0x93, CHR 0x88] @ '' **'' @
     [CHR 0xE6, CHR 0x8C, CHR 0x81, CHR 0xE8, CHR 0x82, CHR 0xA1, CHR 0xE7, CHR 0xAE,
     CHR 0xA1, CHR 0xE7, CHR 0x90, CHR 0x86] @ ''** ('' @ [CHR 0xE5, CHR 0x8D, CHR 0xB3,
     CHR 0xE5, CHR 0xB0, CHR 0x87, CHR 0xE6, CHR 0x8E, CHR 0xA8, CHR 0xE5, CHR 0x87,
     CHR 0xBA] @ '')'' @ [CHR 0x0A, CHR 0xE2, CHR 0x80, CHR 0xA2] @ '' /portfolio - '' @
     [CHR 0xE6, CHR 0x9F, CHR 0xA5, CHR 0xE7, CHR 0x9C, CHR 0x8B, CHR 0xE6, CHR 0x8C,
     CHR 0x81, CHR 0xE8, CHR 0x82, CHR 0xA1, CHR 0xE8, CHR 0xB3, CHR 0x87, CHR 0xE8,
     CHR 0xA8, CHR 0x8A, CHR 0x0A, CHR 0xE2, CHR 0x80, CHR 0xA2] @ '' /report - '' @
     [CHR 0xE6, CHR 0x9F, CHR 0xA5, CHR 0xE7, CHR 0x9C, CHR 0x8B, CHR 0xE5, CHR 0xA0,
     CHR 0xB1, CHR 0xE5, CHR 0x91, CHR 0x8A, CHR 0xE6, CHR 0x8E, CHR 0xA8, CHR 0xE9,
     CHR 0x80, CHR 0x81, CHR 0xE6, CHR 0x99, CHR 0x82, CHR 0xE9, CHR 0x96, CHR 0x93,
     CHR 0x0A, CHR 0x0A, CHR 0xE2, CHR 0x9D, CHR 0x93] @ '' **'' @ [CHR 0xE5, CHR 0x85,
     CHR 0xB6, CHR 0xE4, CHR 0xBB, CHR 0x96, CHR 0xE6, CHR 0x8C, CHR 0x87, CHR 0xE4,
     CHR 0xBB, CHR 0xA4] @ ''**'' @ [CHR 0x0A, CHR 0xE2, CHR 0x80, CHR 0xA2] @
     '' /help - '' @ [CHR 0xE9, CHR 0xA1, CHR 0xAF, CHR 0xE7, CHR 0xA4, CHR 0xBA,
     CHR 0xE4, CHR 0xBD, CHR 0xBF, CHR 0xE7, CHR 0x94, CHR 0xA8, CHR 0xE8, CHR 0xAA,
     CHR 0xAA, CHR 0xE6, CHR 0x98, CHR 0x8E, CHR 0x0A, CHR 0xE2, CHR 0x80, CHR 0xA2] @
     '' /ping - '' @ [CHR 0xE6, CHR 0xB8, CHR 0xAC, CHR 0xE8, CHR 0xA9, CHR 0xA6] @
     '' Bot '' @ [CHR 0xE7, CHR 0x8B, CHR 0x80, CHR 0xE6, CHR 0x85, CHR 0x8B, CHR 0x0A,
     CHR 0x0A, CHR 0xF0, CHR 0x9F, CHR 0x92, CHR 0xA1] @ '' **'' @ [CHR 0xE6, CHR 0x8F,
     CHR 0x90, CHR 0xE7, CHR 0xA4, CHR 0xBA] @ ''**: '' @ [CHR 0xE4, CHR 0xBD, CHR 0xA0,
     CHR 0xE5, CHR 0x8F, CHR 0xAF, CHR 0xE4, CHR 0xBB, CHR 0xA5, CHR 0xE7, CHR 0x9B,
     CHR 0xB4, CHR 0xE6, CHR 0x8E, CHR 0xA5, CHR 0xE5, CHR 0x95, CHR 0x8F, CHR 0xE6,
     CHR 0x88, CHR 0x91, CHR 0xE4, CHR 0xBB, CHR 0xBB, CHR 0xE4, CHR 0xBD, CHR 0x95,
     CHR 0xE5, CHR 0x95, CHR 0x8F, CHR 0xE9, CHR 0xA1, CHR 0x8C, CHR 0xEF, CHR 0xBC,
     CHR 0x81, CHR 0x0A]"

text \<open>Lines 189 to 226: the text of the help command\<close>

definition help_text :: string where
  "help_text =
     [CHR 0x0A, CHR 0xF0, CHR 0x9F, CHR 0x93, CHR 0x9A] @ '' **'' @ [CHR 0xE4, CHR 0xBD,
     CHR 0xBF, CHR 0xE7, CHR 0x94, CHR 0xA8, CHR 0xE8, CHR 0xAA, CHR 0xAA, CHR 0xE6,
     CHR 0x98, CHR 0x8E] @ ''**'' @ [CHR 0x0A, CHR 0x0A] @ ''**'' @ [CHR 0xE5, CHR 0x9F,
     CHR 0xBA, CHR 0xE6, CHR 0x9C, CHR 0xAC, CHR 0xE6, CHR 0x8C, CHR 0x87, CHR 0xE4,
     CHR 0xBB, CHR 0xA4] @ ''**'' @ [CHR 0x0A] @ ''/start - '' @ [CHR 0xE9, CHR 0xA1,
     CHR 0xAF, CHR 0xE7, CHR 0xA4, CHR 0xBA, CHR 0xE6, CHR 0xAD, CHR 0xA1, CHR 0xE8,
     CHR 0xBF, CHR 0x8E, CHR 0xE8, CHR 0xA8, CHR 0x8A, CHR 0xE6, CHR 0x81, CHR 0xAF,
     CHR 0x0A] @ ''/help - '' @ [CHR 0xE9, CHR 0xA1, CHR 0xAF, CHR 0xE7, CHR 0xA4,
     CHR 0xBA, CHR 0xE6, CHR 0xAD, CHR 0xA4, CHR 0xE8, CHR 0xAA, CHR 0xAA, CHR 0xE6,
     CHR 0x98, CHR 0x8E, CHR 0x0A] @ ''/ping - '' @ [CHR 0xE6, CHR 0xB8, CHR 0xAC,
     CHR 0xE8, CHR 0xA9, CHR 0xA6] @ '' Bot '' @ [CHR 0xE7, CHR 0x8B, CHR 0x80,
     CHR 0xE6, CHR 0x85, CHR 0x8B, CHR 0x0A, CHR 0x0A] @ ''**'' @ [CHR 0xE8, CHR 0x82,
     CHR 0xA1, CHR 0xE5, CHR 0x83, CHR 0xB9, CHR 0xE6, CHR 0x9F, CHR 0xA5, CHR 0xE8,
     CHR 0xA9, CHR 0xA2] @ ''**'' @ [CHR 0x0A] @ ''/stock <'' @ [CHR 0xE4, CHR 0xBB,
     CHR 0xA3, CHR 0xE7, CHR 0xA2, CHR 0xBC] @ ''> - '' @ [CHR 0xE6, CHR 0x9F, CHR 0xA5,
     CHR 0xE8, CHR 0xA9, CHR 0xA2, CHR 0xE8, CHR 0x82, CHR 0xA1, CHR 0xE7, CHR 0xA5,
     CHR 0xA8, CHR 0xE5, CHR 0x8D, CHR 0xB3, CHR 0xE6, CHR 0x99, CHR 0x82, CHR 0xE5,
     CHR 0x83, CHR 0xB9, CHR 0xE6, CHR 0xA0, CHR 0xBC, CHR 0x0A, CHR 0x0A, CHR 0xE6,
     CHR 0x94, CHR 0xAF, CHR 0xE6, CHR 0x8F, CHR 0xB4, CHR 0xE7, CHR 0x9A, CHR 0x84,
     CHR 0xE8, CHR 0x82, CHR 0xA1, CHR 0xE7, CHR 0xA5, CHR 0xA8, CHR 0xE4, CHR 0xBB,
     CHR 0xA3, CHR 0xE7, CHR 0xA2, CHR 0xBC, CHR 0xE6, CHR 0xA0, CHR 0xBC, CHR 0xE5,
     CHR 0xBC, CHR 0x8F] @ '':'' @ [CHR 0x0A, CHR 0xE2, CHR 0x80, CHR 0xA2] @ '' '' @
     [CHR 0xE5, CHR 0x8F, CHR 0xB0, CHR 0xE8, CHR 0x82, CHR 0xA1] @ '': 2330.TW ('' @
     [CHR 0xE5, CHR 0x8F, CHR 0xB0, CHR 0xE7, CHR 0xA9, CHR 0x8D, CHR 0xE9, CHR 0x9B,
     CHR 0xBB] @ '')'' @ [CHR 0x0A, CHR 0xE2, CHR 0x80, CHR 0xA2] @ '' '' @ [CHR 0xE7,
     CHR 0xBE, CHR 0x8E, CHR 0xE8, CHR 0x82, CHR 0xA1] @ '': AAPL ('' @ [CHR 0xE8,
     CHR 0x98, CHR 0x8B, CHR 0xE6, CHR 0x9E, CHR 0x9C] @ '')'' @ [CHR 0x0A, CHR 0xE2,
     CHR 0x80, CHR 0xA2] @ '' '' @ [CHR 0xE6, CHR 0x8C, CHR 0x87, CHR 0xE6, CHR 0x95,
     CHR 0xB8] @ '': ^TWII ('' @ [CHR 0xE5, CHR 0x8F, CHR 0xB0, CHR 0xE7, CHR 0x81,
     CHR 0xA3, CHR 0xE5, CHR 0x8A, CHR 0xA0, CHR 0xE6, CHR 0xAC, CHR 0x8A] @
     ''), ^DJI ('' @ [CHR 0xE9, CHR 0x81, CHR 0x93, CHR 0xE7, CHR 0x93, CHR 0x8A] @
     '')'' @ [CHR 0x0A, CHR 0x0A, CHR 0xE7, CHR 0xAF, CHR 0x84, CHR 0xE4, CHR 0xBE,
     CHR 0x8B] @ '':'' @ [CHR 0x0A] @ ''/stock 2330.TW'' @ [CHR 0x0A] @
     ''/stock AAPL'' @ [CHR 0x0A] @ ''/stock ^TWII'' @ [CHR 0x0A, CHR 0x0A] @
     ''**AI '' @ [CHR 0xE5, CHR 0xB0, CHR 0x8D, CHR 0xE8, CHR 0xA9, CHR 0xB1] @ ''**'' @
     [CHR 0x0A, CHR 0xE7, CHR 0x9B, CHR 0xB4, CHR 0xE6, CHR 0x8E, CHR 0xA5, CHR 0xE8,
     CHR 0xBC, CHR 0xB8, CHR 0xE5, CHR 0x85, CHR 0xA5, CHR 0xE8, CHR 0xA8, CHR 0x8A,
     CHR 0xE6, CHR 0x81, CHR 0xAF, CHR 0xE5, CHR 0x8D, CHR 0xB3, CHR 0xE5, CHR 0x8F,
     CHR 0xAF, CHR 0xE8, CHR 0x88, CHR 0x87] @ '' AI '' @ [CHR 0xE5, CHR 0xB0, CHR 0x8D,
     CHR 0xE8, CHR 0xA9, CHR 0xB1] @ '':'' @ [CHR 0x0A, CHR 0xE2, CHR 0x80, CHR 0xA2] @
     '' '' @ [CHR 0x22, CHR 0xE5, CHR 0x8F, CHR 0xB0, CHR 0xE7, CHR 0xA9, CHR 0x8D,
     CHR 0xE9, CHR 0x9B, CHR 0xBB, CHR 0xE4, CHR 0xBB, CHR 0x8A, CHR 0xE5, CHR 0xA4,
     CHR 0xA9, CHR 0xE8, CHR 0xA1, CHR 0xA8, CHR 0xE7, CHR 0x8F, CHR 0xBE, CHR 0xE5,
     CHR 0xA6, CHR 0x82, CHR 0xE4, CHR 0xBD, CHR 0x95, CHR 0xEF, CHR 0xBC, CHR 0x9F,
     CHR 0x22, CHR 0x0A, CHR 0xE2, CHR 0x80, CHR 0xA2] @ '' '' @ [CHR 0x22, CHR 0xE7,
     CHR 0xBE, CHR 0x8E, CHR 0xE8, CHR 0x82, CHR 0xA1, CHR 0xE8, CHR 0xB6, CHR 0xA8,
     CHR 0xE5, CHR 0x8B, CHR 0xA2, CHR 0xE5, CHR 0x88, CHR 0x86, CHR 0xE6, CHR 0x9E,
     CHR 0x90, CHR 0x22, CHR 0x0A, CHR 0xE2, CHR 0x80, CHR 0xA2] @ '' '' @ [CHR 0x22,
     CHR 0xE5, CHR 0xB9, CHR 0xAB, CHR 0xE6, CHR 0x88, CHR 0x91, CHR 0xE8, CHR 0xA7,
     CHR 0xA3, CHR 0xE9, CHR 0x87, CHR 0x8B, CHR 0xE4, CHR 0xBB, CHR 0x80, CHR 0xE9,
     CHR 0xBA, CHR 0xBC, CHR 0xE6, CHR 0x98, CHR 0xAF] @ '' ETF'' @ [CHR 0x22, CHR 0x0A,
     CHR 0x0A] @ ''**'' @ [CHR 0xE6, CHR 0x8C, CHR 0x81, CHR 0xE8, CHR 0x82, CHR 0xA1,
     CHR 0xE7, CHR 0xAE, CHR 0xA1, CHR 0xE7, CHR 0x90, CHR 0x86] @ ''** ('' @ [CHR 0xE9,
     CHR 0x96, CHR 0x8B, CHR 0xE7, CHR 0x99, CHR 0xBC, CHR 0xE4, CHR 0xB8, CHR 0xAD] @
     '')'' @ [CHR 0x0A] @ ''/portfolio - '' @ [CHR 0xE6, CHR 0x9F, CHR 0xA5, CHR 0xE7,
     CHR 0x9C, CHR 0x8B, CHR 0xE6, CHR 0x8C, CHR 0x81, CHR 0xE8, CHR 0x82, CHR 0xA1,
     CHR 0xE6, CHR 0x98, CHR 0x8E, CHR 0xE7, CHR 0xB4, CHR 0xB0, CHR 0x0A] @
     ''/report - '' @ [CHR 0xE6, CHR 0x9F, CHR 0xA5, CHR 0xE7, CHR 0x9C, CHR 0x8B,
     CHR 0xE5, CHR 0xA0, CHR 0xB1, CHR 0xE5, CHR 0x91, CHR 0x8A, CHR 0xE6, CHR 0x8E,
     CHR 0xA8, CHR 0xE9, CHR 0x80, CHR 0x81, CHR 0xE8, CHR 0xA8, CHR 0xAD, CHR 0xE5,
     CHR 0xAE, CHR 0x9A, CHR 0x0A, CHR 0x0A] @ ''**'' @ [CHR 0xE8, CHR 0x87, CHR 0xAA,
     CHR 0xE5, CHR 0x8B, CHR 0x95, CHR 0xE6, CHR 0x8E, CHR 0xA8, CHR 0xE9, CHR 0x80,
     CHR 0x81] @ ''** ('' @ [CHR 0xE8, CHR 0xA8, CHR 0x88, CHR 0xE7, CHR 0x95, CHR 0xAB,
     CHR 0xE4, CHR 0xB8, CHR 0xAD] @ '')'' @ [CHR 0x0A, CHR 0xE2, CHR 0x80, CHR 0xA2] @
     '' '' @ [CHR 0xE6, CHR 0xAF, CHR 0x8F, CHR 0xE6, CHR 0x97, CHR 0xA5] @
     '' 06:30 - '' @ [CHR 0xE5, CHR 0x8F, CHR 0xB0, CHR 0xE7, CHR 0xBE, CHR 0x8E,
     CHR 0xE8, CHR 0xB2, CHR 0xA1, CHR 0xE7, CHR 0xB6, CHR 0x93, CHR 0xE6, CHR 0x97,
     CHR 0xA5, CHR 0xE5, CHR 0xA0, CHR 0xB1, CHR 0x0A, CHR 0xE2, CHR 0x80, CHR 0xA2] @
     '' '' @ [CHR 0xE6, CHR 0xAF, CHR 0x8F, CHR 0xE6, CHR 0x97, CHR 0xA5] @
     '' 07:00 - '' @ [CHR 0xE6, CHR 0x8C, CHR 0x81, CHR 0xE8, CHR 0x82, CHR 0xA1,
     CHR 0xE6, CHR 0x90, CHR 0x8D, CHR 0xE7, CHR 0x9B, CHR 0x8A, CHR 0xE6, CHR 0x9B,
     CHR 0xB4, CHR 0xE6, CHR 0x96, CHR 0xB0, CHR 0x0A, CHR 0xE2, CHR 0x80, CHR 0xA2] @
     '' '' @ [CHR 0xE9, CHR 0x80, CHR 0xB1, CHR 0xE5, CHR 0x85, CHR 0xAD] @
     '' 07:00 - '' @ [CHR 0xE6, CHR 0xAF, CHR 0x8F, CHR 0xE9, CHR 0x80, CHR 0xB1,
     CHR 0xE6, CHR 0x8A, CHR 0x95, CHR 0xE8, CHR 0xB3, CHR 0x87, CHR 0xE9, CHR 0x80,
     CHR 0xB1, CHR 0xE5, CHR 0xA0, CHR 0xB1, CHR 0x0A, CHR 0x0A, CHR 0xE6, CHR 0x9C,
     CHR 0x89, CHR 0xE5, CHR 0x95, CHR 0x8F, CHR 0xE9, CHR 0xA1, CHR 0x8C, CHR 0xE5,
     CHR 0x97, CHR 0x8E, CHR 0xEF, CHR 0xBC, CHR 0x9F, CHR 0xE7, CHR 0x9B, CHR 0xB4,
     CHR 0xE6, CHR 0x8E, CHR 0xA5, CHR 0xE5, CHR 0x95, CHR 0x8F, CHR 0xE6, CHR 0x88,
     CHR 0x91, CHR 0xE5, CHR 0xB0, CHR 0xB1, CHR 0xE5, CHR 0xB0, CHR 0x8D, CHR 0xE4,
     CHR 0xBA, CHR 0x86, CHR 0xEF, CHR 0xBC, CHR 0x81, CHR 0xF0, CHR 0x9F, CHR 0x98,
     CHR 0x8A, CHR 0x0A]"

text \<open>Lines 241 to 250, constant part 1: up to the time\<close>

definition status_message_part1 :: string where
  "status_message_part1 =
     [CHR 0x0A, CHR 0xF0, CHR 0x9F, CHR 0x9F, CHR 0xA2] @ '' **Bot '' @ [CHR 0xE7,
     CHR 0x8B, CHR 0x80, CHR 0xE6, CHR 0x85, CHR 0x8B] @ '': '' @ [CHR 0xE6, CHR 0xAD,
     CHR 0xA3, CHR 0xE5, CHR 0xB8, CHR 0xB8, CHR 0xE9, CHR 0x81, CHR 0x8B, CHR 0xE8,
     CHR 0xA1, CHR 0x8C, CHR 0xE4, CHR 0xB8, CHR 0xAD] @ ''**'' @ [CHR 0x0A, CHR 0x0A,
     CHR 0xE2, CHR 0x8F, CHR 0xB0] @ '' '' @ [CHR 0xE7, CHR 0x95, CHR 0xB6, CHR 0xE5,
     CHR 0x89, CHR 0x8D, CHR 0xE6, CHR 0x99, CHR 0x82, CHR 0xE9, CHR 0x96, CHR 0x93] @
     '': ''"

text \<open>Lines 241 to 250, constant part 2: between the time and the mark of the credential\<close>

definition status_message_part2 :: string where
  "status_message_part2 =
     [CHR 0x0A, CHR 0xF0, CHR 0x9F, CHR 0xA4, CHR 0x96] @ '' '' @ [CHR 0xE6, CHR 0x9C,
     CHR 0x8D, CHR 0xE5, CHR 0x8B, CHR 0x99] @ '': Telegram Bot'' @ [CHR 0x0A, CHR 0xF0,
     CHR 0x9F, CHR 0x94, CHR 0x97] @ '' '' @ [CHR 0xE9, CHR 0x80, CHR 0xA3, CHR 0xE6,
     CHR 0x8E, CHR 0xA5] @ '': Nebula API ''"

text \<open>Lines 241 to 250, constant part 3: after the mark\<close>

definition status_message_part3 :: string where
  "status_message_part3 =
     [CHR 0x0A, CHR 0xF0, CHR 0x9F, CHR 0x93, CHR 0xA1] @ '' '' @ [CHR 0xE7, CHR 0x92,
     CHR 0xB0, CHR 0xE5, CHR 0xA2, CHR 0x83] @ '': Render.com Background Worker'' @
     [CHR 0x0A, CHR 0x0A, CHR 0xE2, CHR 0x9C, CHR 0x85] @ '' '' @ [CHR 0xE6, CHR 0x89,
     CHR 0x80, CHR 0xE6, CHR 0x9C, CHR 0x89, CHR 0xE7, CHR 0xB3, CHR 0xBB, CHR 0xE7,
     CHR 0xB5, CHR 0xB1, CHR 0xE6, CHR 0xAD, CHR 0xA3, CHR 0xE5, CHR 0xB8, CHR 0xB8,
     CHR 0xEF, CHR 0xBC, CHR 0x81, CHR 0x0A]"

text \<open>Line 246: the mark shown when the credential is set (a check mark)\<close>

definition key_set_mark :: string where
  "key_set_mark =
     [CHR 0xE2, CHR 0x9C, CHR 0x85]"

text \<open>Line 246: the mark shown when it is not (a warning sign, then "not set")\<close>

definition key_unset_mark :: string where
  "key_unset_mark =
     [CHR 0xE2, CHR 0x9A, CHR 0xA0, CHR 0xEF, CHR 0xB8, CHR 0x8F] @ '' '' @ [CHR 0xE6,
     CHR 0x9C, CHR 0xAA, CHR 0xE8, CHR 0xA8, CHR 0xAD, CHR 0xE5, CHR 0xAE, CHR 0x9A]"

text \<open>Lines 266 to 271: the usage text of the stock command ("please give a stock code", the usage and three examples)\<close>

definition stock_usage_text :: string where
  "stock_usage_text =
     [CHR 0xE2, CHR 0x9D, CHR 0x8C] @ '' '' @ [CHR 0xE8, CHR 0xAB, CHR 0x8B, CHR 0xE6,
     CHR 0x8F, CHR 0x90, CHR 0xE4, CHR 0xBE, CHR 0x9B, CHR 0xE8, CHR 0x82, CHR 0xA1,
     CHR 0xE7, CHR 0xA5, CHR 0xA8, CHR 0xE4, CHR 0xBB, CHR 0xA3, CHR 0xE7, CHR 0xA2,
     CHR 0xBC, CHR 0x0A, CHR 0x0A, CHR 0xE4, CHR 0xBD, CHR 0xBF, CHR 0xE7, CHR 0x94,
     CHR 0xA8, CHR 0xE6, CHR 0x96, CHR 0xB9, CHR 0xE5, CHR 0xBC, CHR 0x8F] @
     '': /stock <'' @ [CHR 0xE4, CHR 0xBB, CHR 0xA3, CHR 0xE7, CHR 0xA2, CHR 0xBC] @
     ''>'' @ [CHR 0x0A, CHR 0xE7, CHR 0xAF, CHR 0x84, CHR 0xE4, CHR 0xBE, CHR 0x8B] @
     '':'' @ [CHR 0x0A] @ ''  /stock 2330.TW ('' @ [CHR 0xE5, CHR 0x8F, CHR 0xB0,
     CHR 0xE7, CHR 0xA9, CHR 0x8D, CHR 0xE9, CHR 0x9B, CHR 0xBB] @ '')'' @ [CHR 0x0A] @
     ''  /stock AAPL ('' @ [CHR 0xE8, CHR 0x98, CHR 0x8B, CHR 0xE6, CHR 0x9E,
     CHR 0x9C] @ '')'' @ [CHR 0x0A] @ ''  /stock ^TWII ('' @ [CHR 0xE5, CHR 0x8F,
     CHR 0xB0, CHR 0xE7, CHR 0x81, CHR 0xA3, CHR 0xE5, CHR 0x8A, CHR 0xA0, CHR 0xE6,
     CHR 0xAC, CHR 0x8A, CHR 0xE6, CHR 0x8C, CHR 0x87, CHR 0xE6, CHR 0x95, CHR 0xB8] @
     '')''"

text \<open>Line 278, constant part 1: a magnifying glass, then "looking up "\<close>

definition searching_part1 :: string where
  "searching_part1 =
     [CHR 0xF0, CHR 0x9F, CHR 0x94, CHR 0x8D] @ '' '' @ [CHR 0xE6, CHR 0xAD, CHR 0xA3,
     CHR 0xE5, CHR 0x9C, CHR 0xA8, CHR 0xE6, CHR 0x9F, CHR 0xA5, CHR 0xE8, CHR 0xA9,
     CHR 0xA2] @ '' ''"

text \<open>Line 278, constant part 2: " stock price..."\<close>

definition searching_part2 :: string where
  "searching_part2 =
     '' '' @ [CHR 0xE7, CHR 0x9A, CHR 0x84, CHR 0xE8, CHR 0x82, CHR 0xA1, CHR 0xE5,
     CHR 0x83, CHR 0xB9] @ ''...''"

text \<open>Lines 296 to 303: the text of the portfolio command\<close>

definition portfolio_text :: string where
  "portfolio_text =
     [CHR 0xF0, CHR 0x9F, CHR 0x93, CHR 0x8A] @ '' **'' @ [CHR 0xE6, CHR 0x8C, CHR 0x81,
     CHR 0xE8, CHR 0x82, CHR 0xA1, CHR 0xE7, CHR 0xAE, CHR 0xA1, CHR 0xE7, CHR 0x90,
     CHR 0x86, CHR 0xE5, CHR 0x8A, CHR 0x9F, CHR 0xE8, CHR 0x83, CHR 0xBD] @ ''**'' @
     [CHR 0x0A, CHR 0x0A, CHR 0xE2, CHR 0x9A, CHR 0xA0, CHR 0xEF, CHR 0xB8, CHR 0x8F] @
     '' '' @ [CHR 0xE6, CHR 0xAD, CHR 0xA4, CHR 0xE5, CHR 0x8A, CHR 0x9F, CHR 0xE8,
     CHR 0x83, CHR 0xBD, CHR 0xE6, CHR 0xAD, CHR 0xA3, CHR 0xE5, CHR 0x9C, CHR 0xA8,
     CHR 0xE9, CHR 0x96, CHR 0x8B, CHR 0xE7, CHR 0x99, CHR 0xBC, CHR 0xE4, CHR 0xB8,
     CHR 0xAD] @ ''...'' @ [CHR 0x0A, CHR 0x0A, CHR 0xE6, CHR 0x9C, CHR 0xAA, CHR 0xE4,
     CHR 0xBE, CHR 0x86, CHR 0xE5, CHR 0x8A, CHR 0x9F, CHR 0xE8, CHR 0x83, CHR 0xBD] @
     '':'' @ [CHR 0x0A, CHR 0xE2, CHR 0x80, CHR 0xA2] @ '' '' @ [CHR 0xE5, CHR 0x8D,
     CHR 0xB3, CHR 0xE6, CHR 0x99, CHR 0x82, CHR 0xE6, CHR 0x8C, CHR 0x81, CHR 0xE8,
     CHR 0x82, CHR 0xA1, CHR 0xE6, CHR 0x90, CHR 0x8D, CHR 0xE7, CHR 0x9B, CHR 0x8A,
     CHR 0x0A, CHR 0xE2, CHR 0x80, CHR 0xA2] @ '' '' @ [CHR 0xE5, CHR 0x80, CHR 0x8B,
     CHR 0xE8, CHR 0x82, CHR 0xA1, CHR 0xE6, CHR 0x88, CHR 0x90, CHR 0xE6, CHR 0x9C,
     CHR 0xAC, CHR 0xE5, CHR 0x88, CHR 0x86, CHR 0xE6, CHR 0x9E, CHR 0x90, CHR 0x0A,
     CHR 0xE2, CHR 0x80, CHR 0xA2] @ '' '' @ [CHR 0xE5, CHR 0xA0, CHR 0xB1, CHR 0xE9,
     CHR 0x85, CHR 0xAC, CHR 0xE7, CHR 0x8E, CHR 0x87, CHR 0xE7, CHR 0xB5, CHR 0xB1,
     CHR 0xE8, CHR 0xA8, CHR 0x88, CHR 0x0A, CHR 0xE2, CHR 0x80, CHR 0xA2] @ '' '' @
     [CHR 0xE9, CHR 0xA2, CHR 0xA8, CHR 0xE9, CHR 0x9A, CHR 0xAA, CHR 0xE8, CHR 0xA9,
     CHR 0x95, CHR 0xE4, CHR 0xBC, CHR 0xB0, CHR 0x0A, CHR 0x0A, CHR 0xE6, CHR 0x95,
     CHR 0xAC, CHR 0xE8, CHR 0xAB, CHR 0x8B, CHR 0xE6, CHR 0x9C, CHR 0x9F, CHR 0xE5,
     CHR 0xBE, CHR 0x85, CHR 0xEF, CHR 0xBC, CHR 0x81]"

text \<open>Lines 316 to 322: the text of the report command\<close>

definition report_text :: string where
  "report_text =
     [CHR 0xF0, CHR 0x9F, CHR 0x93, CHR 0xA8] @ '' **'' @ [CHR 0xE8, CHR 0x87, CHR 0xAA,
     CHR 0xE5, CHR 0x8B, CHR 0x95, CHR 0xE5, CHR 0xA0, CHR 0xB1, CHR 0xE5, CHR 0x91,
     CHR 0x8A, CHR 0xE6, CHR 0x8E, CHR 0xA8, CHR 0xE9, CHR 0x80, CHR 0x81, CHR 0xE6,
     CHR 0x99, CHR 0x82, CHR 0xE9, CHR 0x96, CHR 0x93, CHR 0xE8, CHR 0xA1, CHR 0xA8] @
     ''**'' @ [CHR 0x0A, CHR 0x0A, CHR 0xE2, CHR 0x9A, CHR 0xA0, CHR 0xEF, CHR 0xB8,
     CHR 0x8F] @ '' '' @ [CHR 0xE6, CHR 0x8E, CHR 0xA8, CHR 0xE9, CHR 0x80, CHR 0x81,
     CHR 0xE5, CHR 0x8A, CHR 0x9F, CHR 0xE8, CHR 0x83, CHR 0xBD, CHR 0xE5, CHR 0xB0,
     CHR 0x9A, CHR 0xE6, CHR 0x9C, CHR 0xAA, CHR 0xE5, CHR 0x95, CHR 0x9F, CHR 0xE7,
     CHR 0x94, CHR 0xA8, CHR 0x0A, CHR 0x0A, CHR 0xE8, CHR 0xA8, CHR 0x88, CHR 0xE7,
     CHR 0x95, CHR 0xAB, CHR 0xE6, CHR 0x8E, CHR 0xA8, CHR 0xE9, CHR 0x80, CHR 0x81,
     CHR 0xE6, CHR 0x99, CHR 0x82, CHR 0xE9, CHR 0x96, CHR 0x93] @ '':'' @ [CHR 0x0A,
     CHR 0xE2, CHR 0x80, CHR 0xA2] @ '' '' @ [CHR 0xE6, CHR 0xAF, CHR 0x8F, CHR 0xE6,
     CHR 0x97, CHR 0xA5] @ '' 06:30 - '' @ [CHR 0xE5, CHR 0x8F, CHR 0xB0, CHR 0xE7,
     CHR 0xBE, CHR 0x8E, CHR 0xE8, CHR 0xB2, CHR 0xA1, CHR 0xE7, CHR 0xB6, CHR 0x93,
     CHR 0xE6, CHR 0x97, CHR 0xA5, CHR 0xE5, CHR 0xA0, CHR 0xB1, CHR 0x0A, CHR 0xE2,
     CHR 0x80, CHR 0xA2] @ '' '' @ [CHR 0xE6, CHR 0xAF, CHR 0x8F, CHR 0xE6, CHR 0x97,
     CHR 0xA5] @ '' 07:00 - '' @ [CHR 0xE6, CHR 0x8C, CHR 0x81, CHR 0xE8, CHR 0x82,
     CHR 0xA1, CHR 0xE6, CHR 0x90, CHR 0x8D, CHR 0xE7, CHR 0x9B, CHR 0x8A, CHR 0xE6,
     CHR 0x9B, CHR 0xB4, CHR 0xE6, CHR 0x96, CHR 0xB0, CHR 0x0A, CHR 0xE2, CHR 0x80,
     CHR 0xA2] @ '' '' @ [CHR 0xE9, CHR 0x80, CHR 0xB1, CHR 0xE5, CHR 0x85, CHR 0xAD] @
     '' 07:00 - '' @ [CHR 0xE6, CHR 0xAF, CHR 0x8F, CHR 0xE9, CHR 0x80, CHR 0xB1,
     CHR 0xE6, CHR 0x8A, CHR 0x95, CHR 0xE8, CHR 0xB3, CHR 0x87, CHR 0xE9, CHR 0x80,
     CHR 0xB1, CHR 0xE5, CHR 0xA0, CHR 0xB1, CHR 0x0A, CHR 0x0A, CHR 0xE6, CHR 0x95,
     CHR 0xAC, CHR 0xE8, CHR 0xAB, CHR 0x8B, CHR 0xE6, CHR 0x9C, CHR 0x9F, CHR 0xE5,
     CHR 0xBE, CHR 0x85, CHR 0xEF, CHR 0xBC, CHR 0x81]"

text \<open>Line 339: the provisional reply (a thinking face, then "thinking...")\<close>

definition thinking_text :: string where
  "thinking_text =
     [CHR 0xF0, CHR 0x9F, CHR 0xA4, CHR 0x94] @ '' '' @ [CHR 0xE6, CHR 0xAD, CHR 0xA3,
     CHR 0xE5, CHR 0x9C, CHR 0xA8, CHR 0xE6, CHR 0x80, CHR 0x9D, CHR 0xE8, CHR 0x80,
     CHR 0x83] @ ''...''"

subsection \<open>The completion caller\<close>

text \<open>
  Line 82: \<^verbatim>\<open>data.get("choices", [{}])[0].get("message", {}).get("content", ...)\<close>.
\<close>

definition first_choice_content :: "pyval \<Rightarrow> exn + pyval" where
  "first_choice_content data =
     bind_exn (py_get data ''choices'' (PList [PDict []])) (\<lambda>choices.
     bind_exn (py_index0 choices) (\<lambda>choice.
     bind_exn (py_get choice ''message'' (PDict [])) (\<lambda>message.
     py_get message ''content'' (PStr no_content_text))))"

definition completion_url :: "config \<Rightarrow> string" where
  "completion_url cfg = NEBULA_API_URL cfg @ ''/v1/chat/completions''"

definition completion_headers :: "config \<Rightarrow> (string \<times> string) list" where
  "completion_headers cfg =
     [(''Authorization'', ''Bearer '' @ NEBULA_API_KEY cfg),
      (''Content-Type'', ''application/json'')]"

definition completion_payload :: "string \<Rightarrow> pyval" where
  "completion_payload message =
     PDict [(''messages'', PList [PDict [(''role'', PStr ''user''), (''content'', PStr message)]]),
            (''stream'', PBool False)]"

text \<open>
  The function returns the requests it issued and its result; \<open>Inl\<close> would be an exception
  leaving the function.
\<close>

definition call_nebula_api :: "config \<Rightarrow> world \<Rightarrow> string \<Rightarrow> event list \<times> (exn + pyval)" where
  "call_nebula_api cfg w message =
     (if NEBULA_API_KEY cfg = [] then ([], Inr (PStr advisory_text))
      else
        ([HttpPost (completion_url cfg) (completion_headers cfg) (completion_payload message)],
         try_except
           (bind_exn
              (http_post w (completion_url cfg) (completion_headers cfg)
                 (completion_payload message))
              (\<lambda>response.
                 if status_code response = 200
                 then bind_exn (json response) first_choice_content
                 else Inr (PStr (api_failed_prefix @ str_int (status_code response) @ '')''))))
           (\<lambda>e. Inr (PStr (api_error_prefix @ exn_str w e)))))"

subsection \<open>The quote formatter\<close>

text \<open>Lines 111 and 112: the way to the \<^verbatim>\<open>meta\<close> object of the first result.\<close>

definition quote_meta :: "pyval \<Rightarrow> exn + pyval" where
  "quote_meta data =
     bind_exn (py_get data ''chart'' (PDict [])) (\<lambda>chart.
     bind_exn (py_get chart ''result'' (PList [PDict []])) (\<lambda>results.
     bind_exn (py_index0 results) (\<lambda>result.
     py_get result ''meta'' (PDict []))))"

text \<open>Lines 114 to 120: the values read from \<^verbatim>\<open>meta\<close> and derived from them.\<close>

record quote =
  price :: pyval
  prev_close :: pyval
  change :: pyval
  change_percent :: pyval
  symbol :: pyval
  currency :: pyval

definition quote_of :: "string \<Rightarrow> pyval \<Rightarrow> exn + quote" where
  "quote_of stock_code meta =
     bind_exn (py_get meta ''regularMarketPrice'' (PStr ''N/A'')) (\<lambda>p.
     bind_exn (py_get meta ''previousClose'' (PStr ''N/A'')) (\<lambda>pc.
     bind_exn (if py_ne_str p ''N/A'' \<and> py_ne_str pc ''N/A'' then py_sub p pc
               else Inr (PInt 0)) (\<lambda>ch.
     bind_exn (if py_ne_str pc ''N/A'' \<and> py_ne_zero pc
               then bind_exn (py_truediv ch pc) (\<lambda>q. py_mul q (PInt 100))
               else Inr (PInt 0)) (\<lambda>pct.
     bind_exn (py_get meta ''symbol'' (PStr stock_code)) (\<lambda>sym.
     bind_exn (py_get meta ''currency'' (PStr ''TWD'')) (\<lambda>cur.
     Inr \<lparr>price = p, prev_close = pc, change = ch, change_percent = pct,
          symbol = sym, currency = cur\<rparr>))))))"

text \<open>Line 123: the directional marker.\<close>

definition change_emoji :: "pyval \<Rightarrow> exn + string" where
  "change_emoji ch =
     bind_exn (py_lt_zero ch) (\<lambda>neg.
       if neg then Inr emoji_down
       else bind_exn (py_gt_zero ch) (\<lambda>pos.
         if pos then Inr emoji_up else Inr emoji_flat))"

text \<open>
  Lines 125 to 132: the block of text, around the symbol, the price, the currency (shown
  twice), the previous close, the marker, the change, the percentage and the time.
\<close>

definition quote_block :: "world \<Rightarrow> quote \<Rightarrow> exn + string" where
  "quote_block w q =
     bind_exn (change_emoji (change q)) (\<lambda>emoji.
     bind_exn (py_format_2f w (change q)) (\<lambda>change_2f.
     bind_exn (py_format_2f w (change_percent q)) (\<lambda>percent_2f.
     Inr (quote_block_part1 @ py_str w (symbol q) @
          quote_block_part2 @ py_str w (price q) @
          quote_block_part3 @ py_str w (currency q) @
          quote_block_part4 @ py_str w (prev_close q) @
          quote_block_part5 @ py_str w (currency q) @
          quote_block_part6 @ emoji @
          quote_block_part7 @ change_2f @
          quote_block_part8 @ percent_2f @
          quote_block_part9 @ now w @
          quote_block_part10))))"

definition quote_url :: "string \<Rightarrow> string" where
  "quote_url stock_code = quote_url_prefix @ stock_code"

definition get_stock_price :: "world \<Rightarrow> string \<Rightarrow> event list \<times> (exn + string)" where
  "get_stock_price w stock_code =
     ([HttpGet (quote_url stock_code)],
      try_except
        (bind_exn (http_get w (quote_url stock_code)) (\<lambda>response.
           if status_code response = 200
           then bind_exn (json response) (\<lambda>data.
                bind_exn (quote_meta data) (\<lambda>meta.
                bind_exn (quote_of stock_code meta) (quote_block w)))
           else Inr (quote_failed_part1 @ stock_code @ quote_failed_part2 @
                     str_int (status_code response) @ quote_failed_part3)))
        (\<lambda>e. Inr (quote_error_prefix @ exn_str w e)))"

subsection \<open>The handlers\<close>

definition start_command :: "config \<Rightarrow> world \<Rightarrow> update \<Rightarrow> event list" where
  "start_command cfg w u =
     (if str_int (user_id u) \<noteq> CHAT_ID cfg then [ReplyText denial_text None]
      else [ReplyText welcome_message None])"

definition help_command :: "config \<Rightarrow> world \<Rightarrow> update \<Rightarrow> event list" where
  "help_command cfg w u =
     (if str_int (user_id u) \<noteq> CHAT_ID cfg then [ReplyText denial_text None]
      else [ReplyText help_text None])"

definition status_message :: "config \<Rightarrow> world \<Rightarrow> string" where
  "status_message cfg w =
     status_message_part1 @ now w @
     status_message_part2 @ (if NEBULA_API_KEY cfg \<noteq> [] then key_set_mark else key_unset_mark) @
     status_message_part3"

definition ping_command :: "config \<Rightarrow> world \<Rightarrow> update \<Rightarrow> event list" where
  "ping_command cfg w u =
     (if str_int (user_id u) \<noteq> CHAT_ID cfg then [ReplyText denial_text None]
      else [ReplyText (status_message cfg w) None])"

text \<open>
  A result of \<^const>\<open>get_stock_price\<close> is edited into the provisional reply; an exception
  would leave the handler before the edit.
\<close>

definition stock_command :: "config \<Rightarrow> world \<Rightarrow> update \<Rightarrow> event list" where
  "stock_command cfg w u =
     (if str_int (user_id u) \<noteq> CHAT_ID cfg then [ReplyText denial_text None]
      else
        (case args u of
           [] \<Rightarrow> [ReplyText stock_usage_text None]
         | a # rest \<Rightarrow>
             (let stock_code = upper w a;
                  (calls, result) = get_stock_price w stock_code
              in ReplyText (searching_part1 @ stock_code @ searching_part2) None # calls @
                 (case result of Inr s \<Rightarrow> [EditText (PStr s)] | Inl e \<Rightarrow> []))))"

definition portfolio_command :: "config \<Rightarrow> world \<Rightarrow> update \<Rightarrow> event list" where
  "portfolio_command cfg w u =
     (if str_int (user_id u) \<noteq> CHAT_ID cfg then [ReplyText denial_text None]
      else [ReplyText portfolio_text None])"

definition report_command :: "config \<Rightarrow> world \<Rightarrow> update \<Rightarrow> event list" where
  "report_command cfg w u =
     (if str_int (user_id u) \<noteq> CHAT_ID cfg then [ReplyText denial_text None]
      else [ReplyText report_text None])"

definition handle_message :: "config \<Rightarrow> world \<Rightarrow> update \<Rightarrow> event list" where
  "handle_message cfg w u =
     (if str_int (user_id u) \<noteq> CHAT_ID cfg then [ReplyText denial_text None]
      else
        (let (calls, response) = call_nebula_api cfg w (message_text u)
         in ReplyText thinking_text None # calls @
            (case response of Inr v \<Rightarrow> [EditText v] | Inl e \<Rightarrow> [])))"

text \<open>The handlers registered in \<^verbatim>\<open>main\<close>.\<close>

fun dispatch :: "config \<Rightarrow> world \<Rightarrow> command \<times> update \<Rightarrow> event list" where
  "dispatch cfg w (Start, u) = start_command cfg w u"
| "dispatch cfg w (Help, u) = help_command cfg w u"
| "dispatch cfg w (Ping, u) = ping_command cfg w u"
| "dispatch cfg w (Stock, u) = stock_command cfg w u"
| "dispatch cfg w (Portfolio, u) = portfolio_command cfg w u"
| "dispatch cfg w (Report, u) = report_command cfg w u"
| "dispatch cfg w (FreeText, u) = handle_message cfg w u"

text \<open>
  The process: start-up, then the updates in the order the polling loop delivers them. The
  first component is the exit status when the process exits.
\<close>

definition run_bot ::
  "(string \<rightharpoonup> string) \<Rightarrow> world \<Rightarrow> (command \<times> update) list \<Rightarrow> int option \<times> event list" where
  "run_bot environ w updates =
     (case startup environ of
        Inl status \<Rightarrow> (Some status, [])
      | Inr cfg \<Rightarrow> (None, concat (map (dispatch cfg w) updates)))"

section \<open>The simpler variant: \<^verbatim>\<open>src/render_start.py\<close>\<close>

subsection \<open>Configuration and start-up\<close>

text \<open>Here only the token is required; the authorized identity may be absent.\<close>

record config_simple =
  BOT_TOKEN_simple :: string
  CHAT_ID_simple :: "string option"

definition startup_simple :: "(string \<rightharpoonup> string) \<Rightarrow> int + config_simple" where
  "startup_simple environ =
     (let bot_token = environ ''TELEGRAM_BOT_TOKEN'';
          chat_id = environ ''TELEGRAM_CHAT_ID''
      in if \<not> truthy bot_token then Inl 1
         else Inr \<lparr>BOT_TOKEN_simple = the bot_token, CHAT_ID_simple = chat_id\<rparr>)"

subsection \<open>Texts of the replies\<close>

text \<open>Lines 38 to 57: the welcome text of the start command\<close>

definition welcome_message_simple :: string where
  "welcome_message_simple =
     [CHR 0xF0, CHR 0x9F, CHR 0x8E, CHR 0x89] @ '' *'' @ [CHR 0xE6, CHR 0xAD, CHR 0xA1,
     CHR 0xE8, CHR 0xBF, CHR 0x8E, CHR 0xE4, CHR 0xBD, CHR 0xBF, CHR 0xE7, CHR 0x94,
     CHR 0xA8] @ '' Alice AI Bot'' @ [CHR 0xEF, CHR 0xBC, CHR 0x81] @ ''*'' @ [CHR 0x0A,
     CHR 0x0A, CHR 0xE6, CHR 0x88, CHR 0x91, CHR 0xE6, CHR 0x98, CHR 0xAF, CHR 0xE4,
     CHR 0xBD, CHR 0xA0, CHR 0xE7, CHR 0x9A, CHR 0x84] @ '' AI '' @ [CHR 0xE5, CHR 0x8A,
     CHR 0xA9, CHR 0xE6, CHR 0x89, CHR 0x8B, CHR 0xEF, CHR 0xBC, CHR 0x8C, CHR 0xE5,
     CHR 0x8F, CHR 0xAF, CHR 0xE4, CHR 0xBB, CHR 0xA5, CHR 0xE5, CHR 0x8D, CHR 0x94,
     CHR 0xE5, CHR 0x8A, CHR 0xA9, CHR 0xE4, CHR 0xBD, CHR 0xA0, CHR 0xEF, CHR 0xBC,
     CHR 0x9A, CHR 0x0A, CHR 0x0A, CHR 0xF0, CHR 0x9F, CHR 0x93, CHR 0x8A] @ '' *'' @
     [CHR 0xE4, CHR 0xB8, CHR 0xBB, CHR 0xE8, CHR 0xA6, CHR 0x81, CHR 0xE5, CHR 0x8A,
     CHR 0x9F, CHR 0xE8, CHR 0x83, CHR 0xBD] @ ''*'' @ [CHR 0x0A, CHR 0xE2, CHR 0x80,
     CHR 0xA2] @ '' '' @ [CHR 0xE6, CHR 0x9F, CHR 0xA5, CHR 0xE8, CHR 0xA9, CHR 0xA2,
     CHR 0xE6, CHR 0x8C, CHR 0x81, CHR 0xE8, CHR 0x82, CHR 0xA1, CHR 0xE8, CHR 0xB3,
     CHR 0x87, CHR 0xE8, CHR 0xA8, CHR 0x8A, CHR 0x0A, CHR 0xE2, CHR 0x80, CHR 0xA2] @
     '' '' @ [CHR 0xE6, CHR 0x8E, CHR 0xA5, CHR 0xE6, CHR 0x94, CHR 0xB6, CHR 0xE6,
     CHR 0xAF, CHR 0x8F, CHR 0xE6, CHR 0x97, CHR 0xA5, CHR 0xE8, CHR 0xB2, CHR 0xA1,
     CHR 0xE7, CHR 0xB6, CHR 0x93, CHR 0xE5, CHR 0xA0, CHR 0xB1, CHR 0xE5, CHR 0x91,
     CHR 0x8A, CHR 0x0A, CHR 0xE2, CHR 0x80, CHR 0xA2] @ '' '' @ [CHR 0xE6, CHR 0x90,
     CHR 0x9C, CHR 0xE5, CHR 0xB0, CHR 0x8B, CHR 0xE5, CHR 0xB8, CHR 0x82, CHR 0xE5,
     CHR 0xA0, CHR 0xB4, CHR 0xE8, CHR 0xB3, CHR 0x87, CHR 0xE8, CHR 0xA8, CHR 0x8A,
     CHR 0x0A, CHR 0xE2, CHR 0x80, CHR 0xA2] @ '' '' @ [CHR 0xE5, CHR 0x8D, CHR 0xB3,
     CHR 0xE6, CHR 0x99, CHR 0x82, CHR 0xE5, CHR 0x95, CHR 0x8F, CHR 0xE7, CHR 0xAD,
     CHR 0x94, CHR 0x0A, CHR 0x0A, CHR 0xF0, CHR 0x9F, CHR 0x92, CHR 0xAC] @ '' *'' @
     [CHR 0xE4, CHR 0xBD, CHR 0xBF, CHR 0xE7, CHR 0x94, CHR 0xA8, CHR 0xE6, CHR 0x96,
     CHR 0xB9, CHR 0xE5, CHR 0xBC, CHR 0x8F] @ ''*'' @ [CHR 0x0A, CHR 0xE7, CHR 0x9B,
     CHR 0xB4, CHR 0xE6, CHR 0x8E, CHR 0xA5, CHR 0xE7, CHR 0x99, CHR 0xBC, CHR 0xE9,
     CHR 0x80, CHR 0x81, CHR 0xE8, CHR 0xA8, CHR 0x8A, CHR 0xE6, CHR 0x81, CHR 0xAF,
     CHR 0xE7, CHR 0xB5, CHR 0xA6, CHR 0xE6, CHR 0x88, CHR 0x91, CHR 0xEF, CHR 0xBC,
     CHR 0x8C, CHR 0xE6, CHR 0x88, CHR 0x96, CHR 0xE4, CHR 0xBD, CHR 0xBF, CHR 0xE7,
     CHR 0x94, CHR 0xA8, CHR 0xE4, CHR 0xBB, CHR 0xA5, CHR 0xE4, CHR 0xB8, CHR 0x8B,
     CHR 0xE6, CHR 0x8C, CHR 0x87, CHR 0xE4, CHR 0xBB, CHR 0xA4, CHR 0xEF, CHR 0xBC,
     CHR 0x9A, CHR 0x0A, CHR 0x0A] @ ''/start - '' @ [CHR 0xE9, CHR 0xA1, CHR 0xAF,
     CHR 0xE7, CHR 0xA4, CHR 0xBA, CHR 0xE6, CHR 0xAD, CHR 0xA4, CHR 0xE8, CHR 0xA8,
     CHR 0x8A, CHR 0xE6, CHR 0x81, CHR 0xAF, CHR 0x0A] @ ''/help - '' @ [CHR 0xE6,
     CHR 0x9F, CHR 0xA5, CHR 0xE7, CHR 0x9C, CHR 0x8B, CHR 0xE8, CHR 0xA9, CHR 0xB3,
     CHR 0xE7, CHR 0xB4, CHR 0xB0, CHR 0xE8, CHR 0xAA, CHR 0xAA, CHR 0xE6, CHR 0x98,
     CHR 0x8E, CHR 0x0A] @ ''/portfolio - '' @ [CHR 0xE6, CHR 0x9F, CHR 0xA5, CHR 0xE7,
     CHR 0x9C, CHR 0x8B, CHR 0xE6, CHR 0x8C, CHR 0x81, CHR 0xE8, CHR 0x82, CHR 0xA1,
     CHR 0x0A] @ ''/report - '' @ [CHR 0xE6, CHR 0x9C, CHR 0x80, CHR 0xE6, CHR 0x96,
     CHR 0xB0, CHR 0xE5, CHR 0xA0, CHR 0xB1, CHR 0xE5, CHR 0x91, CHR 0x8A, CHR 0x0A] @
     ''/ping - '' @ [CHR 0xE6, CHR 0xB8, CHR 0xAC, CHR 0xE8, CHR 0xA9, CHR 0xA6,
     CHR 0xE9, CHR 0x80, CHR 0xA3, CHR 0xE7, CHR 0xB7, CHR 0x9A, CHR 0x0A, CHR 0x0A,
     CHR 0xE7, CHR 0x8F, CHR 0xBE, CHR 0xE5, CHR 0x9C, CHR 0xA8, CHR 0xE5, CHR 0xB0,
     CHR 0xB1, CHR 0xE8, CHR 0xA9, CHR 0xA6, CHR 0xE8, CHR 0xA9, CHR 0xA6, CHR 0xE7,
     CHR 0x9C, CHR 0x8B, CHR 0xE5, CHR 0x90, CHR 0xA7, CHR 0xEF, CHR 0xBC, CHR 0x81]"

text \<open>Lines 63 to 84: the text of the help command\<close>

definition help_text_simple :: string where
  "help_text_simple =
     [CHR 0xF0, CHR 0x9F, CHR 0x93, CHR 0x96] @ '' *'' @ [CHR 0xE4, CHR 0xBD, CHR 0xBF,
     CHR 0xE7, CHR 0x94, CHR 0xA8, CHR 0xE8, CHR 0xAA, CHR 0xAA, CHR 0xE6, CHR 0x98,
     CHR 0x8E] @ ''*'' @ [CHR 0x0A, CHR 0x0A] @ ''*'' @ [CHR 0xE5, CHR 0x8F, CHR 0xAF,
     CHR 0xE7, CHR 0x94, CHR 0xA8, CHR 0xE6, CHR 0x8C, CHR 0x87, CHR 0xE4, CHR 0xBB,
     CHR 0xA4, CHR 0xEF, CHR 0xBC, CHR 0x9A] @ ''*'' @ [CHR 0x0A] @ ''/start - '' @
     [CHR 0xE9, CHR 0x96, CHR 0x8B, CHR 0xE5, CHR 0xA7, CHR 0x8B, CHR 0xE4, CHR 0xBD,
     CHR 0xBF, CHR 0xE7, CHR 0x94, CHR 0xA8, CHR 0x0A] @ ''/help - '' @ [CHR 0xE6,
     CHR 0x9F, CHR 0xA5, CHR 0xE7, CHR 0x9C, CHR 0x8B, CHR 0xE8, CHR 0xAA, CHR 0xAA,
     CHR 0xE6, CHR 0x98, CHR 0x8E, CHR 0x0A] @ ''/portfolio - '' @ [CHR 0xE6, CHR 0x9F,
     CHR 0xA5, CHR 0xE7, CHR 0x9C, CHR 0x8B, CHR 0xE6, CHR 0x8C, CHR 0x81, CHR 0xE8,
     CHR 0x82, CHR 0xA1, CHR 0xE7, CHR 0x8B, CHR 0x80, CHR 0xE6, CHR 0xB3, CHR 0x81,
     CHR 0x0A] @ ''/report - '' @ [CHR 0xE6, CHR 0x9F, CHR 0xA5, CHR 0xE7, CHR 0x9C,
     CHR 0x8B, CHR 0xE6, CHR 0x9C, CHR 0x80, CHR 0xE6, CHR 0x96, CHR 0xB0, CHR 0xE5,
     CHR 0xA0, CHR 0xB1, CHR 0xE5, CHR 0x91, CHR 0x8A, CHR 0x0A] @ ''/ping - '' @
     [CHR 0xE6, CHR 0xB8, CHR 0xAC, CHR 0xE8, CHR 0xA9, CHR 0xA6] @ '' Bot '' @
     [CHR 0xE7, CHR 0x8B, CHR 0x80, CHR 0xE6, CHR 0x85, CHR 0x8B, CHR 0x0A, CHR 0x0A] @
     ''*'' @ [CHR 0xE7, CHR 0x9B, CHR 0xB4, CHR 0xE6, CHR 0x8E, CHR 0xA5, CHR 0xE5,
     CHR 0xB0, CHR 0x8D, CHR 0xE8, CHR 0xA9, CHR 0xB1, CHR 0xEF, CHR 0xBC, CHR 0x9A] @
     ''*'' @ [CHR 0x0A, CHR 0xE4, CHR 0xBD, CHR 0xA0, CHR 0xE5, CHR 0x8F, CHR 0xAF,
     CHR 0xE4, CHR 0xBB, CHR 0xA5, CHR 0xE7, CHR 0x9B, CHR 0xB4, CHR 0xE6, CHR 0x8E,
     CHR 0xA5, CHR 0xE7, CHR 0x99, CHR 0xBC, CHR 0xE9, CHR 0x80, CHR 0x81, CHR 0xE8,
     CHR 0xA8, CHR 0x8A, CHR 0xE6, CHR 0x81, CHR 0xAF, CHR 0xE7, CHR 0xB5, CHR 0xA6,
     CHR 0xE6, CHR 0x88, CHR 0x91, CHR 0xEF, CHR 0xBC, CHR 0x8C, CHR 0xE4, CHR 0xBE,
     CHR 0x8B, CHR 0xE5, CHR 0xA6, CHR 0x82, CHR 0xEF, CHR 0xBC, CHR 0x9A, CHR 0x0A,
     CHR 0xE2, CHR 0x80, CHR 0xA2] @ '' '' @ [CHR 0x22, CHR 0xE5, CHR 0x8F, CHR 0xB0,
     CHR 0xE7, CHR 0xA9, CHR 0x8D, CHR 0xE9, CHR 0x9B, CHR 0xBB, CHR 0xE4, CHR 0xBB,
     CHR 0x8A, CHR 0xE5, CHR 0xA4, CHR 0xA9, CHR 0xE8, CHR 0x82, CHR 0xA1, CHR 0xE5,
     CHR 0x83, CHR 0xB9, CHR 0x22, CHR 0x0A, CHR 0xE2, CHR 0x80, CHR 0xA2] @ '' '' @
     [CHR 0x22, CHR 0xE9, CHR 0xA1, CHR 0xAF, CHR 0xE7, CHR 0xA4, CHR 0xBA, CHR 0xE6,
     CHR 0x88, CHR 0x91, CHR 0xE7, CHR 0x9A, CHR 0x84, CHR 0xE6, CHR 0x8C, CHR 0x81,
     CHR 0xE8, CHR 0x82, CHR 0xA1, CHR 0x22, CHR 0x0A, CHR 0xE2, CHR 0x80, CHR 0xA2] @
     '' '' @ [CHR 0x22, CHR 0xE7, CHR 0xBE, CHR 0x8E, CHR 0xE8, CHR 0x82, CHR 0xA1,
     CHR 0xE8, CHR 0xA1, CHR 0xA8, CHR 0xE7, CHR 0x8F, CHR 0xBE, CHR 0xE5, CHR 0xA6,
     CHR 0x82, CHR 0xE4, CHR 0xBD, CHR 0x95, CHR 0x22, CHR 0x0A, CHR 0x0A] @ ''*'' @
     [CHR 0xE8, CHR 0x87, CHR 0xAA, CHR 0xE5, CHR 0x8B, CHR 0x95, CHR 0xE9, CHR 0x80,
     CHR 0x9A, CHR 0xE7, CHR 0x9F, CHR 0xA5, CHR 0xEF, CHR 0xBC, CHR 0x9A] @ ''*'' @
     [CHR 0x0A, CHR 0xE6, CHR 0x88, CHR 0x91, CHR 0xE6, CHR 0x9C, CHR 0x83, CHR 0xE5,
     CHR 0x9C, CHR 0xA8, CHR 0xE4, CHR 0xBB, CHR 0xA5, CHR 0xE4, CHR 0xB8, CHR 0x8B,
     CHR 0xE6, CHR 0x99, CHR 0x82, CHR 0xE9, CHR 0x96, CHR 0x93, CHR 0xE8, CHR 0x87,
     CHR 0xAA, CHR 0xE5, CHR 0x8B, CHR 0x95, CHR 0xE6, CHR 0x8E, CHR 0xA8, CHR 0xE9,
     CHR 0x80, CHR 0x81, CHR 0xE5, CHR 0xA0, CHR 0xB1, CHR 0xE5, CHR 0x91, CHR 0x8A,
     CHR 0xEF, CHR 0xBC, CHR 0x9A, CHR 0x0A, CHR 0xE2, CHR 0x80, CHR 0xA2] @ '' '' @
     [CHR 0xE6, CHR 0xAF, CHR 0x8F, CHR 0xE5, CHR 0xA4, CHR 0xA9] @ '' 06:30 - '' @
     [CHR 0xE5, CHR 0x8F, CHR 0xB0, CHR 0xE7, CHR 0xBE, CHR 0x8E, CHR 0xE8, CHR 0xB2,
     CHR 0xA1, CHR 0xE7, CHR 0xB6, CHR 0x93, CHR 0xE6, CHR 0x97, CHR 0xA5, CHR 0xE5,
     CHR 0xA0, CHR 0xB1, CHR 0x0A, CHR 0xE2, CHR 0x80, CHR 0xA2] @ '' '' @ [CHR 0xE6,
     CHR 0xAF, CHR 0x8F, CHR 0xE5, CHR 0xA4, CHR 0xA9] @ '' 07:00 - '' @ [CHR 0xE6,
     CHR 0x8C, CHR 0x81, CHR 0xE8, CHR 0x82, CHR 0xA1, CHR 0xE6, CHR 0x90, CHR 0x8D,
     CHR 0xE7, CHR 0x9B, CHR 0x8A, CHR 0xE6, CHR 0x9B, CHR 0xB4, CHR 0xE6, CHR 0x96,
     CHR 0xB0, CHR 0x0A, CHR 0xE2, CHR 0x80, CHR 0xA2] @ '' '' @ [CHR 0xE6, CHR 0xAF,
     CHR 0x8F, CHR 0xE9, CHR 0x80, CHR 0xB1, CHR 0xE5, CHR 0x85, CHR 0xAD] @
     '' 07:00 - '' @ [CHR 0xE9, CHR 0x80, CHR 0xB1, CHR 0xE5, CHR 0xA0, CHR 0xB1,
     CHR 0x0A, CHR 0x0A, CHR 0xE6, CHR 0x9C, CHR 0x89, CHR 0xE5, CHR 0x95, CHR 0x8F,
     CHR 0xE9, CHR 0xA1, CHR 0x8C, CHR 0xE9, CHR 0x9A, CHR 0xA8, CHR 0xE6, CHR 0x99,
     CHR 0x82, CHR 0xE5, CHR 0x95, CHR 0x8F, CHR 0xE6, CHR 0x88, CHR 0x91, CHR 0xEF,
     CHR 0xBC, CHR 0x81]"

text \<open>Line 90: the text of the ping command (a green circle, then "the Bot is running")\<close>

definition ping_text_simple :: string where
  "ping_text_simple =
     [CHR 0xF0, CHR 0x9F, CHR 0x9F, CHR 0xA2] @ '' Bot '' @ [CHR 0xE6, CHR 0xAD,
     CHR 0xA3, CHR 0xE5, CHR 0xB8, CHR 0xB8, CHR 0xE9, CHR 0x81, CHR 0x8B, CHR 0xE8,
     CHR 0xA1, CHR 0x8C, CHR 0xE4, CHR 0xB8, CHR 0xAD, CHR 0xEF, CHR 0xBC, CHR 0x81]"

text \<open>Lines 94 to 99: the text of the portfolio command\<close>

definition portfolio_response_simple :: string where
  "portfolio_response_simple =
     [CHR 0xF0, CHR 0x9F, CHR 0x93, CHR 0x8A] @ '' *'' @ [CHR 0xE6, CHR 0x8C, CHR 0x81,
     CHR 0xE8, CHR 0x82, CHR 0xA1, CHR 0xE8, CHR 0xB3, CHR 0x87, CHR 0xE8, CHR 0xA8,
     CHR 0x8A] @ ''*'' @ [CHR 0x0A, CHR 0x0A, CHR 0xE6, CHR 0xAD, CHR 0xA4, CHR 0xE5,
     CHR 0x8A, CHR 0x9F, CHR 0xE8, CHR 0x83, CHR 0xBD, CHR 0xE9, CHR 0x9C, CHR 0x80,
     CHR 0xE8, CHR 0xA6, CHR 0x81, CHR 0xE8, CHR 0x88, CHR 0x87] @ '' Nebula '' @
     [CHR 0xE7, CHR 0xB3, CHR 0xBB, CHR 0xE7, CHR 0xB5, CHR 0xB1, CHR 0xE6, CHR 0x95,
     CHR 0xB4, CHR 0xE5, CHR 0x90, CHR 0x88, CHR 0xE3, CHR 0x80, CHR 0x82, CHR 0x0A,
     CHR 0xE7, CHR 0x9B, CHR 0xAE, CHR 0xE5, CHR 0x89, CHR 0x8D, CHR 0xE5, CHR 0x8F,
     CHR 0xAF, CHR 0xE4, CHR 0xBB, CHR 0xA5, CHR 0xE6, CHR 0x8E, CHR 0xA5, CHR 0xE6,
     CHR 0x94, CHR 0xB6, CHR 0xE8, CHR 0x87, CHR 0xAA, CHR 0xE5, CHR 0x8B, CHR 0x95,
     CHR 0xE6, CHR 0x8E, CHR 0xA8, CHR 0xE9, CHR 0x80, CHR 0x81, CHR 0xE7, CHR 0x9A,
     CHR 0x84, CHR 0xE6, CHR 0x8C, CHR 0x81, CHR 0xE8, CHR 0x82, CHR 0xA1, CHR 0xE5,
     CHR 0xA0, CHR 0xB1, CHR 0xE5, CHR 0x91, CHR 0x8A, CHR 0xE3, CHR 0x80, CHR 0x82,
     CHR 0x0A, CHR 0x0A, CHR 0xE6, CHR 0xAF, CHR 0x8F, CHR 0xE6, CHR 0x97, CHR 0xA5] @
     '' 07:00 '' @ [CHR 0xE6, CHR 0x9C, CHR 0x83, CHR 0xE8, CHR 0x87, CHR 0xAA,
     CHR 0xE5, CHR 0x8B, CHR 0x95, CHR 0xE6, CHR 0x9B, CHR 0xB4, CHR 0xE6, CHR 0x96,
     CHR 0xB0, CHR 0xE6, CHR 0x8C, CHR 0x81, CHR 0xE8, CHR 0x82, CHR 0xA1, CHR 0xE6,
     CHR 0x90, CHR 0x8D, CHR 0xE7, CHR 0x9B, CHR 0x8A, CHR 0xE3, CHR 0x80, CHR 0x82]"

text \<open>Lines 105 to 112: the text of the report command\<close>

definition report_response_simple :: string where
  "report_response_simple =
     [CHR 0xF0, CHR 0x9F, CHR 0x93, CHR 0xB0] @ '' *'' @ [CHR 0xE5, CHR 0xA0, CHR 0xB1,
     CHR 0xE5, CHR 0x91, CHR 0x8A, CHR 0xE6, CHR 0x9F, CHR 0xA5, CHR 0xE8, CHR 0xA9,
     CHR 0xA2] @ ''*'' @ [CHR 0x0A, CHR 0x0A, CHR 0xE8, CHR 0x87, CHR 0xAA, CHR 0xE5,
     CHR 0x8B, CHR 0x95, CHR 0xE5, CHR 0xA0, CHR 0xB1, CHR 0xE5, CHR 0x91, CHR 0x8A,
     CHR 0xE6, CHR 0x8E, CHR 0xA8, CHR 0xE9, CHR 0x80, CHR 0x81, CHR 0xE6, CHR 0x99,
     CHR 0x82, CHR 0xE9, CHR 0x96, CHR 0x93, CHR 0xEF, CHR 0xBC, CHR 0x9A, CHR 0x0A,
     CHR 0xE2, CHR 0x80, CHR 0xA2] @ '' 06:30 - '' @ [CHR 0xE6, CHR 0xAF, CHR 0x8F,
     CHR 0xE6, CHR 0x97, CHR 0xA5, CHR 0xE5, CHR 0x8F, CHR 0xB0, CHR 0xE7, CHR 0xBE,
     CHR 0x8E, CHR 0xE8, CHR 0xB2, CHR 0xA1, CHR 0xE7, CHR 0xB6, CHR 0x93, CHR 0xE6,
     CHR 0x97, CHR 0xA5, CHR 0xE5, CHR 0xA0, CHR 0xB1, CHR 0x0A, CHR 0xE2, CHR 0x80,
     CHR 0xA2] @ '' 07:00 - '' @ [CHR 0xE6, CHR 0x8C, CHR 0x81, CHR 0xE8, CHR 0x82,
     CHR 0xA1, CHR 0xE6, CHR 0x90, CHR 0x8D, CHR 0xE7, CHR 0x9B, CHR 0x8A, CHR 0xE6,
     CHR 0x9B, CHR 0xB4, CHR 0xE6, CHR 0x96, CHR 0xB0, CHR 0x0A, CHR 0xE2, CHR 0x80,
     CHR 0xA2] @ '' '' @ [CHR 0xE9, CHR 0x80, CHR 0xB1, CHR 0xE5, CHR 0x85, CHR 0xAD] @
     '' 07:00 - '' @ [CHR 0xE9, CHR 0x80, CHR 0xB1, CHR 0xE5, CHR 0xA0, CHR 0xB1,
     CHR 0x0A, CHR 0x0A, CHR 0xE6, CHR 0x9C, CHR 0x80, CHR 0xE6, CHR 0x96, CHR 0xB0,
     CHR 0xE5, CHR 0xA0, CHR 0xB1, CHR 0xE5, CHR 0x91, CHR 0x8A, CHR 0xE6, CHR 0x9C,
     CHR 0x83, CHR 0xE8, CHR 0x87, CHR 0xAA, CHR 0xE5, CHR 0x8B, CHR 0x95, CHR 0xE6,
     CHR 0x8E, CHR 0xA8, CHR 0xE9, CHR 0x80, CHR 0x81, CHR 0xE5, CHR 0x88, CHR 0xB0,
     CHR 0xE6, CHR 0xAD, CHR 0xA4, CHR 0xE8, CHR 0x81, CHR 0x8A, CHR 0xE5, CHR 0xA4,
     CHR 0xA9, CHR 0xE5, CHR 0xAE, CHR 0xA4, CHR 0xE3, CHR 0x80, CHR 0x82]"

text \<open>Line 123: the denial (a warning sign, then "you have no permission to use this Bot")\<close>

definition denial_text_simple :: string where
  "denial_text_simple =
     [CHR 0xE2, CHR 0x9A, CHR 0xA0, CHR 0xEF, CHR 0xB8, CHR 0x8F] @ '' '' @ [CHR 0xE4,
     CHR 0xBD, CHR 0xA0, CHR 0xE6, CHR 0xB2, CHR 0x92, CHR 0xE6, CHR 0x9C, CHR 0x89,
     CHR 0xE4, CHR 0xBD, CHR 0xBF, CHR 0xE7, CHR 0x94, CHR 0xA8, CHR 0xE6, CHR 0xAD,
     CHR 0xA4] @ '' Bot '' @ [CHR 0xE7, CHR 0x9A, CHR 0x84, CHR 0xE6, CHR 0xAC,
     CHR 0x8A, CHR 0xE9, CHR 0x99, CHR 0x90, CHR 0xE3, CHR 0x80, CHR 0x82]"

text \<open>Line 129, constant part 1: "received your message: ", then an opening corner bracket\<close>

definition echo_part1 :: string where
  "echo_part1 =
     [CHR 0xE6, CHR 0x94, CHR 0xB6, CHR 0xE5, CHR 0x88, CHR 0xB0, CHR 0xE4, CHR 0xBD,
     CHR 0xA0, CHR 0xE7, CHR 0x9A, CHR 0x84, CHR 0xE8, CHR 0xA8, CHR 0x8A, CHR 0xE6,
     CHR 0x81, CHR 0xAF, CHR 0xEF, CHR 0xBC, CHR 0x9A, CHR 0xE3, CHR 0x80, CHR 0x8C]"

text \<open>Line 129, constant part 2: a closing corner bracket, then "this feature is under development, currently supported:" and three commands\<close>

definition echo_part2 :: string where
  "echo_part2 =
     [CHR 0xE3, CHR 0x80, CHR 0x8D, CHR 0x0A, CHR 0x0A, CHR 0xE6, CHR 0xAD, CHR 0xA4,
     CHR 0xE5, CHR 0x8A, CHR 0x9F, CHR 0xE8, CHR 0x83, CHR 0xBD, CHR 0xE6, CHR 0xAD,
     CHR 0xA3, CHR 0xE5, CHR 0x9C, CHR 0xA8, CHR 0xE9, CHR 0x96, CHR 0x8B, CHR 0xE7,
     CHR 0x99, CHR 0xBC, CHR 0xE4, CHR 0xB8, CHR 0xAD, CHR 0xEF, CHR 0xBC, CHR 0x8C,
     CHR 0xE7, CHR 0x9B, CHR 0xAE, CHR 0xE5, CHR 0x89, CHR 0x8D, CHR 0xE6, CHR 0x94,
     CHR 0xAF, CHR 0xE6, CHR 0x8F, CHR 0xB4, CHR 0xEF, CHR 0xBC, CHR 0x9A, CHR 0x0A,
     CHR 0xE2, CHR 0x80, CHR 0xA2] @ '' /help - '' @ [CHR 0xE6, CHR 0x9F, CHR 0xA5,
     CHR 0xE7, CHR 0x9C, CHR 0x8B, CHR 0xE8, CHR 0xAA, CHR 0xAA, CHR 0xE6, CHR 0x98,
     CHR 0x8E, CHR 0x0A, CHR 0xE2, CHR 0x80, CHR 0xA2] @ '' /portfolio - '' @ [CHR 0xE6,
     CHR 0x8C, CHR 0x81, CHR 0xE8, CHR 0x82, CHR 0xA1, CHR 0xE8, CHR 0xB3, CHR 0x87,
     CHR 0xE8, CHR 0xA8, CHR 0x8A, CHR 0x0A, CHR 0xE2, CHR 0x80, CHR 0xA2] @
     '' /report - '' @ [CHR 0xE5, CHR 0xA0, CHR 0xB1, CHR 0xE5, CHR 0x91, CHR 0x8A,
     CHR 0xE6, CHR 0x9F, CHR 0xA5, CHR 0xE8, CHR 0xA9, CHR 0xA2]"

subsection \<open>The handlers\<close>

definition start_command_simple :: "config_simple \<Rightarrow> update \<Rightarrow> event list" where
  "start_command_simple cfg u = [ReplyText welcome_message_simple (Some ''Markdown'')]"

definition help_command_simple :: "config_simple \<Rightarrow> update \<Rightarrow> event list" where
  "help_command_simple cfg u = [ReplyText help_text_simple (Some ''Markdown'')]"

definition ping_command_simple :: "config_simple \<Rightarrow> update \<Rightarrow> event list" where
  "ping_command_simple cfg u = [ReplyText ping_text_simple None]"

definition portfolio_command_simple :: "config_simple \<Rightarrow> update \<Rightarrow> event list" where
  "portfolio_command_simple cfg u = [ReplyText portfolio_response_simple (Some ''Markdown'')]"

definition report_command_simple :: "config_simple \<Rightarrow> update \<Rightarrow> event list" where
  "report_command_simple cfg u = [ReplyText report_response_simple (Some ''Markdown'')]"

text \<open>
  Line 122: \<^verbatim>\<open>if CHAT_ID and str(user_id) != CHAT_ID\<close>. An absent or empty identity is
  falsy, and then nobody is refused.
\<close>

definition handle_message_simple :: "config_simple \<Rightarrow> update \<Rightarrow> event list" where
  "handle_message_simple cfg u =
     (if truthy (CHAT_ID_simple cfg) \<and> Some (str_int (user_id u)) \<noteq> CHAT_ID_simple cfg
      then [ReplyText denial_text_simple None]
      else [ReplyText (echo_part1 @ message_text u @ echo_part2) None])"

text \<open>
  The handlers registered in \<^verbatim>\<open>main\<close>: this variant has no \<^verbatim>\<open>stock\<close> command, and the
  text handler does not take commands, so such an update reaches no handler.
\<close>

fun dispatch_simple :: "config_simple \<Rightarrow> command \<times> update \<Rightarrow> event list" where
  "dispatch_simple cfg (Start, u) = start_command_simple cfg u"
| "dispatch_simple cfg (Help, u) = help_command_simple cfg u"
| "dispatch_simple cfg (Ping, u) = ping_command_simple cfg u"
| "dispatch_simple cfg (Stock, u) = []"
| "dispatch_simple cfg (Portfolio, u) = portfolio_command_simple cfg u"
| "dispatch_simple cfg (Report, u) = report_command_simple cfg u"
| "dispatch_simple cfg (FreeText, u) = handle_message_simple cfg u"

definition run_bot_simple ::
  "(string \<rightharpoonup> string) \<Rightarrow> (command \<times> update) list \<Rightarrow> int option \<times> event list" where
  "run_bot_simple environ updates =
     (case startup_simple environ of
        Inl status \<Rightarrow> (Some status, [])
      | Inr cfg \<Rightarrow> (None, concat (map (dispatch_simple cfg) updates)))"

section \<open>Concrete inputs\<close>

text \<open>
  An environment without the completion credential, the configurations the two variants
  derive from environments, and a world in which both endpoints answer 404.
\<close>

definition example_environ :: "string \<rightharpoonup> string" where
  "example_environ =
     [''TELEGRAM_BOT_TOKEN'' \<mapsto> ''123:abc'', ''TELEGRAM_CHAT_ID'' \<mapsto> ''42'']"

definition example_config :: config where
  "example_config =
     \<lparr>BOT_TOKEN = ''123:abc'', CHAT_ID = ''42'', NEBULA_API_KEY = ''secret'',
      NEBULA_API_URL = ''https://api.nebula.gg''\<rparr>"

definition example_config_simple :: config_simple where
  "example_config_simple = \<lparr>BOT_TOKEN_simple = ''123:abc'', CHAT_ID_simple = Some ''42''\<rparr>"

definition example_exn_str :: "exn \<Rightarrow> string" where
  "example_exn_str e =
     (case e of
        LibraryError m \<Rightarrow> m
      | IndexError \<Rightarrow> ''list index out of range''
      | ZeroDivisionError \<Rightarrow> ''float division by zero''
      | OverflowError \<Rightarrow> ''int too large to convert to float''
      | _ \<Rightarrow> ''error'')"

text \<open>
  The texts Python gives for the values that occur in the examples. The double nearest to
  \<open>10 / 590\<close>, times 100, is \<open>1908304926851905 / 2 ^ 50\<close>.
\<close>

definition example_value_str :: "pyval \<Rightarrow> string" where
  "example_value_str v =
     (case v of
        PInt i \<Rightarrow> str_int i
      | PFloat x \<Rightarrow>
          (if x = Num 600 then ''600.0'' else if x = Num 590 then ''590.0''
           else if x = Num 0 then ''0.0'' else ''?'')
      | _ \<Rightarrow> ''?'')"

definition example_signed_2f :: "fl \<Rightarrow> string" where
  "example_signed_2f x =
     (if x = Num 10 then ''+10.00''
      else if x = Num (1908304926851905 / 1125899906842624) then ''+1.69''
      else if x = Num 600 then ''+600.00''
      else if x = Num 0 then ''+0.00''
      else if x = NegZero then ''-0.00''
      else ''?'')"

definition example_world :: world where
  "example_world =
     \<lparr>http_get = (\<lambda>url. Inr \<lparr>status_code = 404, json = Inl (LibraryError ''Expecting value'')\<rparr>),
      http_post = (\<lambda>url headers body.
         Inr \<lparr>status_code = 404, json = Inl (LibraryError ''Expecting value'')\<rparr>),
      now = ''2024-01-02 03:04:05'',
      upper = (\<lambda>s. if s = ''aapl'' then ''AAPL'' else s),
      exn_str = example_exn_str,
      value_str = example_value_str,
      signed_2f = example_signed_2f\<rparr>"

definition example_update :: "int \<Rightarrow> string \<Rightarrow> string list \<Rightarrow> update" where
  "example_update sender txt arguments =
     \<lparr>user_id = sender, message_text = txt, args = arguments\<rparr>"

definition example_environ_no_identity :: "string \<rightharpoonup> string" where
  "example_environ_no_identity = [''TELEGRAM_BOT_TOKEN'' \<mapsto> ''123:abc'']"

text \<open>A completion body of the documented shape, and worlds that answer it with 201.\<close>

definition example_completion_body :: pyval where
  "example_completion_body =
     PDict [(''choices'',
             PList [PDict [(''message'',
                            PDict [(''role'', PStr ''assistant''),
                                   (''content'', PStr ''hi there'')])]])]"

definition example_world_201 :: world where
  "example_world_201 =
     example_world\<lparr>http_post := (\<lambda>url headers body.
        Inr \<lparr>status_code = 201, json = Inr example_completion_body\<rparr>)\<rparr>"

text \<open>A world whose completion endpoint answers 200 with an empty list of choices.\<close>

definition example_world_empty_choices :: world where
  "example_world_empty_choices =
     example_world\<lparr>http_post := (\<lambda>url headers body.
        Inr \<lparr>status_code = 200, json = Inr (PDict [(''choices'', PList [])])\<rparr>)\<rparr>"

text \<open>
  Quote bodies of the documented shape: one with both prices and neither symbol nor
  currency, one with the price only, one whose previous close is zero; and worlds whose
  quote endpoint answers 200 with them.
\<close>

definition example_meta :: "(string \<times> pyval) list" where
  "example_meta =
     [(''regularMarketPrice'', PFloat (Num 600)), (''previousClose'', PFloat (Num 590))]"

definition example_meta_price_only :: "(string \<times> pyval) list" where
  "example_meta_price_only =
     [(''symbol'', PStr ''2330.TW''), (''regularMarketPrice'', PInt 600)]"

definition example_meta_zero_close :: "(string \<times> pyval) list" where
  "example_meta_zero_close =
     [(''regularMarketPrice'', PFloat (Num 600)), (''previousClose'', PFloat (Num 0))]"

definition example_quote_body :: "(string \<times> pyval) list \<Rightarrow> pyval" where
  "example_quote_body meta =
     PDict [(''chart'', PDict [(''result'', PList [PDict [(''meta'', PDict meta)]]),
                               (''error'', PNone)])]"

definition example_world_quote :: "(string \<times> pyval) list \<Rightarrow> world" where
  "example_world_quote meta =
     example_world\<lparr>http_get := (\<lambda>url.
        Inr \<lparr>status_code = 200, json = Inr (example_quote_body meta)\<rparr>)\<rparr>"

section \<open>The documented shapes of the two success bodies\<close>

text \<open>
  The specification gives the success body of the completion endpoint as
  \<^verbatim>\<open>{choices:[{message:{content:...}}]}\<close>. The content of the first choice of a body of
  that shape, read by pattern and not through the defaults of the code:
\<close>

fun spec_first_choice_content :: "pyval \<Rightarrow> pyval option" where
  "spec_first_choice_content (PDict d) =
     (case map_of d ''choices'' of
        Some (PList (PDict c # cs)) \<Rightarrow>
          (case map_of c ''message'' of
             Some (PDict m) \<Rightarrow> map_of m ''content''
           | _ \<Rightarrow> None)
      | _ \<Rightarrow> None)"
| "spec_first_choice_content v = None"

text \<open>
  The success body of the quote endpoint is given as
  \<^verbatim>\<open>{chart:{result:[{meta:{regularMarketPrice, previousClose, symbol, currency}}]}}\<close>. The
  \<^verbatim>\<open>meta\<close> object of a body of that shape:
\<close>

fun spec_payload_meta :: "pyval \<Rightarrow> (string \<times> pyval) list option" where
  "spec_payload_meta (PDict d) =
     (case map_of d ''chart'' of
        Some (PDict c) \<Rightarrow>
          (case map_of c ''result'' of
             Some (PList (PDict r # rs)) \<Rightarrow>
               (case map_of r ''meta'' of
                  Some (PDict m) \<Rightarrow> Some m
                | _ \<Rightarrow> None)
           | _ \<Rightarrow> None)
      | _ \<Rightarrow> None)"
| "spec_payload_meta v = None"

text \<open>
  In the data model of the specification the price and the previous close are each a number
  or absent. A field of \<^verbatim>\<open>meta\<close> is the result of a lookup: \<open>None\<close> when the key is absent.
\<close>

definition numeric_or_absent :: "pyval option \<Rightarrow> bool" where
  "numeric_or_absent field = (case field of None \<Rightarrow> True | Some v \<Rightarrow> number_of v \<noteq> None)"

text \<open>
  Steps 3 and 4 of the specification, with the arithmetic of Python: the change is the price
  minus the previous close when both are present, else zero; the percentage is the change
  divided by the previous close, times 100, when the previous close is present and not zero,
  else zero.
\<close>

definition spec_change :: "pyval option \<Rightarrow> pyval option \<Rightarrow> exn + pyval" where
  "spec_change p pc = (case (p, pc) of (Some a, Some b) \<Rightarrow> py_sub a b | _ \<Rightarrow> Inr (PInt 0))"

definition spec_change_percent :: "pyval \<Rightarrow> pyval option \<Rightarrow> exn + pyval" where
  "spec_change_percent ch pc =
     (case pc of
        Some b \<Rightarrow>
          if py_ne_zero b then bind_exn (py_truediv ch b) (\<lambda>q. py_mul q (PInt 100))
          else Inr (PInt 0)
      | None \<Rightarrow> Inr (PInt 0))"

text \<open>The value and the text shown for a field, with a fixed one when it is absent.\<close>

definition field_value :: "pyval option \<Rightarrow> pyval \<Rightarrow> pyval" where
  "field_value field absent_value = (case field of None \<Rightarrow> absent_value | Some v \<Rightarrow> v)"

definition field_text :: "world \<Rightarrow> pyval option \<Rightarrow> string \<Rightarrow> string" where
  "field_text w field absent_text = (case field of None \<Rightarrow> absent_text | Some v \<Rightarrow> py_str w v)"

text \<open>
  A field whose arithmetic cannot overflow: absent, a \<^verbatim>\<open>float\<close>, or an \<^verbatim>\<open>int\<close> below
  \<open>2 ^ 1022\<close> in magnitude, so that a difference of two such \<^verbatim>\<open>int\<close>s still converts to a
  \<^verbatim>\<open>float\<close>.
\<close>

definition ordinary :: "pyval option \<Rightarrow> bool" where
  "ordinary field =
     (case field of
        None \<Rightarrow> True
      | Some v \<Rightarrow>
          (case number_of v of
             Some (NInt i) \<Rightarrow> \<bar>i\<bar> < 2 ^ 1022
           | Some (NFloat x) \<Rightarrow> True
           | None \<Rightarrow> False))"

text \<open>
  Two conditions on a number that the proofs use: it is not equal to \<^verbatim>\<open>0\<close>; and it is a
  \<^verbatim>\<open>float\<close>, or an \<^verbatim>\<open>int\<close> that converts to one.
\<close>

fun nonzero :: "number \<Rightarrow> bool" where
  "nonzero (NInt i) = (i \<noteq> 0)"
| "nonzero (NFloat x) = (\<not> fl_is_zero x)"

fun small :: "number \<Rightarrow> bool" where
  "small (NInt i) = (\<bar>i\<bar> < 2 ^ 1023)"
| "small (NFloat x) = True"

section \<open>Basic facts\<close>

lemma bind_exn_simps [simp]:
  "bind_exn (Inl e) f = Inl e"
  "bind_exn (Inr x) f = f x"
  by (simp_all add: bind_exn_def)

lemma try_except_simps [simp]:
  "try_except (Inl e) h = h e"
  "try_except (Inr x) h = Inr x"
  by (simp_all add: try_except_def)

lemma startup_Inr:
  assumes "startup environ = Inr cfg"
  shows "environ ''TELEGRAM_CHAT_ID'' = Some (CHAT_ID cfg)"
    and "CHAT_ID cfg \<noteq> []"
    and "NEBULA_API_KEY cfg = getenv_default environ ''NEBULA_API_KEY'' []"
proof -
  from assms have tok: "truthy (environ ''TELEGRAM_BOT_TOKEN'')"
    and chat: "truthy (environ ''TELEGRAM_CHAT_ID'')"
    by (auto simp: startup_def Let_def split: if_splits)
  from chat obtain c where c: "environ ''TELEGRAM_CHAT_ID'' = Some c" "c \<noteq> []"
    by (cases "environ ''TELEGRAM_CHAT_ID''") auto
  from assms tok chat c have cfg: "CHAT_ID cfg = c"
    "NEBULA_API_KEY cfg = getenv_default environ ''NEBULA_API_KEY'' []"
    by (auto simp: startup_def Let_def)
  from c cfg show "environ ''TELEGRAM_CHAT_ID'' = Some (CHAT_ID cfg)" by simp
  from c cfg show "CHAT_ID cfg \<noteq> []" by simp
  from cfg show "NEBULA_API_KEY cfg = getenv_default environ ''NEBULA_API_KEY'' []" by simp
qed

lemma example_startup:
  "startup example_environ =
     Inr \<lparr>BOT_TOKEN = ''123:abc'', CHAT_ID = ''42'', NEBULA_API_KEY = [],
          NEBULA_API_URL = ''https://api.nebula.gg''\<rparr>"
  by (simp add: startup_def example_environ_def getenv_default_def)

section \<open>The completion caller without a credential\<close>

text \<open>
  Claim C6. When the environment gives no completion credential (the variable is unset or
  empty), \<^const>\<open>call_nebula_api\<close> returns the fixed advisory text, which names the variable
  \<^verbatim>\<open>NEBULA_API_KEY\<close>, and issues no request, whatever the message and the world.
\<close>

theorem call_nebula_api_no_credential:
  assumes "startup environ = Inr cfg"
    and "\<not> truthy (environ ''NEBULA_API_KEY'')"
  shows "call_nebula_api cfg w message = ([], Inr (PStr advisory_text))
         \<and> sublist ''NEBULA_API_KEY'' advisory_text"
proof -
  from assms(2) have "getenv_default environ ''NEBULA_API_KEY'' [] = []"
    by (cases "environ ''NEBULA_API_KEY''") (simp_all add: getenv_default_def)
  with startup_Inr(3) [OF assms(1)] have key: "NEBULA_API_KEY cfg = []"
    by simp
  have "sublist ''NEBULA_API_KEY'' advisory_text"
    unfolding advisory_text_def by (simp add: sublist_Cons_right)
  with key show ?thesis
    by (simp add: call_nebula_api_def)
qed

theorem call_nebula_api_no_credential_witness:
  "startup example_environ =
     Inr \<lparr>BOT_TOKEN = ''123:abc'', CHAT_ID = ''42'', NEBULA_API_KEY = [],
          NEBULA_API_URL = ''https://api.nebula.gg''\<rparr>
   \<and> \<not> truthy (example_environ ''NEBULA_API_KEY'')
   \<and> call_nebula_api
        \<lparr>BOT_TOKEN = ''123:abc'', CHAT_ID = ''42'', NEBULA_API_KEY = [],
         NEBULA_API_URL = ''https://api.nebula.gg''\<rparr> example_world ''hello''
       = ([], Inr (PStr advisory_text))"
proof -
  have unset: "\<not> truthy (example_environ ''NEBULA_API_KEY'')"
    by (simp add: example_environ_def)
  from call_nebula_api_no_credential [OF example_startup unset, of example_world "''hello''"]
    example_startup unset
  show ?thesis by simp
qed

section \<open>The authorization gate\<close>

lemma str_int_7: "str_int 7 = ''7''"
  by (simp add: str_int_def str_nat.simps)

lemma dispatch_denied:
  assumes "str_int (user_id u) \<noteq> CHAT_ID cfg"
  shows "dispatch cfg w (c, u) = [ReplyText denial_text None]"
  using assms
  by (cases c)
     (simp_all add: start_command_def help_command_def ping_command_def stock_command_def
        portfolio_command_def report_command_def handle_message_def)

lemma dispatch_simple_no_call: "filter is_call (dispatch_simple scfg (c, u)) = []"
  by (cases c)
     (simp_all add: start_command_simple_def help_command_simple_def ping_command_simple_def
        portfolio_command_simple_def report_command_simple_def handle_message_simple_def)

text \<open>
  Claim C1, as the code has it. In the richer variant a sender whose identity differs from
  the configured one gets exactly the denial text from each of the seven handlers, and no
  request is issued. In the simpler variant the text handler answers with that variant's own
  denial text when an identity is configured and the sender's differs; no handler of the
  simpler variant issues a request.
\<close>

theorem unauthorized_sender_denied:
  "(str_int (user_id u) \<noteq> CHAT_ID cfg \<longrightarrow>
      start_command cfg w u = [ReplyText denial_text None]
      \<and> help_command cfg w u = [ReplyText denial_text None]
      \<and> ping_command cfg w u = [ReplyText denial_text None]
      \<and> stock_command cfg w u = [ReplyText denial_text None]
      \<and> portfolio_command cfg w u = [ReplyText denial_text None]
      \<and> report_command cfg w u = [ReplyText denial_text None]
      \<and> handle_message cfg w u = [ReplyText denial_text None]
      \<and> filter is_call (dispatch cfg w (c, u)) = [])
   \<and> (truthy (CHAT_ID_simple scfg) \<and> Some (str_int (user_id u)) \<noteq> CHAT_ID_simple scfg \<longrightarrow>
        handle_message_simple scfg u = [ReplyText denial_text_simple None])
   \<and> filter is_call (dispatch_simple scfg (c, u)) = []"
proof (intro conjI impI)
  assume "truthy (CHAT_ID_simple scfg) \<and> Some (str_int (user_id u)) \<noteq> CHAT_ID_simple scfg"
  then show "handle_message_simple scfg u = [ReplyText denial_text_simple None]"
    by (simp add: handle_message_simple_def)
next
  show "filter is_call (dispatch_simple scfg (c, u)) = []"
    by (rule dispatch_simple_no_call)
next
  assume "str_int (user_id u) \<noteq> CHAT_ID cfg"
  then show "filter is_call (dispatch cfg w (c, u)) = []"
    by (simp add: dispatch_denied)
qed (simp_all add: start_command_def help_command_def ping_command_def stock_command_def
       portfolio_command_def report_command_def handle_message_def)

theorem unauthorized_sender_denied_witness:
  "str_int (user_id (example_update 7 ''hello'' [])) \<noteq> CHAT_ID example_config
   \<and> truthy (CHAT_ID_simple example_config_simple)
   \<and> Some (str_int (user_id (example_update 7 ''hello'' []))) \<noteq> CHAT_ID_simple example_config_simple
   \<and> stock_command example_config example_world (example_update 7 ''hello'' [])
       = [ReplyText denial_text None]
   \<and> handle_message example_config example_world (example_update 7 ''hello'' [])
       = [ReplyText denial_text None]
   \<and> handle_message_simple example_config_simple (example_update 7 ''hello'' [])
       = [ReplyText denial_text_simple None]"
proof -
  have rich: "str_int (user_id (example_update 7 ''hello'' [])) \<noteq> CHAT_ID example_config"
    by (simp add: example_update_def example_config_def str_int_7)
  have simple: "truthy (CHAT_ID_simple example_config_simple)
      \<and> Some (str_int (user_id (example_update 7 ''hello'' []))) \<noteq> CHAT_ID_simple example_config_simple"
    by (simp add: example_update_def example_config_simple_def str_int_7)
  from unauthorized_sender_denied
         [of "example_update 7 ''hello'' []" example_config example_world FreeText
             example_config_simple]
       rich simple
  show ?thesis by blast
qed

text \<open>
  The command handlers of the simpler variant do not look at the sender: with the identity
  \<^verbatim>\<open>42\<close> configured, sender \<^verbatim>\<open>7\<close> gets the welcome text from \<^verbatim>\<open>/start\<close>.
\<close>

theorem start_command_simple_not_denied:
  "str_int (user_id (example_update 7 ''/start'' [])) \<noteq> ''42''
   \<and> CHAT_ID_simple example_config_simple = Some ''42''
   \<and> start_command_simple example_config_simple (example_update 7 ''/start'' [])
       = [ReplyText welcome_message_simple (Some ''Markdown'')]
   \<and> start_command_simple example_config_simple (example_update 7 ''/start'' [])
       \<noteq> [ReplyText denial_text_simple None]"
  by (simp add: example_update_def example_config_simple_def str_int_7
        start_command_simple_def)

section \<open>No identity configured\<close>

lemma run_bot_simple_free_text:
  assumes "startup_simple environ = Inr scfg"
    and "\<not> truthy (CHAT_ID_simple scfg)"
  shows "run_bot_simple environ (map (Pair FreeText) us)
         = (None, map (\<lambda>u. ReplyText (echo_part1 @ message_text u @ echo_part2) None) us)"
proof -
  have "concat (map (dispatch_simple scfg) (map (Pair FreeText) us))
        = map (\<lambda>u. ReplyText (echo_part1 @ message_text u @ echo_part2) None) us"
    using assms(2) by (induction us) (simp_all add: handle_message_simple_def)
  with assms(1) show ?thesis
    by (simp add: run_bot_simple_def)
qed

text \<open>
  Claim C2. When the environment gives no authorized identity (the variable is unset or
  empty), the richer variant exits with status 1, which is not zero, and handles no update.
  The simpler variant, given a token, starts, and its text handler answers every sender with
  the echo of the message: nobody is refused.
\<close>

theorem identity_not_configured:
  assumes "\<not> truthy (environ ''TELEGRAM_CHAT_ID'')"
  shows "run_bot environ w updates = (Some 1, [])
         \<and> (truthy (environ ''TELEGRAM_BOT_TOKEN'') \<longrightarrow>
              (\<exists>scfg. startup_simple environ = Inr scfg
                 \<and> (\<forall>u. handle_message_simple scfg u
                          = [ReplyText (echo_part1 @ message_text u @ echo_part2) None])
                 \<and> run_bot_simple environ (map (Pair FreeText) us)
                     = (None, map (\<lambda>u. ReplyText (echo_part1 @ message_text u @ echo_part2) None)
                                us)))"
proof (intro conjI impI)
  from assms show "run_bot environ w updates = (Some 1, [])"
    by (simp add: run_bot_def startup_def Let_def)
next
  assume tok: "truthy (environ ''TELEGRAM_BOT_TOKEN'')"
  define scfg where
    "scfg = \<lparr>BOT_TOKEN_simple = the (environ ''TELEGRAM_BOT_TOKEN''),
             CHAT_ID_simple = environ ''TELEGRAM_CHAT_ID''\<rparr>"
  from tok have start: "startup_simple environ = Inr scfg"
    by (simp add: startup_simple_def scfg_def Let_def)
  from assms have open_gate: "\<not> truthy (CHAT_ID_simple scfg)"
    by (simp add: scfg_def)
  then have "\<forall>u. handle_message_simple scfg u
               = [ReplyText (echo_part1 @ message_text u @ echo_part2) None]"
    by (simp add: handle_message_simple_def)
  with start run_bot_simple_free_text [OF start open_gate, of us]
  show "\<exists>scfg. startup_simple environ = Inr scfg
          \<and> (\<forall>u. handle_message_simple scfg u
                   = [ReplyText (echo_part1 @ message_text u @ echo_part2) None])
          \<and> run_bot_simple environ (map (Pair FreeText) us)
              = (None, map (\<lambda>u. ReplyText (echo_part1 @ message_text u @ echo_part2) None) us)"
    by blast
qed

theorem identity_not_configured_witness:
  "\<not> truthy (example_environ_no_identity ''TELEGRAM_CHAT_ID'')
   \<and> truthy (example_environ_no_identity ''TELEGRAM_BOT_TOKEN'')
   \<and> run_bot example_environ_no_identity example_world
        [(FreeText, example_update 7 ''hello'' [])] = (Some 1, [])
   \<and> run_bot_simple example_environ_no_identity
        (map (Pair FreeText) [example_update 7 ''hello'' []])
       = (None, [ReplyText (echo_part1 @ ''hello'' @ echo_part2) None])"
proof -
  have unset: "\<not> truthy (example_environ_no_identity ''TELEGRAM_CHAT_ID'')"
    by (simp add: example_environ_no_identity_def)
  have tok: "truthy (example_environ_no_identity ''TELEGRAM_BOT_TOKEN'')"
    by (simp add: example_environ_no_identity_def)
  from identity_not_configured
         [of example_environ_no_identity example_world
             "[(FreeText, example_update 7 ''hello'' [])]" "[example_update 7 ''hello'' []]"]
       unset tok
  show ?thesis by (auto simp: example_update_def)
qed

section \<open>Failures of the quote endpoint\<close>

lemma try_except_total: "\<exists>s. try_except m (\<lambda>e. Inr (f e)) = Inr s"
  by (cases m) simp_all

lemma str_int_404: "str_int 404 = ''404''"
  by (simp add: str_int_def str_nat.simps)

text \<open>
  Claim C4. \<^const>\<open>get_stock_price\<close> always returns a text, never an exception. For a status
  other than 200 the text contains the decimal status code; when the request raises, or the
  body of a 200 response does not decode, the text is the error prefix followed by the text
  of the exception.
\<close>

theorem get_stock_price_failures:
  "(\<exists>s. snd (get_stock_price w stock_code) = Inr s)
   \<and> (\<forall>r. http_get w (quote_url stock_code) = Inr r \<and> status_code r \<noteq> 200 \<longrightarrow>
          snd (get_stock_price w stock_code)
            = Inr (quote_failed_part1 @ stock_code @ quote_failed_part2 @
                   str_int (status_code r) @ quote_failed_part3)
          \<and> sublist (str_int (status_code r))
               (quote_failed_part1 @ stock_code @ quote_failed_part2 @
                str_int (status_code r) @ quote_failed_part3))
   \<and> (\<forall>e. http_get w (quote_url stock_code) = Inl e \<longrightarrow>
          snd (get_stock_price w stock_code) = Inr (quote_error_prefix @ exn_str w e))
   \<and> (\<forall>r e. http_get w (quote_url stock_code) = Inr r \<and> status_code r = 200
             \<and> json r = Inl e \<longrightarrow>
          snd (get_stock_price w stock_code) = Inr (quote_error_prefix @ exn_str w e))"
proof (intro conjI allI impI)
  show "\<exists>s. snd (get_stock_price w stock_code) = Inr s"
    by (simp add: get_stock_price_def try_except_total)
next
  fix r
  assume "http_get w (quote_url stock_code) = Inr r \<and> status_code r \<noteq> 200"
  then show "snd (get_stock_price w stock_code)
      = Inr (quote_failed_part1 @ stock_code @ quote_failed_part2 @
             str_int (status_code r) @ quote_failed_part3)"
    by (simp add: get_stock_price_def)
next
  fix r
  have "sublist (str_int (status_code r))
          ((quote_failed_part1 @ stock_code @ quote_failed_part2) @
           str_int (status_code r) @ quote_failed_part3)"
    by (rule sublist_appendI)
  then show "sublist (str_int (status_code r))
      (quote_failed_part1 @ stock_code @ quote_failed_part2 @
       str_int (status_code r) @ quote_failed_part3)"
    by simp
next
  fix e
  assume "http_get w (quote_url stock_code) = Inl e"
  then show "snd (get_stock_price w stock_code) = Inr (quote_error_prefix @ exn_str w e)"
    by (simp add: get_stock_price_def)
next
  fix r e
  assume "http_get w (quote_url stock_code) = Inr r \<and> status_code r = 200 \<and> json r = Inl e"
  then show "snd (get_stock_price w stock_code) = Inr (quote_error_prefix @ exn_str w e)"
    by (simp add: get_stock_price_def)
qed

theorem get_stock_price_failures_witness:
  "http_get example_world (quote_url ''AAPL'')
     = Inr \<lparr>status_code = 404, json = Inl (LibraryError ''Expecting value'')\<rparr>
   \<and> (404 :: int) \<noteq> 200
   \<and> snd (get_stock_price example_world ''AAPL'')
       = Inr (quote_failed_part1 @ ''AAPL'' @ quote_failed_part2 @ ''404'' @ quote_failed_part3)
   \<and> sublist ''404''
       (quote_failed_part1 @ ''AAPL'' @ quote_failed_part2 @ ''404'' @ quote_failed_part3)"
proof -
  have get: "http_get example_world (quote_url ''AAPL'')
      = Inr \<lparr>status_code = 404, json = Inl (LibraryError ''Expecting value'')\<rparr>"
    by (simp add: example_world_def)
  from get_stock_price_failures [of example_world "''AAPL''"]
  have "\<forall>r. http_get example_world (quote_url ''AAPL'') = Inr r \<and> status_code r \<noteq> 200 \<longrightarrow>
          snd (get_stock_price example_world ''AAPL'')
            = Inr (quote_failed_part1 @ ''AAPL'' @ quote_failed_part2 @
                   str_int (status_code r) @ quote_failed_part3)
          \<and> sublist (str_int (status_code r))
               (quote_failed_part1 @ ''AAPL'' @ quote_failed_part2 @
                str_int (status_code r) @ quote_failed_part3)"
    by blast
  from this [rule_format, of "\<lparr>status_code = 404, json = Inl (LibraryError ''Expecting value'')\<rparr>"]
    get
  show ?thesis by (simp add: str_int_404)
qed

section \<open>The completion caller\<close>

lemma spec_first_choice_content_Some:
  assumes "spec_first_choice_content data = Some v"
  shows "first_choice_content data = Inr v"
proof -
  from assms obtain d c cs m where
    "data = PDict d" "map_of d ''choices'' = Some (PList (PDict c # cs))"
    "map_of c ''message'' = Some (PDict m)" "map_of m ''content'' = Some v"
    by (cases data) (auto split: option.splits pyval.splits list.splits)
  then show ?thesis
    by (simp add: first_choice_content_def)
qed

text \<open>The defaults of line 82 cover a missing key at each of the three levels.\<close>

lemma first_choice_content_missing_choices:
  "map_of d ''choices'' = None \<Longrightarrow> first_choice_content (PDict d) = Inr (PStr no_content_text)"
  by (simp add: first_choice_content_def)

lemma first_choice_content_missing_message:
  "map_of d ''choices'' = Some (PList (PDict c # cs)) \<Longrightarrow> map_of c ''message'' = None \<Longrightarrow>
   first_choice_content (PDict d) = Inr (PStr no_content_text)"
  by (simp add: first_choice_content_def)

lemma first_choice_content_missing_content:
  "map_of d ''choices'' = Some (PList (PDict c # cs)) \<Longrightarrow>
   map_of c ''message'' = Some (PDict m) \<Longrightarrow> map_of m ''content'' = None \<Longrightarrow>
   first_choice_content (PDict d) = Inr (PStr no_content_text)"
  by (simp add: first_choice_content_def)

lemma str_int_201: "str_int 201 = ''201''"
  by (simp add: str_int_def str_nat.simps)

text \<open>
  Claim C5 as stated fails: the code takes only the status 200 as success. With a credential
  configured and the status 201, which is a 2xx status, the well-formed body is not read and
  the failure text is returned.
\<close>

theorem call_nebula_api_201_fails:
  "NEBULA_API_KEY example_config \<noteq> []
   \<and> http_post example_world_201 (completion_url example_config)
        (completion_headers example_config) (completion_payload ''hello'')
       = Inr \<lparr>status_code = 201, json = Inr example_completion_body\<rparr>
   \<and> (200 :: int) \<le> 201 \<and> (201 :: int) < 300
   \<and> spec_first_choice_content example_completion_body = Some (PStr ''hi there'')
   \<and> snd (call_nebula_api example_config example_world_201 ''hello'')
       = Inr (PStr (api_failed_prefix @ ''201)''))
   \<and> snd (call_nebula_api example_config example_world_201 ''hello'')
       \<noteq> Inr (PStr ''hi there'')"
  by (simp add: example_config_def example_world_201_def example_world_def
        example_completion_body_def call_nebula_api_def str_int_201 api_failed_prefix_def)

text \<open>
  Claim C5, as the code has it. Without a credential the result is the advisory text. With a
  credential: when the request raises, the error prefix followed by the text of the exception;
  when the status is not 200, the failure text, which contains the decimal status code; when
  the body of a 200 response does not decode, the error text again; and when it decodes to a
  body of the documented shape, the content of the first choice.
\<close>

theorem call_nebula_api_cases:
  "(NEBULA_API_KEY cfg = [] \<longrightarrow>
      snd (call_nebula_api cfg w message) = Inr (PStr advisory_text))
   \<and> (NEBULA_API_KEY cfg \<noteq> [] \<longrightarrow>
        (\<forall>e. http_post w (completion_url cfg) (completion_headers cfg)
               (completion_payload message) = Inl e \<longrightarrow>
             snd (call_nebula_api cfg w message) = Inr (PStr (api_error_prefix @ exn_str w e)))
        \<and> (\<forall>r. http_post w (completion_url cfg) (completion_headers cfg)
                 (completion_payload message) = Inr r \<and> status_code r \<noteq> 200 \<longrightarrow>
               snd (call_nebula_api cfg w message)
                 = Inr (PStr (api_failed_prefix @ str_int (status_code r) @ '')''))
               \<and> sublist (str_int (status_code r))
                    (api_failed_prefix @ str_int (status_code r) @ '')''))
        \<and> (\<forall>r e. http_post w (completion_url cfg) (completion_headers cfg)
                   (completion_payload message) = Inr r \<and> status_code r = 200
                   \<and> json r = Inl e \<longrightarrow>
               snd (call_nebula_api cfg w message) = Inr (PStr (api_error_prefix @ exn_str w e)))
        \<and> (\<forall>r data v. http_post w (completion_url cfg) (completion_headers cfg)
                        (completion_payload message) = Inr r \<and> status_code r = 200
                        \<and> json r = Inr data \<and> spec_first_choice_content data = Some v \<longrightarrow>
               snd (call_nebula_api cfg w message) = Inr v))"
proof (intro conjI allI impI)
  fix r data v
  assume key: "NEBULA_API_KEY cfg \<noteq> []"
    and "http_post w (completion_url cfg) (completion_headers cfg) (completion_payload message)
           = Inr r \<and> status_code r = 200 \<and> json r = Inr data
         \<and> spec_first_choice_content data = Some v"
  then show "snd (call_nebula_api cfg w message) = Inr v"
    by (simp add: call_nebula_api_def spec_first_choice_content_Some)
qed (simp_all add: call_nebula_api_def)

theorem call_nebula_api_cases_witness:
  "NEBULA_API_KEY example_config \<noteq> []
   \<and> http_post example_world_201 (completion_url example_config)
        (completion_headers example_config) (completion_payload ''hello'')
       = Inr \<lparr>status_code = 201, json = Inr example_completion_body\<rparr>
   \<and> (201 :: int) \<noteq> 200
   \<and> snd (call_nebula_api example_config example_world_201 ''hello'')
       = Inr (PStr (api_failed_prefix @ ''201'' @ '')''))
   \<and> sublist ''201'' (api_failed_prefix @ ''201'' @ '')'')"
proof -
  have key: "NEBULA_API_KEY example_config \<noteq> []"
    by (simp add: example_config_def)
  have post: "http_post example_world_201 (completion_url example_config)
        (completion_headers example_config) (completion_payload ''hello'')
       = Inr \<lparr>status_code = 201, json = Inr example_completion_body\<rparr>"
    by (simp add: example_world_201_def example_world_def)
  from call_nebula_api_cases [of example_config example_world_201 "''hello''"] key
  have "\<forall>r. http_post example_world_201 (completion_url example_config)
               (completion_headers example_config) (completion_payload ''hello'') = Inr r
             \<and> status_code r \<noteq> 200 \<longrightarrow>
           snd (call_nebula_api example_config example_world_201 ''hello'')
             = Inr (PStr (api_failed_prefix @ str_int (status_code r) @ '')''))
           \<and> sublist (str_int (status_code r))
                (api_failed_prefix @ str_int (status_code r) @ '')'')"
    by blast
  from this [rule_format, of "\<lparr>status_code = 201, json = Inr example_completion_body\<rparr>"]
    key post
  show ?thesis by (simp add: str_int_201)
qed

text \<open>
  Claim C7 at a body whose list of choices is empty: indexing the list raises
  \<^verbatim>\<open>IndexError\<close>, the handler of the \<^verbatim>\<open>try\<close> turns it into the error text, and the default
  text of line 82 is not returned.
\<close>

theorem call_nebula_api_empty_choices:
  "NEBULA_API_KEY example_config \<noteq> []
   \<and> http_post example_world_empty_choices (completion_url example_config)
        (completion_headers example_config) (completion_payload ''hello'')
       = Inr \<lparr>status_code = 200, json = Inr (PDict [(''choices'', PList [])])\<rparr>
   \<and> snd (call_nebula_api example_config example_world_empty_choices ''hello'')
       = Inr (PStr (api_error_prefix @ ''list index out of range''))
   \<and> snd (call_nebula_api example_config example_world_empty_choices ''hello'')
       \<noteq> Inr (PStr no_content_text)"
  by (simp add: example_config_def example_world_empty_choices_def example_world_def
        call_nebula_api_def first_choice_content_def example_exn_str_def
        api_error_prefix_def no_content_text_def)

section \<open>The stock command\<close>

lemma get_stock_price_result:
  "\<exists>s. get_stock_price w stock_code
        = ([HttpGet (''https://query1.finance.yahoo.com/v8/finance/chart/'' @ stock_code)],
           Inr s)"
  by (simp add: get_stock_price_def try_except_total quote_url_def quote_url_prefix_def)

lemma str_int_42: "str_int 42 = ''42''"
  by (simp add: str_int_def str_nat.simps)

text \<open>
  Claim C8. For the authorized sender, \<^verbatim>\<open>/stock\<close> without an argument is answered with the
  usage text and no request is issued; with arguments, the first one, upper-cased, is the
  symbol that is announced, that ends the address requested from the quote endpoint (the
  only request), and whose result is edited into the reply.
\<close>

theorem stock_command_authorized:
  assumes "str_int (user_id u) = CHAT_ID cfg"
  shows "(args u = [] \<longrightarrow>
            stock_command cfg w u = [ReplyText stock_usage_text None]
            \<and> filter is_call (stock_command cfg w u) = [])
         \<and> (\<forall>a rest. args u = a # rest \<longrightarrow>
               (\<exists>s. snd (get_stock_price w (upper w a)) = Inr s
                  \<and> stock_command cfg w u
                      = [ReplyText (searching_part1 @ upper w a @ searching_part2) None,
                         HttpGet (''https://query1.finance.yahoo.com/v8/finance/chart/''
                                  @ upper w a),
                         EditText (PStr s)])
               \<and> filter is_call (stock_command cfg w u)
                   = [HttpGet (''https://query1.finance.yahoo.com/v8/finance/chart/''
                               @ upper w a)])"
proof (intro conjI allI impI)
  assume "args u = []"
  with assms show "stock_command cfg w u = [ReplyText stock_usage_text None]"
    by (simp add: stock_command_def)
  then show "filter is_call (stock_command cfg w u) = []"
    by simp
next
  fix a rest
  assume arg: "args u = a # rest"
  obtain s where s: "get_stock_price w (upper w a)
      = ([HttpGet (''https://query1.finance.yahoo.com/v8/finance/chart/'' @ upper w a)], Inr s)"
    using get_stock_price_result by blast
  with assms arg have cmd: "stock_command cfg w u
      = [ReplyText (searching_part1 @ upper w a @ searching_part2) None,
         HttpGet (''https://query1.finance.yahoo.com/v8/finance/chart/'' @ upper w a),
         EditText (PStr s)]"
    by (simp add: stock_command_def Let_def)
  with s show "\<exists>s. snd (get_stock_price w (upper w a)) = Inr s
      \<and> stock_command cfg w u
          = [ReplyText (searching_part1 @ upper w a @ searching_part2) None,
             HttpGet (''https://query1.finance.yahoo.com/v8/finance/chart/'' @ upper w a),
             EditText (PStr s)]"
    by simp
  from cmd show "filter is_call (stock_command cfg w u)
      = [HttpGet (''https://query1.finance.yahoo.com/v8/finance/chart/'' @ upper w a)]"
    by simp
qed

theorem stock_command_authorized_witness:
  "str_int (user_id (example_update 42 ''/stock aapl'' [''aapl''])) = CHAT_ID example_config
   \<and> args (example_update 42 ''/stock aapl'' [''aapl'']) = ''aapl'' # []
   \<and> upper example_world ''aapl'' = ''AAPL''
   \<and> filter is_call
        (stock_command example_config example_world
           (example_update 42 ''/stock aapl'' [''aapl'']))
       = [HttpGet ''https://query1.finance.yahoo.com/v8/finance/chart/AAPL'']
   \<and> str_int (user_id (example_update 42 ''/stock'' [])) = CHAT_ID example_config
   \<and> args (example_update 42 ''/stock'' []) = []
   \<and> stock_command example_config example_world (example_update 42 ''/stock'' [])
       = [ReplyText stock_usage_text None]"
proof -
  have auth1: "str_int (user_id (example_update 42 ''/stock aapl'' [''aapl'']))
      = CHAT_ID example_config"
    by (simp add: example_update_def example_config_def str_int_42)
  have auth2: "str_int (user_id (example_update 42 ''/stock'' [])) = CHAT_ID example_config"
    by (simp add: example_update_def example_config_def str_int_42)
  have arg1: "args (example_update 42 ''/stock aapl'' [''aapl'']) = ''aapl'' # []"
    by (simp add: example_update_def)
  have arg2: "args (example_update 42 ''/stock'' []) = []"
    by (simp add: example_update_def)
  have up: "upper example_world ''aapl'' = ''AAPL''"
    by (simp add: example_world_def)
  from stock_command_authorized [OF auth1, of example_world] arg1
  have "filter is_call
          (stock_command example_config example_world
             (example_update 42 ''/stock aapl'' [''aapl'']))
        = [HttpGet (''https://query1.finance.yahoo.com/v8/finance/chart/''
                    @ upper example_world ''aapl'')]"
    by blast
  moreover from stock_command_authorized [OF auth2, of example_world] arg2
  have "stock_command example_config example_world (example_update 42 ''/stock'' [])
        = [ReplyText stock_usage_text None]"
    by blast
  ultimately show ?thesis
    using auth1 auth2 arg1 arg2 up by simp
qed

section \<open>The text handler of the simpler variant\<close>

text \<open>
  Claim C9. The text handler of the simpler variant issues no request, whoever the sender
  is. For a sender who is the configured identity, or when no identity is configured, its
  single reply is the echo template around the text of the message, unchanged.
\<close>

theorem handle_message_simple_echo:
  assumes "CHAT_ID_simple scfg = Some (str_int (user_id u)) \<or> \<not> truthy (CHAT_ID_simple scfg)"
  shows "handle_message_simple scfg u
           = [ReplyText (echo_part1 @ message_text u @ echo_part2) None]
         \<and> sublist (message_text u) (echo_part1 @ message_text u @ echo_part2)
         \<and> (\<forall>scfg' u'. filter is_call (handle_message_simple scfg' u') = [])"
proof (intro conjI allI)
  from assms show "handle_message_simple scfg u
      = [ReplyText (echo_part1 @ message_text u @ echo_part2) None]"
    by (auto simp: handle_message_simple_def)
  show "sublist (message_text u) (echo_part1 @ message_text u @ echo_part2)"
    by (rule sublist_appendI)
  show "filter is_call (handle_message_simple scfg' u') = []" for scfg' u'
    by (simp add: handle_message_simple_def)
qed

theorem handle_message_simple_echo_witness:
  "CHAT_ID_simple example_config_simple = Some (str_int (user_id (example_update 42 ''hello'' [])))
   \<and> handle_message_simple example_config_simple (example_update 42 ''hello'' [])
       = [ReplyText (echo_part1 @ ''hello'' @ echo_part2) None]
   \<and> sublist ''hello'' (echo_part1 @ ''hello'' @ echo_part2)"
proof -
  have auth: "CHAT_ID_simple example_config_simple
      = Some (str_int (user_id (example_update 42 ''hello'' [])))"
    by (simp add: example_config_simple_def example_update_def str_int_42)
  then have "CHAT_ID_simple example_config_simple
        = Some (str_int (user_id (example_update 42 ''hello'' [])))
      \<or> \<not> truthy (CHAT_ID_simple example_config_simple)"
    by simp
  from handle_message_simple_echo [OF this] auth
  show ?thesis by (simp add: example_update_def)
qed

section \<open>The arithmetic of the quote formatter\<close>

text \<open>
  An \<^verbatim>\<open>int\<close> below \<open>2 ^ 1023\<close> in magnitude converts to a \<^verbatim>\<open>float\<close>, the conversion
  raises nothing but \<^verbatim>\<open>OverflowError\<close>, and an \<^verbatim>\<open>int\<close> other than zero does not become a
  zero.
\<close>

lemma threshold_gt: "(2::rat) ^ 1023 < overflow_threshold"
  by (simp add: overflow_threshold_def)

lemma fl_round_0: "fl_round 0 = Num 0"
  by (simp add: fl_round_def round_pos_def overflow_threshold_def round_half_even_def)

lemma of_int_abs_small:
  assumes "\<bar>i\<bar> < 2 ^ 1023"
  shows "\<bar>of_int i :: rat\<bar> < overflow_threshold"
proof -
  from assms have "(of_int \<bar>i\<bar> :: rat) < of_int (2 ^ 1023)"
    by (simp only: of_int_less_iff)
  then have "\<bar>of_int i :: rat\<bar> < 2 ^ 1023"
    by simp
  with threshold_gt show ?thesis by simp
qed

lemma to_float_small: "\<bar>i\<bar> < 2 ^ 1023 \<Longrightarrow> to_float i = Inr (fl_round (of_int i))"
  using of_int_abs_small [of i] by (simp add: to_float_def)

lemma to_float_0: "to_float 0 = Inr (Num 0)"
  using to_float_small [of 0] by (simp add: fl_round_0)

lemma to_float_exn: "to_float i = Inl e \<Longrightarrow> e = OverflowError"
  by (auto simp: to_float_def split: if_splits)

lemma round_half_even_ge: "1 \<le> y \<Longrightarrow> 1 \<le> round_half_even y"
proof -
  assume "1 \<le> y"
  then have "1 \<le> \<lfloor>y\<rfloor>" by (simp add: le_floor_iff)
  then show ?thesis by (simp add: round_half_even_def Let_def)
qed

lemma round_pos_pos:
  assumes "1 \<le> y"
  shows "0 < round_pos y"
proof -
  define e where "e = floor_log2 y"
  define q where "q = max (e - 52) (- 1074)"
  from assms have fl: "0 < \<lfloor>y\<rfloor>" by (simp add: floor_less_iff less_floor_iff)
  from assms have e: "e = bitlen \<lfloor>y\<rfloor> - 1"
    by (simp add: e_def floor_log2_def)
  from bitlen_bounds [OF fl] have low: "2 ^ nat e \<le> \<lfloor>y\<rfloor>"
    by (simp add: e)
  from fl have "1 \<le> bitlen \<lfloor>y\<rfloor>"
    by (simp add: bitlen_alt_def)
  then have e0: "0 \<le> e" by (simp add: e)
  have "(2::rat) powi e = of_int (2 ^ nat e)"
    using e0 by (simp add: power_int_def)
  also have "\<dots> \<le> of_int \<lfloor>y\<rfloor>"
    using low by (simp only: of_int_le_iff)
  also have "\<dots> \<le> y" by simp
  finally have pe: "(2::rat) powi e \<le> y" .
  have "q \<le> e" using e0 by (simp add: q_def)
  then have "(2::rat) powi q \<le> 2 powi e"
    by (intro power_int_increasing) simp_all
  with pe have pq: "(2::rat) powi q \<le> y" by simp
  have qpos: "0 < (2::rat) powi q" by simp
  from pq qpos have "1 \<le> y / 2 powi q"
    by (simp add: le_divide_eq)
  then have "1 \<le> round_half_even (y / 2 powi q)"
    by (rule round_half_even_ge)
  then have "0 < (of_int (round_half_even (y / 2 powi q)) :: rat)"
    by simp
  with qpos have "0 < of_int (round_half_even (y / 2 powi q)) * (2::rat) powi q"
    by (simp add: zero_less_mult_iff)
  then show ?thesis
    by (simp add: round_pos_def q_def e_def Let_def)
qed

lemma to_float_nonzero:
  assumes "to_float i = Inr x" and "i \<noteq> 0"
  shows "\<not> fl_is_zero x"
proof -
  from assms(2) have "1 \<le> \<bar>i\<bar>" by simp
  then have "(1::rat) \<le> of_int \<bar>i\<bar>" by (simp only: of_int_1_le_iff)
  then have "(1::rat) \<le> \<bar>of_int i\<bar>" by simp
  then have "0 < round_pos \<bar>of_int i\<bar>" by (rule round_pos_pos)
  with assms(1) show ?thesis
    by (auto simp: to_float_def fl_round_def Let_def split: if_splits)
qed

text \<open>
  The division of two \<^verbatim>\<open>int\<close>s raises nothing but \<^verbatim>\<open>OverflowError\<close> when the divisor is
  not zero, and nothing at all when the dividend converts to a \<^verbatim>\<open>float\<close>. The same holds
  for the operators on numbers.
\<close>

lemma int_true_div_exn: "int_true_div a b = Inl e \<Longrightarrow> b \<noteq> 0 \<Longrightarrow> e = OverflowError"
  by (auto simp: int_true_div_def split: if_splits)

lemma int_true_div_small:
  assumes "b \<noteq> 0" and "\<bar>a\<bar> < 2 ^ 1023"
  shows "\<exists>x. int_true_div a b = Inr x"
proof -
  from assms(1) have "1 \<le> \<bar>b\<bar>" by simp
  then have "(1::rat) \<le> of_int \<bar>b\<bar>" by (simp only: of_int_1_le_iff)
  then have b1: "(1::rat) \<le> \<bar>of_int b\<bar>" by simp
  have "\<bar>of_int a :: rat\<bar> * 1 \<le> \<bar>of_int a\<bar> * \<bar>of_int b\<bar>"
    using b1 by (intro mult_left_mono) simp_all
  with b1 assms(1) have "\<bar>of_int a :: rat\<bar> / \<bar>of_int b\<bar> \<le> \<bar>of_int a\<bar>"
    by (simp add: divide_le_eq)
  then have "\<bar>of_int a / of_int b :: rat\<bar> \<le> \<bar>of_int a\<bar>"
    by simp
  with of_int_abs_small [OF assms(2)] have "\<bar>of_int a / of_int b :: rat\<bar> < overflow_threshold"
    by simp
  with assms(1) show ?thesis
    by (simp add: int_true_div_def)
qed

lemma num_float_exn: "num_float n = Inl e \<Longrightarrow> e = OverflowError"
  by (cases n) (auto dest: to_float_exn)

lemma num_float_small: "small n \<Longrightarrow> \<exists>x. num_float n = Inr x"
  by (cases n) (simp_all add: to_float_small)

lemma num_float_nonzero: "num_float n = Inr x \<Longrightarrow> nonzero n \<Longrightarrow> \<not> fl_is_zero x"
  by (cases n) (auto dest: to_float_nonzero)

lemma num_sub_exn: "num_sub a b = Inl e \<Longrightarrow> e = OverflowError"
  by (cases a; cases b) (auto simp: bind_exn_def split: sum.splits dest: to_float_exn)

lemma num_sub_number: "num_sub a b = Inr v \<Longrightarrow> number_of v \<noteq> None"
  by (cases a; cases b) (auto simp: bind_exn_def split: sum.splits)

lemma num_truediv_exn:
  "num_truediv a b = Inl e \<Longrightarrow> nonzero b \<Longrightarrow> e = OverflowError"
  by (cases a; cases b)
     (auto simp: bind_exn_def split: sum.splits if_splits
        dest: to_float_exn int_true_div_exn to_float_nonzero)

lemma num_truediv_float: "num_truediv a b = Inr v \<Longrightarrow> \<exists>q. v = PFloat q"
  by (cases a; cases b) (auto simp: bind_exn_def split: sum.splits if_splits)

lemma to_float_100: "\<exists>x. to_float 100 = Inr x"
  using to_float_small [of 100] by simp

lemma py_mul_100: "\<exists>x. py_mul (PFloat q) (PInt 100) = Inr (PFloat x)"
  using to_float_100 by (auto simp: py_mul_def)

section \<open>The quote formatter\<close>

text \<open>
  On a \<^verbatim>\<open>meta\<close> object whose two prices are numbers or absent, the comparisons with the
  text \<^verbatim>\<open>N/A\<close> decide presence, so the code computes the figures of the specification;
  and nothing but \<^verbatim>\<open>OverflowError\<close> is raised.
\<close>

lemma number_ne_str: "number_of v = Some n \<Longrightarrow> py_ne_str v s"
  by (cases v) simp_all

lemma py_ne_zero_nonzero: "number_of v = Some n \<Longrightarrow> py_ne_zero v = nonzero n"
  by (cases n) (simp_all add: py_ne_zero_def)

lemma numeric_or_absent_Some:
  "numeric_or_absent (Some v) \<Longrightarrow> \<exists>n. number_of v = Some n"
  by (simp add: numeric_or_absent_def)

lemma quote_of_refines:
  assumes "numeric_or_absent (map_of m ''regularMarketPrice'')"
    and "numeric_or_absent (map_of m ''previousClose'')"
  shows "quote_of stock_code (PDict m)
         = bind_exn (spec_change (map_of m ''regularMarketPrice'') (map_of m ''previousClose''))
             (\<lambda>ch. bind_exn (spec_change_percent ch (map_of m ''previousClose''))
             (\<lambda>pct. Inr \<lparr>price = field_value (map_of m ''regularMarketPrice'') (PStr ''N/A''),
                          prev_close = field_value (map_of m ''previousClose'') (PStr ''N/A''),
                          change = ch, change_percent = pct,
                          symbol = field_value (map_of m ''symbol'') (PStr stock_code),
                          currency = field_value (map_of m ''currency'') (PStr ''TWD'')\<rparr>))"
proof (cases "map_of m ''previousClose''")
  case None
  then show ?thesis
    by (simp add: quote_of_def spec_change_def spec_change_percent_def field_value_def
          split: option.splits)
next
  case pc: (Some b)
  with assms(2) obtain y where y: "number_of b = Some y"
    by (auto dest: numeric_or_absent_Some)
  show ?thesis
  proof (cases "map_of m ''regularMarketPrice''")
    case None
    with pc y show ?thesis
      by (simp add: quote_of_def spec_change_def spec_change_percent_def field_value_def
            number_ne_str)
  next
    case p: (Some a)
    with assms(1) obtain x where x: "number_of a = Some x"
      by (auto dest: numeric_or_absent_Some)
    from p pc x y show ?thesis
      by (simp add: quote_of_def spec_change_def spec_change_percent_def field_value_def
            number_ne_str)
  qed
qed

lemma spec_change_exn:
  assumes "numeric_or_absent p" and "numeric_or_absent pc" and "spec_change p pc = Inl e"
  shows "e = OverflowError"
  using assms
  by (cases p; cases pc)
     (auto simp: spec_change_def py_sub_def dest!: numeric_or_absent_Some dest: num_sub_exn)

lemma spec_change_number:
  assumes "numeric_or_absent p" and "numeric_or_absent pc" and "spec_change p pc = Inr ch"
  shows "\<exists>n. number_of ch = Some n"
  using assms
  by (cases p; cases pc)
     (auto simp: spec_change_def py_sub_def dest!: numeric_or_absent_Some dest: num_sub_number)

lemma spec_change_percent_exn:
  assumes "number_of ch = Some n" and "numeric_or_absent pc"
    and "spec_change_percent ch pc = Inl e"
  shows "e = OverflowError"
proof (cases pc)
  case None
  with assms(3) show ?thesis by (simp add: spec_change_percent_def)
next
  case (Some b)
  with assms(2) obtain y where y: "number_of b = Some y"
    by (auto dest: numeric_or_absent_Some)
  show ?thesis
  proof (cases "nonzero y")
    case False
    with Some y assms(3) show ?thesis
      by (simp add: spec_change_percent_def py_ne_zero_nonzero)
  next
    case True
    show ?thesis
    proof (cases "num_truediv n y")
      case (Inl e')
      with True have "e' = OverflowError" by (auto dest: num_truediv_exn)
      with Inl Some y True assms(1,3) show ?thesis
        by (simp add: spec_change_percent_def py_ne_zero_nonzero py_truediv_def)
    next
      case (Inr v)
      then obtain q where "v = PFloat q" by (auto dest: num_truediv_float)
      with Inr Some y True assms(1,3) py_mul_100 [of q] show ?thesis
        by (auto simp: spec_change_percent_def py_ne_zero_nonzero py_truediv_def)
    qed
  qed
qed

lemma spec_change_percent_number:
  assumes "number_of ch = Some n" and "spec_change_percent ch pc = Inr pct"
  shows "\<exists>k. number_of pct = Some k"
proof (cases pc)
  case None
  with assms(2) show ?thesis by (auto simp: spec_change_percent_def)
next
  case (Some b)
  show ?thesis
  proof (cases "py_ne_zero b")
    case False
    with Some assms(2) show ?thesis by (auto simp: spec_change_percent_def)
  next
    case True
    with Some assms(2) obtain v where v: "py_truediv ch b = Inr v"
      and pct: "py_mul v (PInt 100) = Inr pct"
      by (auto simp: spec_change_percent_def bind_exn_def split: sum.splits)
    from v assms(1) obtain q where "v = PFloat q"
      by (auto simp: py_truediv_def split: option.splits dest: num_truediv_float)
    with pct py_mul_100 [of q] show ?thesis by auto
  qed
qed

lemma quote_of_exn:
  assumes "numeric_or_absent (map_of m ''regularMarketPrice'')"
    and "numeric_or_absent (map_of m ''previousClose'')"
    and "quote_of stock_code (PDict m) = Inl e"
  shows "e = OverflowError"
proof (cases "spec_change (map_of m ''regularMarketPrice'') (map_of m ''previousClose'')")
  case (Inl e')
  with assms(3) quote_of_refines [OF assms(1,2), of stock_code] have "e' = e" by simp
  with Inl spec_change_exn [OF assms(1,2)] show ?thesis by simp
next
  case (Inr ch)
  from spec_change_number [OF assms(1,2) Inr] obtain n where n: "number_of ch = Some n" ..
  from Inr assms(3) quote_of_refines [OF assms(1,2), of stock_code]
  have "\<exists>e'. spec_change_percent ch (map_of m ''previousClose'') = Inl e' \<and> e' = e"
    by (cases "spec_change_percent ch (map_of m ''previousClose'')") simp_all
  with spec_change_percent_exn [OF n assms(2)] show ?thesis by auto
qed

lemma spec_payload_meta_Some:
  assumes "spec_payload_meta data = Some m"
  shows "quote_meta data = Inr (PDict m)"
proof -
  from assms obtain d c r rs where
    "data = PDict d" "map_of d ''chart'' = Some (PDict c)"
    "map_of c ''result'' = Some (PList (PDict r # rs))"
    "map_of r ''meta'' = Some (PDict m)"
    by (cases data) (auto split: option.splits pyval.splits list.splits)
  then show ?thesis
    by (simp add: quote_meta_def)
qed

lemma change_emoji_number: "number_of ch = Some n \<Longrightarrow> \<exists>mk. change_emoji ch = Inr mk"
  by (cases n) (simp_all add: change_emoji_def py_lt_zero_def py_gt_zero_def)

lemma change_emoji_0: "change_emoji (PInt 0) = Inr emoji_flat"
  by (simp add: change_emoji_def py_lt_zero_def py_gt_zero_def)

lemma py_format_2f_0: "py_format_2f w (PInt 0) = Inr (signed_2f w (Num 0))"
  by (simp add: py_format_2f_def to_float_0)

lemma py_format_2f_float: "py_format_2f w (PFloat x) = Inr (signed_2f w x)"
  by (simp add: py_format_2f_def)

lemma py_format_2f_small:
  "number_of v = Some n \<Longrightarrow> small n \<Longrightarrow> \<exists>t. py_format_2f w v = Inr t"
  using num_float_small [of n] by (auto simp: py_format_2f_def)

lemma py_str_field: "py_str w (field_value field (PStr d)) = field_text w field d"
  by (cases field) (simp_all add: field_value_def field_text_def)

text \<open>The text returned when the figures are computed and formatted.\<close>

lemma get_stock_price_rendered:
  assumes "http_get w (quote_url stock_code) = Inr r"
    and "status_code r = 200"
    and "json r = Inr data"
    and "spec_payload_meta data = Some m"
    and "quote_of stock_code (PDict m) = Inr q"
    and "change_emoji (change q) = Inr mk"
    and "py_format_2f w (change q) = Inr ct"
    and "py_format_2f w (change_percent q) = Inr pt"
  shows "snd (get_stock_price w stock_code)
         = Inr (quote_block_part1 @ py_str w (symbol q) @
                quote_block_part2 @ py_str w (price q) @
                quote_block_part3 @ py_str w (currency q) @
                quote_block_part4 @ py_str w (prev_close q) @
                quote_block_part5 @ py_str w (currency q) @
                quote_block_part6 @ mk @
                quote_block_part7 @ ct @
                quote_block_part8 @ pt @
                quote_block_part9 @ now w @
                quote_block_part10)"
  using assms spec_payload_meta_Some [OF assms(4)]
  by (simp add: get_stock_price_def quote_block_def)

text \<open>
  When the prices are absent, \<^verbatim>\<open>float\<close>s, or \<^verbatim>\<open>int\<close>s below \<open>2 ^ 1022\<close> in magnitude,
  nothing overflows: the figures are computed.
\<close>

lemma ordinary_numeric: "ordinary field \<Longrightarrow> numeric_or_absent field"
  by (auto simp: ordinary_def numeric_or_absent_def split: option.splits)

lemma ordinary_Some:
  "ordinary (Some v) \<Longrightarrow> \<exists>n. number_of v = Some n \<and> small n
     \<and> (\<forall>i. n = NInt i \<longrightarrow> \<bar>i\<bar> < 2 ^ 1022)"
  by (auto simp: ordinary_def split: option.splits number.splits)

lemma int_diff_small:
  assumes "\<bar>i\<bar> < 2 ^ 1022" and "\<bar>j\<bar> < 2 ^ 1022"
  shows "\<bar>i - j :: int\<bar> < 2 ^ 1023"
proof -
  have "\<bar>i - j\<bar> \<le> \<bar>i\<bar> + \<bar>j\<bar>" by simp
  also from assms have "\<dots> < 2 ^ 1022 + 2 ^ 1022" by simp
  also have "(2::int) ^ 1022 + 2 ^ 1022 = 2 ^ 1023" by simp
  finally show ?thesis .
qed

lemma num_sub_small:
  assumes "small x" and "small y"
    and "\<forall>i. x = NInt i \<longrightarrow> \<bar>i\<bar> < 2 ^ 1022" and "\<forall>j. y = NInt j \<longrightarrow> \<bar>j\<bar> < 2 ^ 1022"
  shows "\<exists>ch n. num_sub x y = Inr ch \<and> number_of ch = Some n \<and> small n"
proof (cases x)
  case xi: (NInt i)
  show ?thesis
  proof (cases y)
    case (NInt j)
    with xi assms(3,4) show ?thesis by (simp add: int_diff_small)
  next
    case (NFloat b)
    with xi assms(1) show ?thesis by (simp add: to_float_small)
  qed
next
  case xf: (NFloat a)
  from num_float_small [OF assms(2)] obtain b where "num_float y = Inr b" ..
  with xf show ?thesis by (cases y) simp_all
qed

lemma spec_change_ordinary:
  assumes "ordinary p" and "ordinary pc"
  shows "\<exists>ch n. spec_change p pc = Inr ch \<and> number_of ch = Some n \<and> small n"
proof (cases p)
  case None
  then show ?thesis by (simp add: spec_change_def)
next
  case p: (Some a)
  show ?thesis
  proof (cases pc)
    case None
    with p show ?thesis by (simp add: spec_change_def)
  next
    case pc: (Some b)
    from assms p obtain x where x: "number_of a = Some x" "small x"
      "\<forall>i. x = NInt i \<longrightarrow> \<bar>i\<bar> < 2 ^ 1022"
      by (auto dest: ordinary_Some)
    from assms pc obtain y where y: "number_of b = Some y" "small y"
      "\<forall>j. y = NInt j \<longrightarrow> \<bar>j\<bar> < 2 ^ 1022"
      by (auto dest: ordinary_Some)
    from num_sub_small [OF x(2) y(2) x(3) y(3)] p pc x(1) y(1) show ?thesis
      by (simp add: spec_change_def py_sub_def)
  qed
qed

lemma num_truediv_small:
  assumes "small x" and "small y" and "nonzero y"
  shows "\<exists>q. num_truediv x y = Inr (PFloat q)"
proof -
  from num_float_small [OF assms(1)] obtain a where a: "num_float x = Inr a" ..
  from num_float_small [OF assms(2)] obtain b where b: "num_float y = Inr b" ..
  from num_float_nonzero [OF b assms(3)] have nz: "\<not> fl_is_zero b" .
  show ?thesis
  proof (cases x)
    case xi: (NInt i)
    show ?thesis
    proof (cases y)
      case (NInt j)
      with xi assms(1,3) int_true_div_small [of j i] show ?thesis by auto
    next
      case (NFloat b')
      with xi a b nz show ?thesis by simp
    qed
  next
    case (NFloat a')
    with a b nz show ?thesis by (cases y) simp_all
  qed
qed

lemma spec_change_percent_ordinary:
  assumes "number_of ch = Some n" and "small n" and "ordinary pc"
  shows "\<exists>pct k. spec_change_percent ch pc = Inr pct \<and> number_of pct = Some k \<and> small k"
proof (cases pc)
  case None
  then show ?thesis by (simp add: spec_change_percent_def)
next
  case (Some b)
  with assms(3) obtain y where y: "number_of b = Some y" "small y"
    by (auto dest: ordinary_Some)
  show ?thesis
  proof (cases "nonzero y")
    case False
    with Some y show ?thesis
      by (simp add: spec_change_percent_def py_ne_zero_nonzero)
  next
    case True
    from num_truediv_small [OF assms(2) y(2) True] obtain q
      where "num_truediv n y = Inr (PFloat q)" ..
    with Some y True assms(1) py_mul_100 [of q] show ?thesis
      by (auto simp: spec_change_percent_def py_ne_zero_nonzero py_truediv_def)
  qed
qed

text \<open>What a computed quote holds, and the figures when the price is absent.\<close>

lemma quote_of_fields:
  assumes "quote_of stock_code (PDict m) = Inr q"
  shows "price q = field_value (map_of m ''regularMarketPrice'') (PStr ''N/A'')"
    and "prev_close q = field_value (map_of m ''previousClose'') (PStr ''N/A'')"
    and "symbol q = field_value (map_of m ''symbol'') (PStr stock_code)"
    and "currency q = field_value (map_of m ''currency'') (PStr ''TWD'')"
  using assms
  by (auto simp: quote_of_def bind_exn_def field_value_def split: sum.splits if_splits)

lemma spec_change_percent_of_zero:
  assumes "numeric_or_absent pc"
  shows "\<exists>pct pt. spec_change_percent (PInt 0) pc = Inr pct \<and> py_format_2f w pct = Inr pt"
proof (cases pc)
  case None
  then show ?thesis by (simp add: spec_change_percent_def py_format_2f_0)
next
  case (Some b)
  with assms obtain y where y: "number_of b = Some y"
    by (auto dest: numeric_or_absent_Some)
  show ?thesis
  proof (cases "nonzero y")
    case False
    with Some y show ?thesis
      by (simp add: spec_change_percent_def py_ne_zero_nonzero py_format_2f_0)
  next
    case True
    have "\<exists>q. num_truediv (NInt 0) y = Inr (PFloat q)"
    proof (cases y)
      case (NInt j)
      with True show ?thesis by (simp add: int_true_div_def)
    next
      case (NFloat c)
      with True show ?thesis by (simp add: to_float_0)
    qed
    then obtain q where "num_truediv (NInt 0) y = Inr (PFloat q)" ..
    with Some y True py_mul_100 [of q] show ?thesis
      by (auto simp: spec_change_percent_def py_ne_zero_nonzero py_truediv_def
            py_format_2f_float)
  qed
qed

lemma quote_figures_when_absent:
  assumes "quote_of stock_code (PDict m) = Inr q"
  shows "map_of m ''regularMarketPrice'' = None \<or> map_of m ''previousClose'' = None
           \<longrightarrow> change q = PInt 0"
    and "map_of m ''previousClose'' = None
           \<or> (\<exists>b. map_of m ''previousClose'' = Some b \<and> \<not> py_ne_zero b)
           \<longrightarrow> change_percent q = PInt 0"
    and "\<forall>a b. map_of m ''regularMarketPrice'' = Some a \<and> map_of m ''previousClose'' = Some b
           \<and> py_ne_str a ''N/A'' \<and> py_ne_str b ''N/A''
           \<longrightarrow> py_sub a b = Inr (change q)
               \<and> (py_ne_zero b \<longrightarrow>
                    bind_exn (py_truediv (change q) b) (\<lambda>v. py_mul v (PInt 100))
                      = Inr (change_percent q))"
  using assms
  by (auto simp: quote_of_def bind_exn_def split: sum.splits if_splits option.splits)

text \<open>The returned text in terms of the figures of the specification.\<close>

lemma rendered_from_figures:
  assumes "http_get w (quote_url stock_code) = Inr r"
    and "status_code r = 200"
    and "json r = Inr data"
    and "spec_payload_meta data = Some m"
    and "numeric_or_absent (map_of m ''regularMarketPrice'')"
    and "numeric_or_absent (map_of m ''previousClose'')"
    and "spec_change (map_of m ''regularMarketPrice'') (map_of m ''previousClose'') = Inr ch"
    and "spec_change_percent ch (map_of m ''previousClose'') = Inr pct"
    and "change_emoji ch = Inr mk"
    and "py_format_2f w ch = Inr ct"
    and "py_format_2f w pct = Inr pt"
  shows "\<exists>q. quote_of stock_code (PDict m) = Inr q
           \<and> change q = ch \<and> change_percent q = pct"
    and "snd (get_stock_price w stock_code)
         = Inr (quote_block_part1 @ field_text w (map_of m ''symbol'') stock_code @
                quote_block_part2 @ field_text w (map_of m ''regularMarketPrice'') ''N/A'' @
                quote_block_part3 @ field_text w (map_of m ''currency'') ''TWD'' @
                quote_block_part4 @ field_text w (map_of m ''previousClose'') ''N/A'' @
                quote_block_part5 @ field_text w (map_of m ''currency'') ''TWD'' @
                quote_block_part6 @ mk @
                quote_block_part7 @ ct @
                quote_block_part8 @ pt @
                quote_block_part9 @ now w @
                quote_block_part10)"
proof -
  let ?q = "\<lparr>price = field_value (map_of m ''regularMarketPrice'') (PStr ''N/A''),
             prev_close = field_value (map_of m ''previousClose'') (PStr ''N/A''),
             change = ch, change_percent = pct,
             symbol = field_value (map_of m ''symbol'') (PStr stock_code),
             currency = field_value (map_of m ''currency'') (PStr ''TWD'')\<rparr>"
  from quote_of_refines [OF assms(5,6), of stock_code] assms(7,8)
  have q: "quote_of stock_code (PDict m) = Inr ?q"
    by simp
  then show "\<exists>q. quote_of stock_code (PDict m) = Inr q
      \<and> change q = ch \<and> change_percent q = pct"
    by simp
  from get_stock_price_rendered [OF assms(1-4) q, of mk ct pt] assms(9-11)
  show "snd (get_stock_price w stock_code)
         = Inr (quote_block_part1 @ field_text w (map_of m ''symbol'') stock_code @
                quote_block_part2 @ field_text w (map_of m ''regularMarketPrice'') ''N/A'' @
                quote_block_part3 @ field_text w (map_of m ''currency'') ''TWD'' @
                quote_block_part4 @ field_text w (map_of m ''previousClose'') ''N/A'' @
                quote_block_part5 @ field_text w (map_of m ''currency'') ''TWD'' @
                quote_block_part6 @ mk @
                quote_block_part7 @ ct @
                quote_block_part8 @ pt @
                quote_block_part9 @ now w @
                quote_block_part10)"
    by (simp add: py_str_field)
qed

lemma figures_when_ordinary:
  assumes "ordinary p" and "ordinary pc"
  shows "\<exists>ch pct mk ct pt. spec_change p pc = Inr ch \<and> spec_change_percent ch pc = Inr pct
           \<and> change_emoji ch = Inr mk \<and> py_format_2f w ch = Inr ct
           \<and> py_format_2f w pct = Inr pt"
proof -
  from spec_change_ordinary [OF assms] obtain ch n where
    ch: "spec_change p pc = Inr ch" "number_of ch = Some n" "small n"
    by blast
  from spec_change_percent_ordinary [OF ch(2,3) assms(2)] obtain pct k where
    pct: "spec_change_percent ch pc = Inr pct" "number_of pct = Some k" "small k"
    by blast
  from change_emoji_number [OF ch(2)] obtain mk where mk: "change_emoji ch = Inr mk" ..
  from py_format_2f_small [OF ch(2,3)] obtain ct where ct: "py_format_2f w ch = Inr ct" ..
  from py_format_2f_small [OF pct(2,3)] obtain pt where pt: "py_format_2f w pct = Inr pt" ..
  from ch(1) pct(1) mk ct pt show ?thesis by blast
qed

section \<open>The figures of the examples\<close>

text \<open>
  The doubles of the examples: \<open>600.0 - 590.0\<close> is \<open>10.0\<close>, and \<open>10.0 / 590.0 * 100\<close>
  is the double \<open>1908304926851905 / 2 ^ 50\<close>, a little under \<open>1.695\<close>.
\<close>

lemma fl_round_pos:
  assumes "0 < x" and "x < overflow_threshold" and "round_pos x = r" and "r \<noteq> 0"
  shows "fl_round x = Num r"
  using assms by (simp add: fl_round_def)

lemma below_threshold: "(1000::rat) < overflow_threshold"
  by (simp add: overflow_threshold_def)

lemma round_pos_10: "round_pos 10 = 10"
  by code_simp

lemma round_pos_100: "round_pos 100 = 100"
  by code_simp

lemma round_pos_quotient: "round_pos (10 / 590) = 4885260612740877 / 288230376151711744"
  by code_simp

lemma round_pos_product:
  "round_pos (4885260612740877 / 288230376151711744 * 100)
   = 1908304926851905 / 1125899906842624"
  by code_simp

lemma example_sub: "fl_sub (Num 600) (Num 590) = Num 10"
  using fl_round_pos [OF _ _ round_pos_10] below_threshold
  by (simp add: fl_sub_def)

lemma example_div: "fl_div (Num 10) (Num 590) = Num (4885260612740877 / 288230376151711744)"
  using fl_round_pos [OF _ _ round_pos_quotient] below_threshold
  by (simp add: fl_div_def)

lemma example_to_float_100: "to_float 100 = Inr (Num 100)"
  using fl_round_pos [OF _ _ round_pos_100] below_threshold to_float_small [of 100]
  by simp

lemma example_mul:
  "fl_mul (Num (4885260612740877 / 288230376151711744)) (Num 100)
   = Num (1908304926851905 / 1125899906842624)"
  using fl_round_pos [OF _ _ round_pos_product] below_threshold
  by (simp add: fl_mul_def)

lemma example_sub_zero: "fl_sub (Num 600) (Num 0) = Num 600"
  by (simp add: fl_sub_def)

lemma example_quote:
  "quote_of ''AAPL'' (PDict example_meta)
   = Inr \<lparr>price = PFloat (Num 600), prev_close = PFloat (Num 590),
          change = PFloat (Num 10),
          change_percent = PFloat (Num (1908304926851905 / 1125899906842624)),
          symbol = PStr ''AAPL'', currency = PStr ''TWD''\<rparr>"
  by (simp add: quote_of_def example_meta_def py_ne_zero_def py_sub_def py_truediv_def
        py_mul_def example_sub example_div example_mul example_to_float_100)

lemma example_quote_zero_close:
  "quote_of ''AAPL'' (PDict example_meta_zero_close)
   = Inr \<lparr>price = PFloat (Num 600), prev_close = PFloat (Num 0),
          change = PFloat (Num 600), change_percent = PInt 0,
          symbol = PStr ''AAPL'', currency = PStr ''TWD''\<rparr>"
  by (simp add: quote_of_def example_meta_zero_close_def py_ne_zero_def py_sub_def
        example_sub_zero)

text \<open>A world of the examples answers 200 with the body it was made for.\<close>

lemma example_get:
  "http_get (example_world_quote meta) (quote_url stock_code)
   = Inr \<lparr>status_code = 200, json = Inr (example_quote_body meta)\<rparr>"
  by (simp add: example_world_quote_def example_world_def)

lemma example_status: "status_code \<lparr>status_code = 200, json = j\<rparr> = 200"
  by simp

lemma example_json: "json \<lparr>status_code = s, json = Inr d\<rparr> = Inr d"
  by simp

lemma example_body: "spec_payload_meta (example_quote_body meta) = Some meta"
  by (simp add: example_quote_body_def)

lemma example_world_quote_simps:
  "now (example_world_quote meta) = ''2024-01-02 03:04:05''"
  "signed_2f (example_world_quote meta) = example_signed_2f"
  "value_str (example_world_quote meta) = example_value_str"
  by (simp_all add: example_world_quote_def example_world_def)

lemma str_int_600: "str_int 600 = ''600''"
  by (simp add: str_int_def str_nat.simps)

section \<open>The claims on the quote formatter\<close>

text \<open>
  Claim C3. For a 200 response whose body has the documented shape and whose price and
  previous close are each a number or absent, with the arithmetic of Python (exact on
  \<^verbatim>\<open>int\<close>s, IEEE doubles otherwise). The code computes the figures of the specification: the
  change is the price minus the previous close when both are present, else 0; the percentage
  is the change divided by the previous close, times 100, when the previous close is present
  and not zero, else 0. Nothing but \<^verbatim>\<open>OverflowError\<close> can be raised: no operation is
  applied to the text \<^verbatim>\<open>N/A\<close> and nothing is divided by zero. When the price or the
  previous close is absent, the returned text shows \<^verbatim>\<open>N/A\<close> in its place, the neutral marker
  and a change of zero. When the prices are absent, \<^verbatim>\<open>float\<close>s or \<^verbatim>\<open>int\<close>s below
  \<open>2 ^ 1022\<close> in magnitude, nothing is raised and the returned text is the block with the
  figures of the code.
\<close>

theorem quote_change_presence_checked:
  assumes "http_get w (quote_url stock_code) = Inr r"
    and "status_code r = 200"
    and "json r = Inr data"
    and "spec_payload_meta data = Some m"
    and "p = map_of m ''regularMarketPrice''"
    and "pc = map_of m ''previousClose''"
    and "numeric_or_absent p"
    and "numeric_or_absent pc"
  shows "quote_of stock_code (PDict m)
           = bind_exn (spec_change p pc)
               (\<lambda>ch. bind_exn (spec_change_percent ch pc)
               (\<lambda>pct. Inr \<lparr>price = field_value p (PStr ''N/A''),
                            prev_close = field_value pc (PStr ''N/A''),
                            change = ch, change_percent = pct,
                            symbol = field_value (map_of m ''symbol'') (PStr stock_code),
                            currency = field_value (map_of m ''currency'') (PStr ''TWD'')\<rparr>))
         \<and> (\<forall>e. quote_of stock_code (PDict m) = Inl e \<longrightarrow> e = OverflowError)
         \<and> (\<forall>q. quote_of stock_code (PDict m) = Inr q \<longrightarrow>
                (p = None \<or> pc = None \<longrightarrow> change q = PInt 0)
                \<and> (pc = None \<or> (\<exists>b. pc = Some b \<and> \<not> py_ne_zero b) \<longrightarrow>
                     change_percent q = PInt 0)
                \<and> (\<forall>a b. p = Some a \<and> pc = Some b \<longrightarrow>
                       py_sub a b = Inr (change q)
                       \<and> (py_ne_zero b \<longrightarrow>
                            bind_exn (py_truediv (change q) b) (\<lambda>v. py_mul v (PInt 100))
                              = Inr (change_percent q))))
         \<and> (p = None \<longrightarrow>
               (\<exists>pct pt. spec_change_percent (PInt 0) pc = Inr pct
                  \<and> py_format_2f w pct = Inr pt
                  \<and> snd (get_stock_price w stock_code)
                      = Inr (quote_block_part1 @ field_text w (map_of m ''symbol'') stock_code @
                             quote_block_part2 @ ''N/A'' @
                             quote_block_part3 @ field_text w (map_of m ''currency'') ''TWD'' @
                             quote_block_part4 @ field_text w pc ''N/A'' @
                             quote_block_part5 @ field_text w (map_of m ''currency'') ''TWD'' @
                             quote_block_part6 @ emoji_flat @
                             quote_block_part7 @ signed_2f w (Num 0) @
                             quote_block_part8 @ pt @
                             quote_block_part9 @ now w @
                             quote_block_part10)))
         \<and> (pc = None \<longrightarrow>
               snd (get_stock_price w stock_code)
                 = Inr (quote_block_part1 @ field_text w (map_of m ''symbol'') stock_code @
                        quote_block_part2 @ field_text w p ''N/A'' @
                        quote_block_part3 @ field_text w (map_of m ''currency'') ''TWD'' @
                        quote_block_part4 @ ''N/A'' @
                        quote_block_part5 @ field_text w (map_of m ''currency'') ''TWD'' @
                        quote_block_part6 @ emoji_flat @
                        quote_block_part7 @ signed_2f w (Num 0) @
                        quote_block_part8 @ signed_2f w (Num 0) @
                        quote_block_part9 @ now w @
                        quote_block_part10))
         \<and> (ordinary p \<and> ordinary pc \<longrightarrow>
               (\<exists>q mk ct pt. quote_of stock_code (PDict m) = Inr q
                  \<and> change_emoji (change q) = Inr mk
                  \<and> py_format_2f w (change q) = Inr ct
                  \<and> py_format_2f w (change_percent q) = Inr pt
                  \<and> snd (get_stock_price w stock_code)
                      = Inr (quote_block_part1 @ field_text w (map_of m ''symbol'') stock_code @
                             quote_block_part2 @ field_text w p ''N/A'' @
                             quote_block_part3 @ field_text w (map_of m ''currency'') ''TWD'' @
                             quote_block_part4 @ field_text w pc ''N/A'' @
                             quote_block_part5 @ field_text w (map_of m ''currency'') ''TWD'' @
                             quote_block_part6 @ mk @
                             quote_block_part7 @ ct @
                             quote_block_part8 @ pt @
                             quote_block_part9 @ now w @
                             quote_block_part10)))"
proof -
  note num = assms(7,8) [unfolded assms(5,6)]
  note base = assms(1-4) num
  have refines: "quote_of stock_code (PDict m)
           = bind_exn (spec_change p pc)
               (\<lambda>ch. bind_exn (spec_change_percent ch pc)
               (\<lambda>pct. Inr \<lparr>price = field_value p (PStr ''N/A''),
                            prev_close = field_value pc (PStr ''N/A''),
                            change = ch, change_percent = pct,
                            symbol = field_value (map_of m ''symbol'') (PStr stock_code),
                            currency = field_value (map_of m ''currency'') (PStr ''TWD'')\<rparr>))"
    unfolding assms(5,6) by (rule quote_of_refines [OF num])
  have only_overflow: "\<forall>e. quote_of stock_code (PDict m) = Inl e \<longrightarrow> e = OverflowError"
    using quote_of_exn [OF num] by blast
  have figures: "\<forall>q. quote_of stock_code (PDict m) = Inr q \<longrightarrow>
                (p = None \<or> pc = None \<longrightarrow> change q = PInt 0)
                \<and> (pc = None \<or> (\<exists>b. pc = Some b \<and> \<not> py_ne_zero b) \<longrightarrow>
                     change_percent q = PInt 0)
                \<and> (\<forall>a b. p = Some a \<and> pc = Some b \<longrightarrow>
                       py_sub a b = Inr (change q)
                       \<and> (py_ne_zero b \<longrightarrow>
                            bind_exn (py_truediv (change q) b) (\<lambda>v. py_mul v (PInt 100))
                              = Inr (change_percent q)))"
  proof (intro allI impI)
    fix q
    assume q: "quote_of stock_code (PDict m) = Inr q"
    have "py_ne_str a ''N/A'' \<and> py_ne_str b ''N/A''" if "p = Some a \<and> pc = Some b" for a b
      using that assms(7,8) by (auto dest!: numeric_or_absent_Some intro: number_ne_str)
    with quote_figures_when_absent [OF q] show
      "(p = None \<or> pc = None \<longrightarrow> change q = PInt 0)
       \<and> (pc = None \<or> (\<exists>b. pc = Some b \<and> \<not> py_ne_zero b) \<longrightarrow> change_percent q = PInt 0)
       \<and> (\<forall>a b. p = Some a \<and> pc = Some b \<longrightarrow>
              py_sub a b = Inr (change q)
              \<and> (py_ne_zero b \<longrightarrow>
                   bind_exn (py_truediv (change q) b) (\<lambda>v. py_mul v (PInt 100))
                     = Inr (change_percent q)))"
      unfolding assms(5,6) by blast
  qed
  have price_absent: "p = None \<longrightarrow>
               (\<exists>pct pt. spec_change_percent (PInt 0) pc = Inr pct
                  \<and> py_format_2f w pct = Inr pt
                  \<and> snd (get_stock_price w stock_code)
                      = Inr (quote_block_part1 @ field_text w (map_of m ''symbol'') stock_code @
                             quote_block_part2 @ ''N/A'' @
                             quote_block_part3 @ field_text w (map_of m ''currency'') ''TWD'' @
                             quote_block_part4 @ field_text w pc ''N/A'' @
                             quote_block_part5 @ field_text w (map_of m ''currency'') ''TWD'' @
                             quote_block_part6 @ emoji_flat @
                             quote_block_part7 @ signed_2f w (Num 0) @
                             quote_block_part8 @ pt @
                             quote_block_part9 @ now w @
                             quote_block_part10))"
  proof
    assume absent: "p = None"
    from spec_change_percent_of_zero [OF assms(8), of w] obtain pct pt where
      pct: "spec_change_percent (PInt 0) pc = Inr pct" and pt: "py_format_2f w pct = Inr pt"
      by blast
    from absent assms(5) have ch: "spec_change (map_of m ''regularMarketPrice'')
        (map_of m ''previousClose'') = Inr (PInt 0)"
      by (simp add: spec_change_def)
    from rendered_from_figures(2) [OF base ch pct [unfolded assms(6)] change_emoji_0
        py_format_2f_0 pt]
      absent assms(5,6) pct pt
    show "\<exists>pct pt. spec_change_percent (PInt 0) pc = Inr pct
                  \<and> py_format_2f w pct = Inr pt
                  \<and> snd (get_stock_price w stock_code)
                      = Inr (quote_block_part1 @ field_text w (map_of m ''symbol'') stock_code @
                             quote_block_part2 @ ''N/A'' @
                             quote_block_part3 @ field_text w (map_of m ''currency'') ''TWD'' @
                             quote_block_part4 @ field_text w pc ''N/A'' @
                             quote_block_part5 @ field_text w (map_of m ''currency'') ''TWD'' @
                             quote_block_part6 @ emoji_flat @
                             quote_block_part7 @ signed_2f w (Num 0) @
                             quote_block_part8 @ pt @
                             quote_block_part9 @ now w @
                             quote_block_part10)"
      by (auto simp: field_text_def)
  qed
  have close_absent: "pc = None \<longrightarrow>
               snd (get_stock_price w stock_code)
                 = Inr (quote_block_part1 @ field_text w (map_of m ''symbol'') stock_code @
                        quote_block_part2 @ field_text w p ''N/A'' @
                        quote_block_part3 @ field_text w (map_of m ''currency'') ''TWD'' @
                        quote_block_part4 @ ''N/A'' @
                        quote_block_part5 @ field_text w (map_of m ''currency'') ''TWD'' @
                        quote_block_part6 @ emoji_flat @
                        quote_block_part7 @ signed_2f w (Num 0) @
                        quote_block_part8 @ signed_2f w (Num 0) @
                        quote_block_part9 @ now w @
                        quote_block_part10)"
  proof
    assume absent: "pc = None"
    with assms(6) have ch: "spec_change (map_of m ''regularMarketPrice'')
        (map_of m ''previousClose'') = Inr (PInt 0)"
      by (simp add: spec_change_def split: option.splits)
    from absent assms(6) have pct: "spec_change_percent (PInt 0) (map_of m ''previousClose'')
        = Inr (PInt 0)"
      by (simp add: spec_change_percent_def)
    from rendered_from_figures(2) [OF base ch pct change_emoji_0 py_format_2f_0 py_format_2f_0]
      absent assms(5,6)
    show "snd (get_stock_price w stock_code)
                 = Inr (quote_block_part1 @ field_text w (map_of m ''symbol'') stock_code @
                        quote_block_part2 @ field_text w p ''N/A'' @
                        quote_block_part3 @ field_text w (map_of m ''currency'') ''TWD'' @
                        quote_block_part4 @ ''N/A'' @
                        quote_block_part5 @ field_text w (map_of m ''currency'') ''TWD'' @
                        quote_block_part6 @ emoji_flat @
                        quote_block_part7 @ signed_2f w (Num 0) @
                        quote_block_part8 @ signed_2f w (Num 0) @
                        quote_block_part9 @ now w @
                        quote_block_part10)"
      by (simp add: field_text_def)
  qed
  have rendered: "ordinary p \<and> ordinary pc \<longrightarrow>
               (\<exists>q mk ct pt. quote_of stock_code (PDict m) = Inr q
                  \<and> change_emoji (change q) = Inr mk
                  \<and> py_format_2f w (change q) = Inr ct
                  \<and> py_format_2f w (change_percent q) = Inr pt
                  \<and> snd (get_stock_price w stock_code)
                      = Inr (quote_block_part1 @ field_text w (map_of m ''symbol'') stock_code @
                             quote_block_part2 @ field_text w p ''N/A'' @
                             quote_block_part3 @ field_text w (map_of m ''currency'') ''TWD'' @
                             quote_block_part4 @ field_text w pc ''N/A'' @
                             quote_block_part5 @ field_text w (map_of m ''currency'') ''TWD'' @
                             quote_block_part6 @ mk @
                             quote_block_part7 @ ct @
                             quote_block_part8 @ pt @
                             quote_block_part9 @ now w @
                             quote_block_part10))"
  proof
    assume "ordinary p \<and> ordinary pc"
    then have ord: "ordinary (map_of m ''regularMarketPrice'')"
      "ordinary (map_of m ''previousClose'')"
      by (simp_all add: assms(5,6))
    from figures_when_ordinary [OF ord, of w] obtain ch pct mk ct pt where
      f: "spec_change (map_of m ''regularMarketPrice'') (map_of m ''previousClose'') = Inr ch"
        "spec_change_percent ch (map_of m ''previousClose'') = Inr pct"
        "change_emoji ch = Inr mk" "py_format_2f w ch = Inr ct" "py_format_2f w pct = Inr pt"
      by blast
    from rendered_from_figures [OF base f] f(3-5) assms(5,6)
    show "\<exists>q mk ct pt. quote_of stock_code (PDict m) = Inr q
                  \<and> change_emoji (change q) = Inr mk
                  \<and> py_format_2f w (change q) = Inr ct
                  \<and> py_format_2f w (change_percent q) = Inr pt
                  \<and> snd (get_stock_price w stock_code)
                      = Inr (quote_block_part1 @ field_text w (map_of m ''symbol'') stock_code @
                             quote_block_part2 @ field_text w p ''N/A'' @
                             quote_block_part3 @ field_text w (map_of m ''currency'') ''TWD'' @
                             quote_block_part4 @ field_text w pc ''N/A'' @
                             quote_block_part5 @ field_text w (map_of m ''currency'') ''TWD'' @
                             quote_block_part6 @ mk @
                             quote_block_part7 @ ct @
                             quote_block_part8 @ pt @
                             quote_block_part9 @ now w @
                             quote_block_part10)"
      by auto
  qed
  from refines only_overflow figures price_absent close_absent rendered
  show ?thesis by blast
qed

theorem quote_change_presence_checked_witness:
  "spec_payload_meta (example_quote_body example_meta_price_only) = Some example_meta_price_only
   \<and> numeric_or_absent (map_of example_meta_price_only ''regularMarketPrice'')
   \<and> map_of example_meta_price_only ''previousClose'' = None
   \<and> snd (get_stock_price (example_world_quote example_meta_price_only) ''2330.tw'')
       = Inr (quote_block_part1 @ ''2330.TW'' @
              quote_block_part2 @ ''600'' @
              quote_block_part3 @ ''TWD'' @
              quote_block_part4 @ ''N/A'' @
              quote_block_part5 @ ''TWD'' @
              quote_block_part6 @ emoji_flat @
              quote_block_part7 @ ''+0.00'' @
              quote_block_part8 @ ''+0.00'' @
              quote_block_part9 @ ''2024-01-02 03:04:05'' @
              quote_block_part10)
   \<and> spec_payload_meta (example_quote_body example_meta_zero_close) = Some example_meta_zero_close
   \<and> map_of example_meta_zero_close ''previousClose'' = Some (PFloat (Num 0))
   \<and> \<not> py_ne_zero (PFloat (Num 0))
   \<and> ordinary (map_of example_meta_zero_close ''regularMarketPrice'')
   \<and> ordinary (map_of example_meta_zero_close ''previousClose'')
   \<and> snd (get_stock_price (example_world_quote example_meta_zero_close) ''AAPL'')
       = Inr (quote_block_part1 @ ''AAPL'' @
              quote_block_part2 @ ''600.0'' @
              quote_block_part3 @ ''TWD'' @
              quote_block_part4 @ ''0.0'' @
              quote_block_part5 @ ''TWD'' @
              quote_block_part6 @ emoji_up @
              quote_block_part7 @ ''+600.00'' @
              quote_block_part8 @ ''+0.00'' @
              quote_block_part9 @ ''2024-01-02 03:04:05'' @
              quote_block_part10)
   \<and> spec_payload_meta (example_quote_body example_meta) = Some example_meta
   \<and> ordinary (map_of example_meta ''regularMarketPrice'')
   \<and> ordinary (map_of example_meta ''previousClose'')
   \<and> snd (get_stock_price (example_world_quote example_meta) ''AAPL'')
       = Inr (quote_block_part1 @ ''AAPL'' @
              quote_block_part2 @ ''600.0'' @
              quote_block_part3 @ ''TWD'' @
              quote_block_part4 @ ''590.0'' @
              quote_block_part5 @ ''TWD'' @
              quote_block_part6 @ emoji_up @
              quote_block_part7 @ ''+10.00'' @
              quote_block_part8 @ ''+1.69'' @
              quote_block_part9 @ ''2024-01-02 03:04:05'' @
              quote_block_part10)"
proof -
  let ?w1 = "example_world_quote example_meta_price_only"
  let ?w2 = "example_world_quote example_meta_zero_close"
  let ?w3 = "example_world_quote example_meta"
  have num1: "numeric_or_absent (map_of example_meta_price_only ''regularMarketPrice'')"
    "numeric_or_absent (map_of example_meta_price_only ''previousClose'')"
    by (simp_all add: numeric_or_absent_def example_meta_price_only_def)
  have absent1: "map_of example_meta_price_only ''previousClose'' = None"
    by (simp add: example_meta_price_only_def)
  from quote_change_presence_checked
         [OF example_get [of example_meta_price_only "''2330.tw''"] example_status
             example_json example_body refl refl num1] absent1
  have "snd (get_stock_price ?w1 ''2330.tw'')
      = Inr (quote_block_part1 @
             field_text ?w1 (map_of example_meta_price_only ''symbol'') ''2330.tw'' @
             quote_block_part2 @
             field_text ?w1 (map_of example_meta_price_only ''regularMarketPrice'') ''N/A'' @
             quote_block_part3 @
             field_text ?w1 (map_of example_meta_price_only ''currency'') ''TWD'' @
             quote_block_part4 @ ''N/A'' @
             quote_block_part5 @
             field_text ?w1 (map_of example_meta_price_only ''currency'') ''TWD'' @
             quote_block_part6 @ emoji_flat @
             quote_block_part7 @ signed_2f ?w1 (Num 0) @
             quote_block_part8 @ signed_2f ?w1 (Num 0) @
             quote_block_part9 @ now ?w1 @
             quote_block_part10)"
    by simp
  then have first: "snd (get_stock_price ?w1 ''2330.tw'')
       = Inr (quote_block_part1 @ ''2330.TW'' @
              quote_block_part2 @ ''600'' @
              quote_block_part3 @ ''TWD'' @
              quote_block_part4 @ ''N/A'' @
              quote_block_part5 @ ''TWD'' @
              quote_block_part6 @ emoji_flat @
              quote_block_part7 @ ''+0.00'' @
              quote_block_part8 @ ''+0.00'' @
              quote_block_part9 @ ''2024-01-02 03:04:05'' @
              quote_block_part10)"
    by (simp add: example_world_quote_simps field_text_def example_meta_price_only_def
          example_value_str_def example_signed_2f_def str_int_600)
  have zero2: "map_of example_meta_zero_close ''previousClose'' = Some (PFloat (Num 0))"
    "\<not> py_ne_zero (PFloat (Num 0))"
    by (simp_all add: example_meta_zero_close_def py_ne_zero_def)
  have ord2: "ordinary (map_of example_meta_zero_close ''regularMarketPrice'')"
    "ordinary (map_of example_meta_zero_close ''previousClose'')"
    by (simp_all add: ordinary_def example_meta_zero_close_def)
  from quote_change_presence_checked
         [OF example_get [of example_meta_zero_close "''AAPL''"] example_status
             example_json example_body refl refl ord2 [THEN ordinary_numeric],
          THEN conjunct2, THEN conjunct2, THEN conjunct2, THEN conjunct2, THEN conjunct2,
          rule_format, OF conjI [OF ord2]]
  obtain q mk ct pt where
    q: "quote_of ''AAPL'' (PDict example_meta_zero_close) = Inr q"
    and mk: "change_emoji (change q) = Inr mk"
    and ct: "py_format_2f ?w2 (change q) = Inr ct"
    and pt: "py_format_2f ?w2 (change_percent q) = Inr pt"
    and res: "snd (get_stock_price ?w2 ''AAPL'')
      = Inr (quote_block_part1 @
             field_text ?w2 (map_of example_meta_zero_close ''symbol'') ''AAPL'' @
             quote_block_part2 @
             field_text ?w2 (map_of example_meta_zero_close ''regularMarketPrice'') ''N/A'' @
             quote_block_part3 @
             field_text ?w2 (map_of example_meta_zero_close ''currency'') ''TWD'' @
             quote_block_part4 @
             field_text ?w2 (map_of example_meta_zero_close ''previousClose'') ''N/A'' @
             quote_block_part5 @
             field_text ?w2 (map_of example_meta_zero_close ''currency'') ''TWD'' @
             quote_block_part6 @ mk @
             quote_block_part7 @ ct @
             quote_block_part8 @ pt @
             quote_block_part9 @ now ?w2 @
             quote_block_part10)"
    by blast
  from q example_quote_zero_close have q2: "change q = PFloat (Num 600)"
    "change_percent q = PInt 0"
    by auto
  from mk q2 have mk2: "mk = emoji_up"
    by (simp add: change_emoji_def py_lt_zero_def py_gt_zero_def)
  from ct q2 have ct2: "ct = ''+600.00''"
    by (simp add: py_format_2f_float example_world_quote_simps example_signed_2f_def)
  from pt q2 have pt2: "pt = ''+0.00''"
    by (simp add: py_format_2f_0 example_world_quote_simps example_signed_2f_def)
  from res mk2 ct2 pt2 have second: "snd (get_stock_price ?w2 ''AAPL'')
       = Inr (quote_block_part1 @ ''AAPL'' @
              quote_block_part2 @ ''600.0'' @
              quote_block_part3 @ ''TWD'' @
              quote_block_part4 @ ''0.0'' @
              quote_block_part5 @ ''TWD'' @
              quote_block_part6 @ emoji_up @
              quote_block_part7 @ ''+600.00'' @
              quote_block_part8 @ ''+0.00'' @
              quote_block_part9 @ ''2024-01-02 03:04:05'' @
              quote_block_part10)"
    by (simp add: example_world_quote_simps field_text_def example_meta_zero_close_def
          example_value_str_def)
  have ord3: "ordinary (map_of example_meta ''regularMarketPrice'')"
    "ordinary (map_of example_meta ''previousClose'')"
    by (simp_all add: ordinary_def example_meta_def)
  from quote_change_presence_checked
         [OF example_get [of example_meta "''AAPL''"] example_status
             example_json example_body refl refl ord3 [THEN ordinary_numeric],
          THEN conjunct2, THEN conjunct2, THEN conjunct2, THEN conjunct2, THEN conjunct2,
          rule_format, OF conjI [OF ord3]]
  obtain q' mk' ct' pt' where
    q': "quote_of ''AAPL'' (PDict example_meta) = Inr q'"
    and mk': "change_emoji (change q') = Inr mk'"
    and ct': "py_format_2f ?w3 (change q') = Inr ct'"
    and pt': "py_format_2f ?w3 (change_percent q') = Inr pt'"
    and res': "snd (get_stock_price ?w3 ''AAPL'')
      = Inr (quote_block_part1 @
             field_text ?w3 (map_of example_meta ''symbol'') ''AAPL'' @
             quote_block_part2 @
             field_text ?w3 (map_of example_meta ''regularMarketPrice'') ''N/A'' @
             quote_block_part3 @
             field_text ?w3 (map_of example_meta ''currency'') ''TWD'' @
             quote_block_part4 @
             field_text ?w3 (map_of example_meta ''previousClose'') ''N/A'' @
             quote_block_part5 @
             field_text ?w3 (map_of example_meta ''currency'') ''TWD'' @
             quote_block_part6 @ mk' @
             quote_block_part7 @ ct' @
             quote_block_part8 @ pt' @
             quote_block_part9 @ now ?w3 @
             quote_block_part10)"
    by blast
  from q' example_quote have q3: "change q' = PFloat (Num 10)"
    "change_percent q' = PFloat (Num (1908304926851905 / 1125899906842624))"
    by auto
  from mk' q3 have mk3: "mk' = emoji_up"
    by (simp add: change_emoji_def py_lt_zero_def py_gt_zero_def)
  from ct' q3 have ct3: "ct' = ''+10.00''"
    by (simp add: py_format_2f_float example_world_quote_simps example_signed_2f_def)
  from pt' q3 have pt3: "pt' = ''+1.69''"
    by (simp add: py_format_2f_float example_world_quote_simps example_signed_2f_def)
  from res' mk3 ct3 pt3 have third: "snd (get_stock_price ?w3 ''AAPL'')
       = Inr (quote_block_part1 @ ''AAPL'' @
              quote_block_part2 @ ''600.0'' @
              quote_block_part3 @ ''TWD'' @
              quote_block_part4 @ ''590.0'' @
              quote_block_part5 @ ''TWD'' @
              quote_block_part6 @ emoji_up @
              quote_block_part7 @ ''+10.00'' @
              quote_block_part8 @ ''+1.69'' @
              quote_block_part9 @ ''2024-01-02 03:04:05'' @
              quote_block_part10)"
    by (simp add: example_world_quote_simps field_text_def example_meta_def
          example_value_str_def)
  from example_body [of example_meta_price_only] num1(1) absent1 first
    example_body [of example_meta_zero_close] zero2 ord2 second
    example_body [of example_meta] ord3 third
  show ?thesis by blast
qed

text \<open>
  Claim C10. For a 200 response whose body has the documented shape: whenever the code
  computes and formats the figures, the returned block shows \<^verbatim>\<open>TWD\<close> in both currency
  positions when \<^verbatim>\<open>meta\<close> has no currency, and the stock code that was asked for in the
  position of the symbol when \<^verbatim>\<open>meta\<close> has no symbol. The figures are computed and
  formatted when the prices are absent, \<^verbatim>\<open>float\<close>s or \<^verbatim>\<open>int\<close>s below \<open>2 ^ 1022\<close> in
  magnitude.
\<close>

theorem quote_block_defaults:
  assumes "http_get w (quote_url stock_code) = Inr r"
    and "status_code r = 200"
    and "json r = Inr data"
    and "spec_payload_meta data = Some m"
    and "p = map_of m ''regularMarketPrice''"
    and "pc = map_of m ''previousClose''"
  shows "(\<forall>q mk ct pt.
            quote_of stock_code (PDict m) = Inr q
            \<and> change_emoji (change q) = Inr mk
            \<and> py_format_2f w (change q) = Inr ct
            \<and> py_format_2f w (change_percent q) = Inr pt \<longrightarrow>
            (map_of m ''currency'' = None \<longrightarrow>
               snd (get_stock_price w stock_code)
                 = Inr (quote_block_part1 @ field_text w (map_of m ''symbol'') stock_code @
                        quote_block_part2 @ field_text w p ''N/A'' @
                        quote_block_part3 @ ''TWD'' @
                        quote_block_part4 @ field_text w pc ''N/A'' @
                        quote_block_part5 @ ''TWD'' @
                        quote_block_part6 @ mk @
                        quote_block_part7 @ ct @
                        quote_block_part8 @ pt @
                        quote_block_part9 @ now w @
                        quote_block_part10))
            \<and> (map_of m ''symbol'' = None \<longrightarrow>
                 snd (get_stock_price w stock_code)
                   = Inr (quote_block_part1 @ stock_code @
                          quote_block_part2 @ field_text w p ''N/A'' @
                          quote_block_part3 @ field_text w (map_of m ''currency'') ''TWD'' @
                          quote_block_part4 @ field_text w pc ''N/A'' @
                          quote_block_part5 @ field_text w (map_of m ''currency'') ''TWD'' @
                          quote_block_part6 @ mk @
                          quote_block_part7 @ ct @
                          quote_block_part8 @ pt @
                          quote_block_part9 @ now w @
                          quote_block_part10)))
         \<and> (ordinary p \<and> ordinary pc \<longrightarrow>
               (\<exists>q mk ct pt.
                  quote_of stock_code (PDict m) = Inr q
                  \<and> change_emoji (change q) = Inr mk
                  \<and> py_format_2f w (change q) = Inr ct
                  \<and> py_format_2f w (change_percent q) = Inr pt))"
proof (intro conjI allI impI)
  fix q mk ct pt
  assume h: "quote_of stock_code (PDict m) = Inr q
            \<and> change_emoji (change q) = Inr mk
            \<and> py_format_2f w (change q) = Inr ct
            \<and> py_format_2f w (change_percent q) = Inr pt"
  then have q: "quote_of stock_code (PDict m) = Inr q"
    and mk: "change_emoji (change q) = Inr mk"
    and ct: "py_format_2f w (change q) = Inr ct"
    and pt: "py_format_2f w (change_percent q) = Inr pt"
    by simp_all
  note block = get_stock_price_rendered [OF assms(1-4) q mk ct pt]
  note fields = quote_of_fields [OF q]
  {
    assume "map_of m ''currency'' = None"
    with block fields assms(5,6)
    show "snd (get_stock_price w stock_code)
                 = Inr (quote_block_part1 @ field_text w (map_of m ''symbol'') stock_code @
                        quote_block_part2 @ field_text w p ''N/A'' @
                        quote_block_part3 @ ''TWD'' @
                        quote_block_part4 @ field_text w pc ''N/A'' @
                        quote_block_part5 @ ''TWD'' @
                        quote_block_part6 @ mk @
                        quote_block_part7 @ ct @
                        quote_block_part8 @ pt @
                        quote_block_part9 @ now w @
                        quote_block_part10)"
      by (simp add: py_str_field) (simp add: field_text_def)
  }
  {
    assume "map_of m ''symbol'' = None"
    with block fields assms(5,6)
    show "snd (get_stock_price w stock_code)
                   = Inr (quote_block_part1 @ stock_code @
                          quote_block_part2 @ field_text w p ''N/A'' @
                          quote_block_part3 @ field_text w (map_of m ''currency'') ''TWD'' @
                          quote_block_part4 @ field_text w pc ''N/A'' @
                          quote_block_part5 @ field_text w (map_of m ''currency'') ''TWD'' @
                          quote_block_part6 @ mk @
                          quote_block_part7 @ ct @
                          quote_block_part8 @ pt @
                          quote_block_part9 @ now w @
                          quote_block_part10)"
      by (simp add: py_str_field) (simp add: field_text_def)
  }
next
  assume "ordinary p \<and> ordinary pc"
  then have ord: "ordinary (map_of m ''regularMarketPrice'')"
    "ordinary (map_of m ''previousClose'')"
    by (simp_all add: assms(5,6))
  from figures_when_ordinary [OF ord, of w] obtain ch pct mk ct pt where
    f: "spec_change (map_of m ''regularMarketPrice'') (map_of m ''previousClose'') = Inr ch"
      "spec_change_percent ch (map_of m ''previousClose'') = Inr pct"
      "change_emoji ch = Inr mk" "py_format_2f w ch = Inr ct" "py_format_2f w pct = Inr pt"
    by blast
  from rendered_from_figures(1) [OF assms(1-4) ord [THEN ordinary_numeric] f] f(3-5)
  show "\<exists>q mk ct pt.
                  quote_of stock_code (PDict m) = Inr q
                  \<and> change_emoji (change q) = Inr mk
                  \<and> py_format_2f w (change q) = Inr ct
                  \<and> py_format_2f w (change_percent q) = Inr pt"
    by auto
qed

theorem quote_block_defaults_witness:
  "http_get (example_world_quote example_meta) (quote_url ''AAPL'')
     = Inr \<lparr>status_code = 200, json = Inr (example_quote_body example_meta)\<rparr>
   \<and> spec_payload_meta (example_quote_body example_meta) = Some example_meta
   \<and> map_of example_meta ''currency'' = None
   \<and> map_of example_meta ''symbol'' = None
   \<and> ordinary (map_of example_meta ''regularMarketPrice'')
   \<and> ordinary (map_of example_meta ''previousClose'')
   \<and> quote_of ''AAPL'' (PDict example_meta)
       = Inr \<lparr>price = PFloat (Num 600), prev_close = PFloat (Num 590),
              change = PFloat (Num 10),
              change_percent = PFloat (Num (1908304926851905 / 1125899906842624)),
              symbol = PStr ''AAPL'', currency = PStr ''TWD''\<rparr>
   \<and> snd (get_stock_price (example_world_quote example_meta) ''AAPL'')
       = Inr (quote_block_part1 @ ''AAPL'' @
              quote_block_part2 @ ''600.0'' @
              quote_block_part3 @ ''TWD'' @
              quote_block_part4 @ ''590.0'' @
              quote_block_part5 @ ''TWD'' @
              quote_block_part6 @ emoji_up @
              quote_block_part7 @ ''+10.00'' @
              quote_block_part8 @ ''+1.69'' @
              quote_block_part9 @ ''2024-01-02 03:04:05'' @
              quote_block_part10)
   \<and> sublist ''TWD''
        (quote_block_part1 @ ''AAPL'' @
         quote_block_part2 @ ''600.0'' @
         quote_block_part3 @ ''TWD'' @
         quote_block_part4 @ ''590.0'' @
         quote_block_part5 @ ''TWD'' @
         quote_block_part6 @ emoji_up @
         quote_block_part7 @ ''+10.00'' @
         quote_block_part8 @ ''+1.69'' @
         quote_block_part9 @ ''2024-01-02 03:04:05'' @
         quote_block_part10)"
proof -
  let ?w = "example_world_quote example_meta"
  have absent: "map_of example_meta ''currency'' = None" "map_of example_meta ''symbol'' = None"
    by (simp_all add: example_meta_def)
  have ord: "ordinary (map_of example_meta ''regularMarketPrice'')"
    "ordinary (map_of example_meta ''previousClose'')"
    by (simp_all add: ordinary_def example_meta_def)
  have mk: "change_emoji (PFloat (Num 10)) = Inr emoji_up"
    by (simp add: change_emoji_def py_lt_zero_def py_gt_zero_def)
  have ct: "py_format_2f ?w (PFloat (Num 10)) = Inr ''+10.00''"
    by (simp add: py_format_2f_float example_world_quote_simps example_signed_2f_def)
  have pt: "py_format_2f ?w (PFloat (Num (1908304926851905 / 1125899906842624)))
      = Inr ''+1.69''"
    by (simp add: py_format_2f_float example_world_quote_simps example_signed_2f_def)
  from quote_block_defaults
         [OF example_get [of example_meta "''AAPL''"] example_status example_json
             example_body refl refl,
          THEN conjunct1, rule_format, THEN conjunct1, rule_format,
          of _ emoji_up "''+10.00''" "''+1.69''"]
       example_quote mk ct pt absent
  have "snd (get_stock_price ?w ''AAPL'')
      = Inr (quote_block_part1 @ field_text ?w (map_of example_meta ''symbol'') ''AAPL'' @
             quote_block_part2 @
             field_text ?w (map_of example_meta ''regularMarketPrice'') ''N/A'' @
             quote_block_part3 @ ''TWD'' @
             quote_block_part4 @ field_text ?w (map_of example_meta ''previousClose'') ''N/A'' @
             quote_block_part5 @ ''TWD'' @
             quote_block_part6 @ emoji_up @
             quote_block_part7 @ ''+10.00'' @
             quote_block_part8 @ ''+1.69'' @
             quote_block_part9 @ now ?w @
             quote_block_part10)"
    by simp
  then have result: "snd (get_stock_price ?w ''AAPL'')
       = Inr (quote_block_part1 @ ''AAPL'' @
              quote_block_part2 @ ''600.0'' @
              quote_block_part3 @ ''TWD'' @
              quote_block_part4 @ ''590.0'' @
              quote_block_part5 @ ''TWD'' @
              quote_block_part6 @ emoji_up @
              quote_block_part7 @ ''+10.00'' @
              quote_block_part8 @ ''+1.69'' @
              quote_block_part9 @ ''2024-01-02 03:04:05'' @
              quote_block_part10)"
    by (simp add: example_world_quote_simps field_text_def example_meta_def
          example_value_str_def)
  have contains: "sublist ''TWD''
        ((quote_block_part1 @ ''AAPL'' @ quote_block_part2 @ ''600.0'' @ quote_block_part3) @
         ''TWD'' @
         (quote_block_part4 @ ''590.0'' @
          quote_block_part5 @ ''TWD'' @
          quote_block_part6 @ emoji_up @
          quote_block_part7 @ ''+10.00'' @
          quote_block_part8 @ ''+1.69'' @
          quote_block_part9 @ ''2024-01-02 03:04:05'' @
          quote_block_part10))"
    by (rule sublist_appendI)
  from example_get [of example_meta "''AAPL''"] example_body [of example_meta] absent ord
    example_quote result contains
  show ?thesis by simp
qed

end
